(* ===== verification/Entros_Prelude.thy ===== *)
theory Entros_Prelude
  imports Main "HOL-Library.Word"
begin

text \<open>
  What every component shares: the machine types of the Rust sources, results
  (a sum whose left side is the error), the little-endian reading and writing of
  fixed-width values, and the two arithmetic operations of Rust's standard
  library that the program calls (\<open>i64::checked_sub\<close>, \<open>u64::saturating_add\<close>).

  A fixed array \<open>[u8; n]\<close> and a \<open>Pubkey\<close> (an array of 32 bytes) are words of
  \<open>8 * n\<close> bits, the word whose little-endian bytes are the array, so that their
  length is part of their type; \<open>le_bytes n\<close> gives the bytes back.
  Signed integers are words too, read with \<open>sint\<close>.
\<close>

unbundle bit_operations_syntax

named_theorems result_simps \<open>inversion of results: when a guarded computation succeeds\<close>
named_theorems codec_simps \<open>reading back what an encoder has written\<close>

section \<open>Machine types\<close>

type_synonym byte = "8 word"
type_synonym u16 = "16 word"
type_synonym u64 = "64 word"
type_synonym i64 = "64 word"
type_synonym bytes8 = "64 word"
type_synonym bytes64 = "512 word"
type_synonym pubkey = "256 word"

definition default_pubkey :: pubkey where
  "default_pubkey = 0"

section \<open>Results\<close>

text \<open>\<open>require\<close> is the \<open>require!\<close> of the sources, \<open>bind_result\<close> the \<open>?\<close> operator.\<close>

definition require :: "bool \<Rightarrow> 'e \<Rightarrow> 'e + unit" where
  "require c e = (if c then Inr () else Inl e)"

definition bind_result :: "'e + 'a \<Rightarrow> ('a \<Rightarrow> 'e + 'b) \<Rightarrow> 'e + 'b" where
  "bind_result m f = (case m of Inl e \<Rightarrow> Inl e | Inr x \<Rightarrow> f x)"

definition map_err :: "('e \<Rightarrow> 'f) \<Rightarrow> 'e + 'a \<Rightarrow> 'f + 'a" where
  "map_err g m = (case m of Inl e \<Rightarrow> Inl (g e) | Inr x \<Rightarrow> Inr x)"

definition ok_or :: "'a option \<Rightarrow> 'e \<Rightarrow> 'e + 'a" where
  "ok_or m e = (case m of None \<Rightarrow> Inl e | Some x \<Rightarrow> Inr x)"

definition is_ok :: "'e + 'a \<Rightarrow> bool" where
  "is_ok m = (case m of Inl e \<Rightarrow> False | Inr x \<Rightarrow> True)"

lemma bind_result_simps [simp]:
  "bind_result (Inl e) f = Inl e"
  "bind_result (Inr x) f = f x"
  by (simp_all add: bind_result_def)

lemma bind_result_Inr [result_simps]:
  "bind_result m f = Inr y \<longleftrightarrow> (\<exists>x. m = Inr x \<and> f x = Inr y)"
  by (cases m) auto

lemma bind_result_Inl [result_simps]:
  "bind_result m f = Inl e \<longleftrightarrow> m = Inl e \<or> (\<exists>x. m = Inr x \<and> f x = Inl e)"
  by (cases m) auto

lemma require_simps [simp]:
  "require True e = Inr ()"
  "require False e = Inl e"
  by (simp_all add: require_def)

lemma require_Inr [result_simps]: "require c e = Inr u \<longleftrightarrow> c"
  by (simp add: require_def)

lemma require_Inl [result_simps]: "require c e = Inl e' \<longleftrightarrow> \<not> c \<and> e' = e"
  by (auto simp add: require_def)

lemma map_err_simps [simp]:
  "map_err g (Inl e) = Inl (g e)"
  "map_err g (Inr x) = Inr x"
  by (simp_all add: map_err_def)

lemma map_err_Inr [result_simps]: "map_err g m = Inr x \<longleftrightarrow> m = Inr x"
  by (cases m) auto

lemma map_err_Inl [result_simps]: "map_err g m = Inl e \<longleftrightarrow> (\<exists>e'. m = Inl e' \<and> e = g e')"
  by (cases m) auto

lemma ok_or_simps [simp]:
  "ok_or None e = Inl e"
  "ok_or (Some x) e = Inr x"
  by (simp_all add: ok_or_def)

lemma ok_or_Inr [result_simps]: "ok_or m e = Inr x \<longleftrightarrow> m = Some x"
  by (cases m) auto

lemma ok_or_Inl [result_simps]: "ok_or m e = Inl e' \<longleftrightarrow> m = None \<and> e' = e"
  by (cases m) auto

lemma is_ok_simps [simp]:
  "is_ok (Inl e) = False"
  "is_ok (Inr x) = True"
  by (simp_all add: is_ok_def)

lemma is_ok_iff: "is_ok m \<longleftrightarrow> (\<exists>x. m = Inr x)"
  by (cases m) auto

section \<open>Little-endian bytes\<close>

primrec le_bytes :: "nat \<Rightarrow> 'a::len word \<Rightarrow> byte list" where
  "le_bytes 0 w = []"
| "le_bytes (Suc n) w = ucast w # le_bytes n (drop_bit 8 w)"

primrec le_word :: "byte list \<Rightarrow> 'a::len word" where
  "le_word [] = 0"
| "le_word (b # bs) = ucast b OR push_bit 8 (le_word bs)"

lemma length_le_bytes [simp]: "length (le_bytes n w) = n"
  by (induction n arbitrary: w) auto

lemma le_word_le_bytes_take_bit: "le_word (le_bytes n w) = take_bit (8 * n) w"
proof (induction n arbitrary: w)
  case 0
  then show ?case by simp
next
  case (Suc n)
  show ?case
    by (rule bit_word_eqI) (auto simp add: Suc bit_simps)
qed

lemma le_word_le_bytes [codec_simps]:
  fixes w :: "'a::len word"
  assumes "LENGTH('a) = 8 * n"
  shows "le_word (le_bytes n w) = w"
  using assms by (simp add: le_word_le_bytes_take_bit take_bit_word_eq_self)

lemma bit_le_word_bound: "bit (le_word bs :: 'a::len word) n \<Longrightarrow> n < 8 * length bs"
proof (induction bs arbitrary: n)
  case Nil
  then show ?case by simp
next
  case (Cons b bs)
  have "bit b n \<or> bit (le_word bs :: 'a word) (n - 8) \<and> 8 \<le> n"
    using Cons.prems by (auto simp add: bit_simps)
  moreover have "bit b n \<Longrightarrow> n < 8"
    using bit_imp_le_length [of b n] by simp
  ultimately show ?case
    using Cons.IH [of "n - 8"] by fastforce
qed

lemma le_bytes_le_word:
  assumes "8 * length bs \<le> LENGTH('a)"
  shows "le_bytes (length bs) (le_word bs :: 'a::len word) = bs"
  using assms
proof (induction bs)
  case Nil
  then show ?case by simp
next
  case (Cons b bs)
  let ?v = "le_word bs :: 'a word"
  have "ucast (ucast b OR push_bit 8 ?v) = b"
    using Cons.prems by (intro bit_word_eqI) (auto simp add: bit_simps)
  moreover have "drop_bit 8 (ucast b OR push_bit 8 ?v) = ?v"
  proof (rule bit_word_eqI)
    fix n assume "n < LENGTH('a)"
    have "bit ?v n \<Longrightarrow> n + 8 < LENGTH('a)"
      using bit_le_word_bound [of bs n] Cons.prems by force
    moreover have "\<not> bit b (n + 8)"
      using bit_imp_le_length [of b "n + 8"] by auto
    ultimately show "bit (drop_bit 8 (ucast b OR push_bit 8 ?v)) n = bit ?v n"
      by (auto simp add: bit_simps add.commute)
  qed
  ultimately show ?case using Cons by simp
qed

lemma le_bytes_zero [simp]: "le_bytes n 0 = replicate n 0"
  by (induction n) auto

lemma le_word_zeros [simp]: "le_word (replicate n 0) = 0"
  by (induction n) auto

lemma le_bytes_inject:
  fixes v w :: "'a::len word"
  assumes "LENGTH('a) = 8 * n"
  shows "le_bytes n v = le_bytes n w \<longleftrightarrow> v = w"
  using le_word_le_bytes [OF assms] by metis

definition seed_str :: "string \<Rightarrow> byte list" where
  "seed_str s = map of_char s"

definition key_bytes :: "pubkey \<Rightarrow> byte list" where
  "key_bytes k = le_bytes 32 k"

lemma length_seed_str [simp]: "length (seed_str s) = length s"
  by (simp add: seed_str_def)

lemma length_key_bytes [simp]: "length (key_bytes k) = 32"
  by (simp add: key_bytes_def)

lemma key_bytes_inject [simp]: "key_bytes k = key_bytes k' \<longleftrightarrow> k = k'"
  by (simp add: key_bytes_def le_bytes_inject)

lemma le_word_key_bytes [simp]: "le_word (key_bytes k) = k"
  by (simp add: key_bytes_def le_word_le_bytes)

section \<open>Checked and saturating arithmetic\<close>

definition checked_sub_i64 :: "i64 \<Rightarrow> i64 \<Rightarrow> i64 option" where
  "checked_sub_i64 a b =
     (if - (2 ^ 63) \<le> sint a - sint b \<and> sint a - sint b < 2 ^ 63 then Some (a - b) else None)"

definition i64_max :: i64 where
  "i64_max = 0x7FFFFFFFFFFFFFFF"

definition u64_max :: u64 where
  "u64_max = 0xFFFFFFFFFFFFFFFF"

definition saturating_add_u64 :: "u64 \<Rightarrow> u64 \<Rightarrow> u64" where
  "saturating_add_u64 a b = (if unat a + unat b < 2 ^ 64 then a + b else u64_max)"

lemma sint_i64_range: "- (2 ^ 63) \<le> sint (a :: i64) \<and> sint a < 2 ^ 63"
  using sint_greater_eq [of a] sint_less [of a] by simp

lemma sint_i64_max: "sint i64_max = 2 ^ 63 - 1"
  by (simp add: i64_max_def)

lemma sint_sub_in_range:
  assumes "- (2 ^ 63) \<le> sint a - sint b" "sint a - sint b < 2 ^ 63"
  shows "sint ((a :: i64) - b) = sint a - sint b"
  using assms by (simp add: sint_word_ariths signed_take_bit_int_eq_self)

lemma checked_sub_i64_Some:
  "checked_sub_i64 a b = Some c \<Longrightarrow> sint c = sint a - sint b"
  by (auto simp add: checked_sub_i64_def sint_sub_in_range split: if_splits)

lemma unat_u64_max: "unat u64_max = 2 ^ 64 - 1"
  by (simp add: u64_max_def)

lemma unat_saturating_add_u64:
  "unat (saturating_add_u64 a b) = min (unat a + unat b) (2 ^ 64 - 1)"
proof (cases "unat a + unat b < 2 ^ 64")
  case True
  then show ?thesis by (simp add: saturating_add_u64_def unat_word_ariths)
next
  case False
  then show ?thesis by (simp add: saturating_add_u64_def unat_u64_max)
qed

lemma saturating_add_u64_mono:
  "a \<le> a' \<Longrightarrow> saturating_add_u64 a b \<le> saturating_add_u64 a' b"
  by (simp add: word_le_nat_alt unat_saturating_add_u64)

lemma saturating_add_u64_ge: "a \<le> saturating_add_u64 a b"
proof -
  have "unat a < 2 ^ 64" using unsigned_less [of a] by simp
  then show ?thesis by (simp add: word_le_nat_alt unat_saturating_add_u64)
qed

end
