(* ===== verification/Entros_Error.thy ===== *)
theory Entros_Error
  imports Entros_Prelude
begin

text \<open>
  \<open>error.rs\<close>: the errors of the program, in declaration order, their numeric
  codes (Anchor numbers the variants of an \<open>#[error_code]\<close> enum from 6000, the
  codes the integration tests compare with), and the results of an instruction.
  Next to the program's own errors an instruction returns the errors of Anchor's
  account constraints, named by their documented constants, an error code of
  another program's code (\<open>External\<close>), or panics (\<open>Panicked\<close>).
\<close>

datatype entros_error =
    InvalidRealmAuthority
  | MissingIdentityAccount
  | InvalidIdentityPda
  | InvalidIdentityOwner
  | InvalidIdentityData
  | InsufficientTrustScore
  | VerificationExpired
  | VoterWeightRecordRealmMismatch
  | VoterWeightRecordMintMismatch
  | VoterWeightRecordOwnerMismatch
  | RealmHasNoAuthority
  | GoverningTokenOwnerSignerMismatch
  | InvalidMaxVerificationAge
  | InvalidMaxVoterWeight
  | InvalidWeightActionTarget

primrec error_index :: "entros_error \<Rightarrow> nat" where
  "error_index InvalidRealmAuthority = 0"
| "error_index MissingIdentityAccount = 1"
| "error_index InvalidIdentityPda = 2"
| "error_index InvalidIdentityOwner = 3"
| "error_index InvalidIdentityData = 4"
| "error_index InsufficientTrustScore = 5"
| "error_index VerificationExpired = 6"
| "error_index VoterWeightRecordRealmMismatch = 7"
| "error_index VoterWeightRecordMintMismatch = 8"
| "error_index VoterWeightRecordOwnerMismatch = 9"
| "error_index RealmHasNoAuthority = 10"
| "error_index GoverningTokenOwnerSignerMismatch = 11"
| "error_index InvalidMaxVerificationAge = 12"
| "error_index InvalidMaxVoterWeight = 13"
| "error_index InvalidWeightActionTarget = 14"

definition error_code :: "entros_error \<Rightarrow> nat" where
  "error_code e = 6000 + error_index e"

lemma error_index_inject [simp]: "error_index e = error_index e' \<longleftrightarrow> e = e'"
  by (cases e; cases e') simp_all

lemma error_code_inject [simp]: "error_code e = error_code e' \<longleftrightarrow> e = e'"
  by (simp add: error_code_def)

lemma error_index_bound: "error_index e < 15"
  by (cases e) simp_all

text \<open>Errors are ordered by their code.\<close>

instantiation entros_error :: linorder
begin

definition less_eq_entros_error :: "entros_error \<Rightarrow> entros_error \<Rightarrow> bool" where
  "less_eq_entros_error e e' \<longleftrightarrow> error_code e \<le> error_code e'"

definition less_entros_error :: "entros_error \<Rightarrow> entros_error \<Rightarrow> bool" where
  "less_entros_error e e' \<longleftrightarrow> error_code e < error_code e'"

instance
  by standard (auto simp add: less_eq_entros_error_def less_entros_error_def)

end

text \<open>The constraint errors of Anchor that the account structs can raise.\<close>

datatype anchor_error =
    AccountNotInitialized
  | AccountOwnedByWrongProgram
  | AccountNotSigner
  | AccountDiscriminatorNotFound
  | AccountDiscriminatorMismatch
  | AccountDidNotDeserialize
  | AccountDidNotSerialize
  | InvalidProgramId
  | InvalidProgramExecutable
  | ConstraintMut
  | ConstraintRaw
  | ConstraintOwner
  | ConstraintSeeds
  | ConstraintExecutable
  | ConstraintClose

datatype program_error =
    Entros entros_error
  | Anchor anchor_error
  | External nat
  | Panicked

end
