(* ===== verification/Solana_Runtime.thy ===== *)
theory Solana_Runtime
  imports Entros_Error
begin

text \<open>
  The environment of the program. Ledger, account metas and the clock sysvar are
  the data the handlers receive. Code that is not part of the repository is a
  parameter: the record \<open>runtime\<close> holds the address derivation of the Solana SDK,
  the realm lookup of spl-governance, the discriminators computed by Anchor and by
  the addin API, and the two framework effects of the \<open>init\<close> and \<open>close\<close>
  attributes. The predicate \<open>runtime_ok\<close> states the documented behaviour of the
  last three that the program relies on; nothing is assumed of the first two.

  The meaning of the account attributes (\<open>mut\<close>, \<open>seeds\<close>, \<open>constraint\<close>,
  \<open>owner\<close>, \<open>executable\<close>, \<open>Signer\<close>, \<open>Account<T>\<close>, \<open>Program<System>\<close>) is
  the documented one, one definition each.
\<close>

section \<open>Accounts and the ledger\<close>

record account =
  acc_lamports :: u64
  acc_data :: "byte list"
  acc_owner :: pubkey
  acc_executable :: bool

text \<open>An address nobody has used holds the empty account of the system program.\<close>

type_synonym ledger = "pubkey \<Rightarrow> account"

record meta =
  key :: pubkey
  is_signer :: bool
  is_writable :: bool

record clock =
  slot :: u64
  unix_timestamp :: i64

definition SYSTEM_PROGRAM_ID :: pubkey where
  "SYSTEM_PROGRAM_ID = 0"

text \<open>\<open>declare_id!\<close> of \<open>lib.rs\<close>: the bytes of the base58 text.\<close>

definition PROGRAM_ID :: pubkey where
  "PROGRAM_ID = le_word
     [0x79, 0x1e, 0x16, 0x31, 0x21, 0x19, 0xef, 0xce, 0x37, 0x4a, 0x1d, 0xa9, 0xdc, 0x8f, 0x23, 0x48,
      0xb2, 0x9a, 0x97, 0xe5, 0xe8, 0x0a, 0x63, 0x7d, 0x95, 0xfc, 0xe2, 0x2c, 0xb9, 0x3f, 0x84, 0x67]"

lemma PROGRAM_ID_not_system [simp]:
  "PROGRAM_ID \<noteq> SYSTEM_PROGRAM_ID" "SYSTEM_PROGRAM_ID \<noteq> PROGRAM_ID"
  by (simp_all add: PROGRAM_ID_def SYSTEM_PROGRAM_ID_def)

definition empty_account :: account where
  "empty_account =
     \<lparr>acc_lamports = 0, acc_data = [], acc_owner = SYSTEM_PROGRAM_ID, acc_executable = False\<rparr>"

definition fresh_account :: "account \<Rightarrow> bool" where
  "fresh_account a \<longleftrightarrow> acc_owner a = SYSTEM_PROGRAM_ID \<and> acc_data a = []"

text \<open>Two states of an account that differ in their lamports only.\<close>

definition same_content :: "account \<Rightarrow> account \<Rightarrow> bool" where
  "same_content a b \<longleftrightarrow>
     acc_data a = acc_data b \<and> acc_owner a = acc_owner b \<and> acc_executable a = acc_executable b"

lemma same_content_refl [simp, intro]: "same_content a a"
  by (simp add: same_content_def)

lemma same_content_sym: "same_content a b \<Longrightarrow> same_content b a"
  by (simp add: same_content_def)

lemma same_content_trans: "same_content a b \<Longrightarrow> same_content b c \<Longrightarrow> same_content a c"
  by (simp add: same_content_def)

lemma same_contentD:
  assumes "same_content a b"
  shows "acc_data a = acc_data b" "acc_owner a = acc_owner b"
    "acc_executable a = acc_executable b"
  using assms by (simp_all add: same_content_def)

section \<open>The code outside the repository\<close>

text \<open>Of spl-governance's realm the handlers read the authority only.\<close>

record realm_data =
  authority :: "pubkey option"

record runtime =
  find_program_address :: "byte list list \<Rightarrow> pubkey \<Rightarrow> pubkey \<times> byte"
  get_realm_data_for_governing_token_mint ::
    "pubkey \<Rightarrow> pubkey \<times> account \<Rightarrow> pubkey \<Rightarrow> nat + realm_data"
  REGISTRAR_DISCRIMINATOR :: bytes8
  VOTER_WEIGHT_DISCRIMINATOR :: bytes8
  MAX_VOTER_WEIGHT_DISCRIMINATOR :: bytes8
  anchor_init :: "pubkey \<Rightarrow> pubkey \<Rightarrow> nat \<Rightarrow> pubkey \<Rightarrow> ledger \<Rightarrow> nat + ledger"
  anchor_close :: "pubkey \<Rightarrow> pubkey \<Rightarrow> ledger \<Rightarrow> nat + ledger"

text \<open>
  \<open>anchor_init payer a space program\<close> creates the account \<open>a\<close>: it fails on an
  address that is in use, otherwise the account is zeroed, has the asked size and
  belongs to the program, and apart from it only the payer's lamports change.
  \<open>anchor_close a destination\<close> sends the lamports of \<open>a\<close> to the destination,
  resets its data and gives it back to the system program.
\<close>

definition init_ok :: "(pubkey \<Rightarrow> pubkey \<Rightarrow> nat \<Rightarrow> pubkey \<Rightarrow> ledger \<Rightarrow> nat + ledger) \<Rightarrow> bool" where
  "init_ok init \<longleftrightarrow>
     (\<forall>payer a space program L L'. init payer a space program L = Inr L' \<longrightarrow>
        fresh_account (L a) \<and>
        acc_data (L' a) = replicate space 0 \<and>
        acc_owner (L' a) = program \<and>
        \<not> acc_executable (L' a) \<and>
        (\<forall>k. k \<noteq> a \<longrightarrow> same_content (L' k) (L k)) \<and>
        (\<forall>k. k \<noteq> a \<longrightarrow> k \<noteq> payer \<longrightarrow> L' k = L k))"

definition close_ok :: "(pubkey \<Rightarrow> pubkey \<Rightarrow> ledger \<Rightarrow> nat + ledger) \<Rightarrow> bool" where
  "close_ok close \<longleftrightarrow>
     (\<forall>a destination L L'. close a destination L = Inr L' \<longrightarrow>
        a \<noteq> destination \<and>
        acc_lamports (L' a) = 0 \<and>
        fresh_account (L' a) \<and>
        unat (acc_lamports (L' destination)) =
          unat (acc_lamports (L destination)) + unat (acc_lamports (L a)) \<and>
        (\<forall>k. k \<noteq> a \<longrightarrow> same_content (L' k) (L k)) \<and>
        (\<forall>k. k \<noteq> a \<longrightarrow> k \<noteq> destination \<longrightarrow> L' k = L k))"

definition discriminators_ok :: "runtime \<Rightarrow> bool" where
  "discriminators_ok E \<longleftrightarrow>
     distinct [0, REGISTRAR_DISCRIMINATOR E, VOTER_WEIGHT_DISCRIMINATOR E,
               MAX_VOTER_WEIGHT_DISCRIMINATOR E]"

definition runtime_ok :: "runtime \<Rightarrow> bool" where
  "runtime_ok E \<longleftrightarrow> init_ok (anchor_init E) \<and> close_ok (anchor_close E) \<and> discriminators_ok E"

lemma runtime_init:
  assumes "runtime_ok E" "anchor_init E payer a space program L = Inr L'"
  shows "fresh_account (L a)" "acc_data (L' a) = replicate space 0" "acc_owner (L' a) = program"
    "\<not> acc_executable (L' a)" "k \<noteq> a \<Longrightarrow> same_content (L' k) (L k)"
    "k \<noteq> a \<Longrightarrow> k \<noteq> payer \<Longrightarrow> L' k = L k"
  using assms unfolding runtime_ok_def init_ok_def by blast+

lemma runtime_initD:
  "anchor_init E payer a space program L = Inr L' \<Longrightarrow> runtime_ok E \<Longrightarrow>
     fresh_account (L a) \<and> acc_data (L' a) = replicate space 0 \<and> acc_owner (L' a) = program \<and>
     \<not> acc_executable (L' a) \<and> (\<forall>k. k \<noteq> a \<longrightarrow> same_content (L' k) (L k)) \<and>
     (\<forall>k. k \<noteq> a \<longrightarrow> k \<noteq> payer \<longrightarrow> L' k = L k)"
  unfolding runtime_ok_def init_ok_def by blast

lemma runtime_close:
  assumes "runtime_ok E" "anchor_close E a destination L = Inr L'"
  shows "a \<noteq> destination" "acc_lamports (L' a) = 0" "fresh_account (L' a)"
    "unat (acc_lamports (L' destination)) =
       unat (acc_lamports (L destination)) + unat (acc_lamports (L a))"
    "k \<noteq> a \<Longrightarrow> same_content (L' k) (L k)"
    "k \<noteq> a \<Longrightarrow> k \<noteq> destination \<Longrightarrow> L' k = L k"
  using assms unfolding runtime_ok_def close_ok_def by blast+

lemma runtime_closeD:
  "anchor_close E a destination L = Inr L' \<Longrightarrow> runtime_ok E \<Longrightarrow>
     a \<noteq> destination \<and> acc_lamports (L' a) = 0 \<and> fresh_account (L' a) \<and>
     unat (acc_lamports (L' destination)) =
       unat (acc_lamports (L destination)) + unat (acc_lamports (L a)) \<and>
     (\<forall>k. k \<noteq> a \<longrightarrow> same_content (L' k) (L k)) \<and>
     (\<forall>k. k \<noteq> a \<longrightarrow> k \<noteq> destination \<longrightarrow> L' k = L k)"
  unfolding runtime_ok_def close_ok_def by blast

lemma runtime_discriminators:
  assumes "runtime_ok E"
  shows "REGISTRAR_DISCRIMINATOR E \<noteq> VOTER_WEIGHT_DISCRIMINATOR E"
    "VOTER_WEIGHT_DISCRIMINATOR E \<noteq> REGISTRAR_DISCRIMINATOR E"
    "REGISTRAR_DISCRIMINATOR E \<noteq> MAX_VOTER_WEIGHT_DISCRIMINATOR E"
    "MAX_VOTER_WEIGHT_DISCRIMINATOR E \<noteq> REGISTRAR_DISCRIMINATOR E"
    "VOTER_WEIGHT_DISCRIMINATOR E \<noteq> MAX_VOTER_WEIGHT_DISCRIMINATOR E"
    "MAX_VOTER_WEIGHT_DISCRIMINATOR E \<noteq> VOTER_WEIGHT_DISCRIMINATOR E"
    "REGISTRAR_DISCRIMINATOR E \<noteq> 0" "VOTER_WEIGHT_DISCRIMINATOR E \<noteq> 0"
    "MAX_VOTER_WEIGHT_DISCRIMINATOR E \<noteq> 0"
  using assms by (auto simp add: runtime_ok_def discriminators_ok_def)

section \<open>Account attributes\<close>

text \<open>A list of constraints is checked in order; the first one that fails is reported.\<close>

primrec check_all :: "('e + unit) list \<Rightarrow> 'e + unit" where
  "check_all [] = Inr ()"
| "check_all (c # cs) = bind_result c (\<lambda>_. check_all cs)"

lemma check_all_Cons_Inr [result_simps]:
  "check_all (c # cs) = Inr u \<longleftrightarrow> c = Inr () \<and> check_all cs = Inr ()"
  by (simp add: bind_result_Inr)

definition check_signer :: "meta \<Rightarrow> program_error + unit" where
  "check_signer m = require (is_signer m) (Anchor AccountNotSigner)"

definition check_mut :: "meta \<Rightarrow> program_error + unit" where
  "check_mut m = require (is_writable m) (Anchor ConstraintMut)"

definition check_raw :: "bool \<Rightarrow> program_error + unit" where
  "check_raw c = require c (Anchor ConstraintRaw)"

definition check_owner :: "ledger \<Rightarrow> meta \<Rightarrow> pubkey \<Rightarrow> program_error + unit" where
  "check_owner L m k = require (acc_owner (L (key m)) = k) (Anchor ConstraintOwner)"

definition check_executable :: "ledger \<Rightarrow> meta \<Rightarrow> program_error + unit" where
  "check_executable L m = require (acc_executable (L (key m))) (Anchor ConstraintExecutable)"

text \<open>\<open>close = destination\<close>: the account is not its own destination.\<close>

definition check_close :: "meta \<Rightarrow> meta \<Rightarrow> program_error + unit" where
  "check_close m destination = require (key m \<noteq> key destination) (Anchor ConstraintClose)"

definition pda :: "runtime \<Rightarrow> byte list list \<Rightarrow> pubkey" where
  "pda E seeds = fst (find_program_address E seeds PROGRAM_ID)"

definition check_seeds :: "runtime \<Rightarrow> meta \<Rightarrow> byte list list \<Rightarrow> program_error + unit" where
  "check_seeds E m seeds = require (key m = pda E seeds) (Anchor ConstraintSeeds)"

definition check_system_program :: "ledger \<Rightarrow> meta \<Rightarrow> program_error + unit" where
  "check_system_program L m =
     check_all [require (key m = SYSTEM_PROGRAM_ID) (Anchor InvalidProgramId),
                require (acc_executable (L (key m))) (Anchor InvalidProgramExecutable)]"

lemmas check_defs = check_signer_def check_mut_def check_raw_def check_owner_def
  check_executable_def check_close_def check_seeds_def check_system_program_def

text \<open>
  \<open>Account<T>\<close> on entry: the account is initialised and owned by the program
  (\<open>crate::ID\<close>, for all three account types), and its bytes decode as a \<open>T\<close>.
  On exit the value of a mutable account is serialised over the front of its
  buffer, whose size does not change.
\<close>

definition load_account :: "(byte list \<Rightarrow> program_error + 'a) \<Rightarrow> account \<Rightarrow> program_error + 'a" where
  "load_account try_deserialize a =
     (if acc_owner a = SYSTEM_PROGRAM_ID \<and> acc_lamports a = 0 then Inl (Anchor AccountNotInitialized)
      else if acc_owner a \<noteq> PROGRAM_ID then Inl (Anchor AccountOwnedByWrongProgram)
      else try_deserialize (acc_data a))"

lemma load_account_Inr [result_simps]:
  "load_account d a = Inr x \<longleftrightarrow> acc_owner a = PROGRAM_ID \<and> d (acc_data a) = Inr x"
  by (auto simp add: load_account_def)

definition overwrite :: "byte list \<Rightarrow> byte list \<Rightarrow> byte list" where
  "overwrite bs buffer = bs @ drop (length bs) buffer"

lemma length_overwrite: "length bs \<le> length buffer \<Longrightarrow> length (overwrite bs buffer) = length buffer"
  by (simp add: overwrite_def)

definition exit_account :: "pubkey \<Rightarrow> byte list \<Rightarrow> ledger \<Rightarrow> program_error + ledger" where
  "exit_account k bs L =
     (if length bs \<le> length (acc_data (L k))
      then Inr (L(k := (L k)\<lparr>acc_data := overwrite bs (acc_data (L k))\<rparr>))
      else Inl (Anchor AccountDidNotSerialize))"

lemma exit_account_Inr [result_simps]:
  "exit_account k bs L = Inr L' \<longleftrightarrow>
     length bs \<le> length (acc_data (L k)) \<and>
     L' = L(k := (L k)\<lparr>acc_data := overwrite bs (acc_data (L k))\<rparr>)"
  by (auto simp add: exit_account_def)

definition init_account :: "runtime \<Rightarrow> meta \<Rightarrow> meta \<Rightarrow> nat \<Rightarrow> ledger \<Rightarrow> program_error + ledger" where
  "init_account E payer m space L =
     map_err External (anchor_init E (key payer) (key m) space PROGRAM_ID L)"

definition close_account :: "runtime \<Rightarrow> meta \<Rightarrow> meta \<Rightarrow> ledger \<Rightarrow> program_error + ledger" where
  "close_account E m destination L = map_err External (anchor_close E (key m) (key destination) L)"

lemmas account_effect_defs = init_account_def close_account_def

end
