(* ===== verification/Borsh_Codec.thy ===== *)
theory Borsh_Codec
  imports Solana_Runtime "HOL-Library.Monad_Syntax"
begin

text \<open>
  The byte format in which the accounts are stored: the Borsh format that the
  \<open>AnchorSerialize\<close> and \<open>BorshSerialize\<close> derivations write (fields in
  declaration order, integers little endian, fixed arrays as they are, an option
  as a tag byte 0 or 1 followed by the value, a field-less enum as its index).

  The locale \<open>codec\<close> is the interface between the format and its users: an
  encoder, a parser that returns the rest of the input, and the least and greatest
  length of an encoding. Its two laws say that the parser accepts exactly the
  encodings; everything the accounts need (injectivity, no encoding is a prefix of
  another, short input is refused, a value written over an old buffer reads back)
  follows in the locale.
\<close>

locale codec =
  fixes enc :: "'a \<Rightarrow> byte list"
    and parse :: "byte list \<Rightarrow> ('a \<times> byte list) option"
    and shortest :: nat
    and longest :: nat
  assumes parse_enc: "parse (enc x @ rest) = Some (x, rest)"
    and parse_sound: "parse bs = Some (x, rest) \<Longrightarrow> bs = enc x @ rest"
    and enc_shortest: "shortest \<le> length (enc x)"
    and enc_longest: "length (enc x) \<le> longest"
begin

lemma parse_iff: "parse bs = Some (x, rest) \<longleftrightarrow> bs = enc x @ rest"
proof
  assume "parse bs = Some (x, rest)"
  then show "bs = enc x @ rest" by (rule parse_sound)
next
  assume "bs = enc x @ rest"
  then show "parse bs = Some (x, rest)" by (simp add: parse_enc)
qed

lemma parse_whole: "parse (enc x) = Some (x, [])"
  using parse_enc [of x "[]"] by simp

lemma prefix_free: "enc x @ r = enc y @ s \<longleftrightarrow> x = y \<and> r = s"
proof
  assume eq: "enc x @ r = enc y @ s"
  have "Some (x, r) = parse (enc x @ r)" by (simp only: parse_enc)
  also have "\<dots> = Some (y, s)" by (simp only: eq parse_enc)
  finally show "x = y \<and> r = s" by simp
qed simp

lemma enc_inject: "enc x = enc y \<longleftrightarrow> x = y"
  using prefix_free [of x "[]" y "[]"] by simp

lemma parse_short: "length bs < shortest \<Longrightarrow> parse bs = None"
proof (cases "parse bs")
  case (Some p)
  obtain x rest where "p = (x, rest)" by (cases p)
  with Some have "bs = enc x @ rest" by (simp add: parse_iff)
  then have "shortest \<le> length bs" using enc_shortest [of x] by simp
  then show "length bs < shortest \<Longrightarrow> parse bs = None" by simp
qed simp

lemma parse_overwrite: "parse (overwrite (enc x) buffer) = Some (x, drop (length (enc x)) buffer)"
  by (simp add: overwrite_def parse_enc)

end

text \<open>A codec whose encodings all have the same length.\<close>

locale fixed_codec = codec +
  assumes fixed: "shortest = longest"
begin

lemma length_enc: "length (enc x) = longest"
  using enc_shortest [of x] enc_longest [of x] fixed by simp

lemma rest_length: "parse bs = Some (x, rest) \<Longrightarrow> length rest = length bs - longest"
  by (simp add: parse_iff length_enc)

end

section \<open>Fixed-width values\<close>

definition parse_word :: "nat \<Rightarrow> byte list \<Rightarrow> ('a::len word \<times> byte list) option" where
  "parse_word n bs = (if length bs < n then None else Some (le_word (take n bs), drop n bs))"

lemma parse_word_sound:
  assumes "LENGTH('a) = 8 * n" "parse_word n bs = Some (w :: 'a::len word, rest)"
  shows "bs = le_bytes n w @ rest"
proof -
  from assms(2) have "n \<le> length bs" "w = le_word (take n bs)" "rest = drop n bs"
    by (auto simp add: parse_word_def split: if_splits)
  moreover from this have "le_bytes n w = take n bs"
    using le_bytes_le_word [where bs = "take n bs" and 'a = 'a] assms(1)
    by (simp add: min_absorb2)
  ultimately show ?thesis by simp
qed

lemma word_fixed_codec:
  assumes "LENGTH('a) = 8 * n"
  shows "fixed_codec (le_bytes n :: 'a::len word \<Rightarrow> byte list) (parse_word n) n n"
  using assms by unfold_locales (auto simp add: parse_word_def le_word_le_bytes intro: parse_word_sound)

lemma parse_word_zeros [codec_simps]:
  "n \<le> m \<Longrightarrow> parse_word n (replicate m 0) = Some (0, replicate (m - n) 0)"
  by (simp add: parse_word_def take_replicate drop_replicate min_def)

interpretation u16: fixed_codec "le_bytes 2 :: u16 \<Rightarrow> byte list" "parse_word 2" 2 2
  by (rule word_fixed_codec) simp

interpretation u64: fixed_codec "le_bytes 8 :: u64 \<Rightarrow> byte list" "parse_word 8" 8 8
  by (rule word_fixed_codec) simp

interpretation key32: fixed_codec "le_bytes 32 :: pubkey \<Rightarrow> byte list" "parse_word 32" 32 32
  by (rule word_fixed_codec) simp

interpretation array64: fixed_codec "le_bytes 64 :: bytes64 \<Rightarrow> byte list" "parse_word 64" 64 64
  by (rule word_fixed_codec) simp

section \<open>Options and enums\<close>

definition enc_option :: "('a \<Rightarrow> byte list) \<Rightarrow> 'a option \<Rightarrow> byte list" where
  "enc_option enc v = (case v of None \<Rightarrow> [0] | Some x \<Rightarrow> 1 # enc x)"

definition parse_option ::
    "(byte list \<Rightarrow> ('a \<times> byte list) option) \<Rightarrow> byte list \<Rightarrow> ('a option \<times> byte list) option" where
  "parse_option parse bs =
     (case bs of
        [] \<Rightarrow> None
      | t # bs' \<Rightarrow>
          if t = 0 then Some (None, bs')
          else if t = 1 then map_option (\<lambda>(x, rest). (Some x, rest)) (parse bs')
          else None)"

lemma enc_option_simps [simp]:
  "enc_option enc None = [0]"
  "enc_option enc (Some x) = 1 # enc x"
  by (simp_all add: enc_option_def)

lemma parse_option_zeros [codec_simps]:
  "0 < m \<Longrightarrow> parse_option parse (replicate m 0) = Some (None, replicate (m - 1) 0)"
  by (cases m) (simp_all add: parse_option_def)

context codec
begin

lemma option_codec: "codec (enc_option enc) (parse_option parse) 1 (Suc longest)"
proof
  fix v rest show "parse_option parse (enc_option enc v @ rest) = Some (v, rest)"
    by (cases v) (simp_all add: parse_option_def parse_enc)
next
  fix bs v rest assume "parse_option parse bs = Some (v, rest)"
  then show "bs = enc_option enc v @ rest"
    by (auto simp add: parse_option_def parse_iff split: list.splits if_splits)
next
  fix v show "1 \<le> length (enc_option enc v)" "length (enc_option enc v) \<le> Suc longest"
    by (cases v; simp add: enc_longest)+
qed

end

interpretation opt_u64: codec "enc_option (le_bytes 8 :: u64 \<Rightarrow> byte list)"
  "parse_option (parse_word 8)" 1 9
  using u64.option_codec by simp

interpretation opt_key32: codec "enc_option (le_bytes 32 :: pubkey \<Rightarrow> byte list)"
  "parse_option (parse_word 32)" 1 33
  using key32.option_codec by simp

lemmas leaf_parse_enc [codec_simps] =
  u16.parse_enc u64.parse_enc key32.parse_enc array64.parse_enc opt_u64.parse_enc opt_key32.parse_enc

lemmas leaf_parse_iff =
  u16.parse_iff u64.parse_iff key32.parse_iff array64.parse_iff opt_u64.parse_iff opt_key32.parse_iff

end
