(* ===== verification/Plugin_State.thy ===== *)
theory Plugin_State
  imports Borsh_Codec
begin

text \<open>
  The accounts of the program, \<open>state/registrar.rs\<close> and \<open>governance.rs\<close>: the
  registrar, the plugin's action enum and its conversion, and the two addin-api
  records that the macros of \<open>governance.rs\<close> wrap as Anchor accounts, with their
  space, their serialisation and their \<open>try_deserialize_unchecked\<close>. The two
  wrappers implement nothing but the unchecked reader, so Anchor's provided
  \<open>try_deserialize\<close> reads them without looking at the discriminator; the
  registrar, an \<open>#[account]\<close> struct, has its discriminator compared.

  The locale \<open>account_type\<close> is the contract of such a type with the handlers:
  a zeroed account decodes, a value fits in the space the account is created with,
  and what an exit stores is what the next load returns, whatever older bytes
  remain behind it.
\<close>

section \<open>Data types\<close>

record registrar =
  governance_program_id :: pubkey
  reg_realm :: pubkey
  reg_governing_token_mint :: pubkey
  min_trust_score :: u16
  max_verification_age :: i64
  reg_reserved :: bytes64

datatype voter_weight_action =
    CastVote | CommentProposal | CreateGovernance | CreateProposal | SignOffProposal

text \<open>\<open>spl_governance_addin_api::voter_weight::VoterWeightAction\<close>, the type converted to.\<close>

datatype addin_action =
    AddinCastVote | AddinCommentProposal | AddinCreateGovernance | AddinCreateProposal
  | AddinSignOffProposal

fun into_addin :: "voter_weight_action \<Rightarrow> addin_action" where
  "into_addin CastVote = AddinCastVote"
| "into_addin CommentProposal = AddinCommentProposal"
| "into_addin CreateGovernance = AddinCreateGovernance"
| "into_addin CreateProposal = AddinCreateProposal"
| "into_addin SignOffProposal = AddinSignOffProposal"

record voter_weight_record =
  account_discriminator :: bytes8
  vwr_realm :: pubkey
  vwr_governing_token_mint :: pubkey
  governing_token_owner :: pubkey
  voter_weight :: u64
  voter_weight_expiry :: "u64 option"
  weight_action :: "addin_action option"
  weight_action_target :: "pubkey option"
  vwr_reserved :: bytes8

record max_voter_weight_record =
  max_account_discriminator :: bytes8
  max_realm :: pubkey
  max_governing_token_mint :: pubkey
  max_voter_weight :: u64
  max_voter_weight_expiry :: "u64 option"
  max_reserved :: bytes8

section \<open>Enum bytes\<close>

fun plugin_action_byte :: "voter_weight_action \<Rightarrow> byte" where
  "plugin_action_byte CastVote = 0"
| "plugin_action_byte CommentProposal = 1"
| "plugin_action_byte CreateGovernance = 2"
| "plugin_action_byte CreateProposal = 3"
| "plugin_action_byte SignOffProposal = 4"

fun addin_action_byte :: "addin_action \<Rightarrow> byte" where
  "addin_action_byte AddinCastVote = 0"
| "addin_action_byte AddinCommentProposal = 1"
| "addin_action_byte AddinCreateGovernance = 2"
| "addin_action_byte AddinCreateProposal = 3"
| "addin_action_byte AddinSignOffProposal = 4"

definition enc_action :: "addin_action \<Rightarrow> byte list" where
  "enc_action a = [addin_action_byte a]"

definition addin_action_of :: "byte \<Rightarrow> addin_action option" where
  "addin_action_of t =
     (if t = 0 then Some AddinCastVote
      else if t = 1 then Some AddinCommentProposal
      else if t = 2 then Some AddinCreateGovernance
      else if t = 3 then Some AddinCreateProposal
      else if t = 4 then Some AddinSignOffProposal
      else None)"

definition parse_action :: "byte list \<Rightarrow> (addin_action \<times> byte list) option" where
  "parse_action bs =
     (case bs of [] \<Rightarrow> None | t # rest \<Rightarrow> map_option (\<lambda>a. (a, rest)) (addin_action_of t))"

lemma addin_action_of_byte [simp]: "addin_action_of (addin_action_byte a) = Some a"
  by (cases a) (simp_all add: addin_action_of_def)

lemma addin_action_of_Some: "addin_action_of t = Some a \<Longrightarrow> t = addin_action_byte a"
  by (auto simp add: addin_action_of_def split: if_splits)

interpretation action: fixed_codec enc_action parse_action 1 1
  by unfold_locales
    (auto simp add: enc_action_def parse_action_def dest: addin_action_of_Some split: list.splits)

interpretation opt_action: codec "enc_option enc_action" "parse_option parse_action" 1 2
  using action.option_codec by (simp add: numeral_2_eq_2)

declare action.parse_enc [codec_simps] opt_action.parse_enc [codec_simps]

section \<open>The registrar\<close>

definition Registrar_LEN :: nat where
  "Registrar_LEN = 8 + 32 + 32 + 32 + 2 + 8 + 64"

definition enc_registrar :: "registrar \<Rightarrow> byte list" where
  "enc_registrar r =
     le_bytes 32 (governance_program_id r) @
     le_bytes 32 (reg_realm r) @
     le_bytes 32 (reg_governing_token_mint r) @
     le_bytes 2 (min_trust_score r) @
     le_bytes 8 (max_verification_age r) @
     le_bytes 64 (reg_reserved r)"

definition parse_registrar :: "byte list \<Rightarrow> (registrar \<times> byte list) option" where
  "parse_registrar bs = do {
     (gov, bs) \<leftarrow> parse_word 32 bs;
     (realm, bs) \<leftarrow> parse_word 32 bs;
     (mint, bs) \<leftarrow> parse_word 32 bs;
     (score, bs) \<leftarrow> parse_word 2 bs;
     (age, bs) \<leftarrow> parse_word 8 bs;
     (res, bs) \<leftarrow> parse_word 64 bs;
     Some (\<lparr>governance_program_id = gov, reg_realm = realm, reg_governing_token_mint = mint,
            min_trust_score = score, max_verification_age = age, reg_reserved = res\<rparr>, bs)}"

interpretation registrar: fixed_codec enc_registrar parse_registrar 170 170
proof
  fix r rest show "parse_registrar (enc_registrar r @ rest) = Some (r, rest)"
    by (simp add: enc_registrar_def parse_registrar_def codec_simps)
next
  fix bs r rest assume "parse_registrar bs = Some (r, rest)"
  then show "bs = enc_registrar r @ rest"
    by (auto simp add: enc_registrar_def parse_registrar_def leaf_parse_iff bind_eq_Some_conv)
qed (simp_all add: enc_registrar_def)

definition registrar_serialize :: "runtime \<Rightarrow> registrar \<Rightarrow> byte list" where
  "registrar_serialize E r = le_bytes 8 (REGISTRAR_DISCRIMINATOR E) @ enc_registrar r"

definition registrar_deserialize_unchecked :: "byte list \<Rightarrow> program_error + registrar" where
  "registrar_deserialize_unchecked bs =
     (if length bs < 8 then Inl Panicked
      else case parse_registrar (drop 8 bs) of
             None \<Rightarrow> Inl (Anchor AccountDidNotDeserialize)
           | Some (r, rest) \<Rightarrow> Inr r)"

definition registrar_deserialize :: "runtime \<Rightarrow> byte list \<Rightarrow> program_error + registrar" where
  "registrar_deserialize E bs =
     (if length bs < 8 then Inl (Anchor AccountDiscriminatorNotFound)
      else if take 8 bs \<noteq> le_bytes 8 (REGISTRAR_DISCRIMINATOR E)
           then Inl (Anchor AccountDiscriminatorMismatch)
      else registrar_deserialize_unchecked bs)"

section \<open>The voter weight record\<close>

definition VoterWeightRecord_get_space :: nat where
  "VoterWeightRecord_get_space = 8 + 32 + 32 + 32 + 8 + 9 + 2 + 33 + 8"

definition voter_weight_record_serialize :: "voter_weight_record \<Rightarrow> byte list" where
  "voter_weight_record_serialize v =
     le_bytes 8 (account_discriminator v) @
     le_bytes 32 (vwr_realm v) @
     le_bytes 32 (vwr_governing_token_mint v) @
     le_bytes 32 (governing_token_owner v) @
     le_bytes 8 (voter_weight v) @
     enc_option (le_bytes 8) (voter_weight_expiry v) @
     enc_option enc_action (weight_action v) @
     enc_option (le_bytes 32) (weight_action_target v) @
     le_bytes 8 (vwr_reserved v)"

definition parse_voter_weight_record :: "byte list \<Rightarrow> (voter_weight_record \<times> byte list) option" where
  "parse_voter_weight_record bs = do {
     (disc, bs) \<leftarrow> parse_word 8 bs;
     (realm, bs) \<leftarrow> parse_word 32 bs;
     (mint, bs) \<leftarrow> parse_word 32 bs;
     (tok_owner, bs) \<leftarrow> parse_word 32 bs;
     (weight, bs) \<leftarrow> parse_word 8 bs;
     (expiry, bs) \<leftarrow> parse_option (parse_word 8) bs;
     (action, bs) \<leftarrow> parse_option parse_action bs;
     (target, bs) \<leftarrow> parse_option (parse_word 32) bs;
     (res, bs) \<leftarrow> parse_word 8 bs;
     Some (\<lparr>account_discriminator = disc, vwr_realm = realm, vwr_governing_token_mint = mint,
            governing_token_owner = tok_owner, voter_weight = weight,
            voter_weight_expiry = expiry, weight_action = action,
            weight_action_target = target, vwr_reserved = res\<rparr>, bs)}"

lemma length_opt_parts:
  "length (enc_option (le_bytes n) w) = (case w of None \<Rightarrow> 1 | Some v \<Rightarrow> Suc n)"
  "length (enc_option enc_action a) = (case a of None \<Rightarrow> 1 | Some v \<Rightarrow> 2)"
  by (simp_all add: enc_action_def split: option.splits)

interpretation vwr: codec voter_weight_record_serialize parse_voter_weight_record 123 164
proof
  fix v rest show "parse_voter_weight_record (voter_weight_record_serialize v @ rest) = Some (v, rest)"
    by (simp add: voter_weight_record_serialize_def parse_voter_weight_record_def codec_simps)
next
  fix bs v rest assume "parse_voter_weight_record bs = Some (v, rest)"
  then show "bs = voter_weight_record_serialize v @ rest"
    by (auto simp add: voter_weight_record_serialize_def parse_voter_weight_record_def
        leaf_parse_iff opt_action.parse_iff bind_eq_Some_conv)
next
  fix v show "123 \<le> length (voter_weight_record_serialize v)"
    by (simp add: voter_weight_record_serialize_def length_opt_parts split: option.splits)
  show "length (voter_weight_record_serialize v) \<le> 164"
    by (simp add: voter_weight_record_serialize_def length_opt_parts split: option.splits)
qed

definition voter_weight_record_deserialize_unchecked ::
    "byte list \<Rightarrow> program_error + voter_weight_record" where
  "voter_weight_record_deserialize_unchecked bs =
     (case parse_voter_weight_record bs of
        None \<Rightarrow> Inl (Anchor AccountDidNotDeserialize)
      | Some (v, rest) \<Rightarrow> Inr v)"

section \<open>The max voter weight record\<close>

definition MaxVoterWeightRecord_get_space :: nat where
  "MaxVoterWeightRecord_get_space = 8 + 32 + 32 + 8 + 9 + 8"

definition max_voter_weight_record_serialize :: "max_voter_weight_record \<Rightarrow> byte list" where
  "max_voter_weight_record_serialize m =
     le_bytes 8 (max_account_discriminator m) @
     le_bytes 32 (max_realm m) @
     le_bytes 32 (max_governing_token_mint m) @
     le_bytes 8 (max_voter_weight m) @
     enc_option (le_bytes 8) (max_voter_weight_expiry m) @
     le_bytes 8 (max_reserved m)"

definition parse_max_voter_weight_record ::
    "byte list \<Rightarrow> (max_voter_weight_record \<times> byte list) option" where
  "parse_max_voter_weight_record bs = do {
     (disc, bs) \<leftarrow> parse_word 8 bs;
     (realm, bs) \<leftarrow> parse_word 32 bs;
     (mint, bs) \<leftarrow> parse_word 32 bs;
     (weight, bs) \<leftarrow> parse_word 8 bs;
     (expiry, bs) \<leftarrow> parse_option (parse_word 8) bs;
     (res, bs) \<leftarrow> parse_word 8 bs;
     Some (\<lparr>max_account_discriminator = disc, max_realm = realm, max_governing_token_mint = mint,
            max_voter_weight = weight, max_voter_weight_expiry = expiry, max_reserved = res\<rparr>, bs)}"

interpretation max: codec max_voter_weight_record_serialize parse_max_voter_weight_record 89 97
proof
  fix m rest
  show "parse_max_voter_weight_record (max_voter_weight_record_serialize m @ rest) = Some (m, rest)"
    by (simp add: max_voter_weight_record_serialize_def parse_max_voter_weight_record_def codec_simps)
next
  fix bs m rest assume "parse_max_voter_weight_record bs = Some (m, rest)"
  then show "bs = max_voter_weight_record_serialize m @ rest"
    by (auto simp add: max_voter_weight_record_serialize_def parse_max_voter_weight_record_def
        leaf_parse_iff bind_eq_Some_conv)
next
  fix m show "89 \<le> length (max_voter_weight_record_serialize m)"
    by (simp add: max_voter_weight_record_serialize_def length_opt_parts split: option.splits)
  show "length (max_voter_weight_record_serialize m) \<le> 97"
    by (simp add: max_voter_weight_record_serialize_def length_opt_parts split: option.splits)
qed

definition max_voter_weight_record_deserialize_unchecked ::
    "byte list \<Rightarrow> program_error + max_voter_weight_record" where
  "max_voter_weight_record_deserialize_unchecked bs =
     (case parse_max_voter_weight_record bs of
        None \<Rightarrow> Inl (Anchor AccountDidNotDeserialize)
      | Some (m, rest) \<Rightarrow> Inr m)"

section \<open>The contract of an account type\<close>

locale account_type =
  fixes ser :: "runtime \<Rightarrow> 'a \<Rightarrow> byte list"
    and raw :: "byte list \<Rightarrow> program_error + 'a"
    and deser :: "runtime \<Rightarrow> byte list \<Rightarrow> program_error + 'a"
    and zeroed :: 'a
    and space :: nat
  assumes ser_fits: "length (ser E x) \<le> space"
    and deser_ser: "deser E (ser E x @ rest) = Inr x"
    and deser_sound: "deser E bs = Inr x \<Longrightarrow> \<exists>rest. bs = ser E x @ rest"
    and raw_zeros: "raw (replicate space 0) = Inr zeroed"
begin

lemma deser_iff: "deser E bs = Inr x \<longleftrightarrow> (\<exists>rest. bs = ser E x @ rest)"
  using deser_sound deser_ser by blast

lemma exit_succeeds:
  "length (acc_data (L k)) = space \<Longrightarrow>
     exit_account k (ser E x) L =
       Inr (L(k := (L k)\<lparr>acc_data := overwrite (ser E x) (acc_data (L k))\<rparr>))"
  using ser_fits by (simp add: exit_account_def)

lemma load_after_exit:
  "exit_account k (ser E x) L = Inr L' \<Longrightarrow> acc_owner (L k) = PROGRAM_ID \<Longrightarrow>
     load_account (deser E) (L' k) = Inr x"
  by (auto simp add: result_simps overwrite_def deser_ser)

lemma exit_keeps_space:
  "exit_account k (ser E x) L = Inr L' \<Longrightarrow> length (acc_data (L' k)) = length (acc_data (L k))"
  by (auto simp add: result_simps length_overwrite)

lemma load_inject:
  "deser E (ser E x @ r) = deser E (ser E y @ s) \<longleftrightarrow> x = y"
  by (simp add: deser_ser)

end

definition zeroed_registrar :: registrar where
  "zeroed_registrar = \<lparr>governance_program_id = 0, reg_realm = 0, reg_governing_token_mint = 0,
     min_trust_score = 0, max_verification_age = 0, reg_reserved = 0\<rparr>"

definition zeroed_voter_weight_record :: voter_weight_record where
  "zeroed_voter_weight_record = \<lparr>account_discriminator = 0, vwr_realm = 0,
     vwr_governing_token_mint = 0, governing_token_owner = 0, voter_weight = 0,
     voter_weight_expiry = None, weight_action = None, weight_action_target = None,
     vwr_reserved = 0\<rparr>"

definition zeroed_max_voter_weight_record :: max_voter_weight_record where
  "zeroed_max_voter_weight_record = \<lparr>max_account_discriminator = 0, max_realm = 0,
     max_governing_token_mint = 0, max_voter_weight = 0, max_voter_weight_expiry = None,
     max_reserved = 0\<rparr>"

lemma registrar_deserialize_Inr:
  "registrar_deserialize E bs = Inr r \<longleftrightarrow> (\<exists>rest. bs = registrar_serialize E r @ rest)"
proof
  assume a: "registrar_deserialize E bs = Inr r"
  then obtain rest where "take 8 bs = le_bytes 8 (REGISTRAR_DISCRIMINATOR E)"
      and "drop 8 bs = enc_registrar r @ rest"
    by (auto simp add: registrar_deserialize_def registrar_deserialize_unchecked_def
        registrar.parse_iff split: if_splits option.splits)
  then have "bs = registrar_serialize E r @ rest"
    by (metis append_take_drop_id append_assoc registrar_serialize_def)
  then show "\<exists>rest. bs = registrar_serialize E r @ rest" ..
next
  assume "\<exists>rest. bs = registrar_serialize E r @ rest"
  then show "registrar_deserialize E bs = Inr r"
    by (auto simp add: registrar_deserialize_def registrar_deserialize_unchecked_def
        registrar_serialize_def registrar.parse_enc)
qed

lemma voter_weight_record_deserialize_Inr:
  "voter_weight_record_deserialize_unchecked bs = Inr v \<longleftrightarrow>
     (\<exists>rest. bs = voter_weight_record_serialize v @ rest)"
  by (auto simp add: voter_weight_record_deserialize_unchecked_def vwr.parse_iff vwr.prefix_free vwr.parse_enc
      split: option.splits)

lemma max_voter_weight_record_deserialize_Inr:
  "max_voter_weight_record_deserialize_unchecked bs = Inr m \<longleftrightarrow>
     (\<exists>rest. bs = max_voter_weight_record_serialize m @ rest)"
  by (auto simp add: max_voter_weight_record_deserialize_unchecked_def max.parse_iff max.prefix_free max.parse_enc
      split: option.splits)

interpretation reg: account_type registrar_serialize registrar_deserialize_unchecked
  registrar_deserialize zeroed_registrar Registrar_LEN
proof
  show "registrar_deserialize_unchecked (replicate Registrar_LEN 0) = Inr zeroed_registrar"
    by (simp add: registrar_deserialize_unchecked_def parse_registrar_def Registrar_LEN_def
        zeroed_registrar_def codec_simps)
qed (auto simp add: registrar_deserialize_Inr registrar_serialize_def registrar.length_enc
      Registrar_LEN_def)

interpretation voter: account_type "\<lambda>E. voter_weight_record_serialize"
  voter_weight_record_deserialize_unchecked "\<lambda>E. voter_weight_record_deserialize_unchecked"
  zeroed_voter_weight_record VoterWeightRecord_get_space
proof
  fix v show "length (voter_weight_record_serialize v) \<le> VoterWeightRecord_get_space"
    using vwr.enc_longest [of v] by (simp add: VoterWeightRecord_get_space_def)
next
  show "voter_weight_record_deserialize_unchecked (replicate VoterWeightRecord_get_space 0)
          = Inr zeroed_voter_weight_record"
    by (simp add: voter_weight_record_deserialize_unchecked_def parse_voter_weight_record_def
        VoterWeightRecord_get_space_def zeroed_voter_weight_record_def codec_simps)
qed (auto simp add: voter_weight_record_deserialize_Inr)

interpretation maxw: account_type "\<lambda>E. max_voter_weight_record_serialize"
  max_voter_weight_record_deserialize_unchecked "\<lambda>E. max_voter_weight_record_deserialize_unchecked"
  zeroed_max_voter_weight_record MaxVoterWeightRecord_get_space
proof
  fix m show "length (max_voter_weight_record_serialize m) \<le> MaxVoterWeightRecord_get_space"
    using max.enc_longest [of m] by (simp add: MaxVoterWeightRecord_get_space_def)
next
  show "max_voter_weight_record_deserialize_unchecked (replicate MaxVoterWeightRecord_get_space 0)
          = Inr zeroed_max_voter_weight_record"
    by (simp add: max_voter_weight_record_deserialize_unchecked_def
        parse_max_voter_weight_record_def MaxVoterWeightRecord_get_space_def
        zeroed_max_voter_weight_record_def codec_simps)
qed (auto simp add: max_voter_weight_record_deserialize_Inr)

lemma length_registrar_serialize: "length (registrar_serialize E r) = Registrar_LEN"
  by (simp add: registrar_serialize_def registrar.length_enc Registrar_LEN_def)

end
