(* ===== verification/Instruction_Contract.thy ===== *)
theory Instruction_Contract
  imports Plugin_State
begin

text \<open>
  What the instructions share: the realm-authority check that five handlers
  perform with the same statements, the seeds of the three kinds of addresses, and
  the contracts that every instruction keeps with the ledger.

  \<open>instruction\<close>: a successful run changes the content of one account only, the
  target, which before the run belonged to the program or was unused.
  \<open>admin_instruction\<close>: a run succeeds only with the signature of the authority
  that the realm lookup returns.
  \<open>creating_instruction\<close>, \<open>updating_instruction\<close>, \<open>closing_instruction\<close>: what
  happens to the target. The theories of the instructions interpret the locales
  for the nine instructions.
\<close>

section \<open>The realm authority\<close>

definition check_realm_authority ::
    "runtime \<Rightarrow> pubkey \<Rightarrow> ledger \<Rightarrow> meta \<Rightarrow> pubkey \<Rightarrow> meta \<Rightarrow> program_error + unit" where
  "check_realm_authority E gov L realm mint signer =
     bind_result (map_err External
        (get_realm_data_for_governing_token_mint E gov (key realm, L (key realm)) mint)) (\<lambda>realm_data.
     bind_result (ok_or (authority realm_data) (Entros RealmHasNoAuthority)) (\<lambda>realm_authority.
     require (realm_authority = key signer) (Entros InvalidRealmAuthority)))"

text \<open>The lookup accepts the realm for the mint and names \<open>signer\<close> as its authority.\<close>

definition realm_authority_is ::
    "runtime \<Rightarrow> pubkey \<Rightarrow> pubkey \<Rightarrow> account \<Rightarrow> pubkey \<Rightarrow> pubkey \<Rightarrow> bool" where
  "realm_authority_is E gov realm realm_account mint signer \<longleftrightarrow>
     (case get_realm_data_for_governing_token_mint E gov (realm, realm_account) mint of
        Inl e \<Rightarrow> False
      | Inr d \<Rightarrow> authority d = Some signer)"

lemma check_realm_authority_Inr [result_simps]:
  "check_realm_authority E gov L realm mint signer = Inr u \<longleftrightarrow>
     realm_authority_is E gov (key realm) (L (key realm)) mint (key signer)"
  by (auto simp add: check_realm_authority_def realm_authority_is_def result_simps
      split: sum.splits)

lemma check_realm_authority_Inl:
  "check_realm_authority E gov L realm mint signer = Inl e \<Longrightarrow>
     (\<exists>code. e = External code) \<or> e = Entros RealmHasNoAuthority \<or> e = Entros InvalidRealmAuthority"
  by (auto simp add: check_realm_authority_def result_simps)

text \<open>
  The same, at the ledger before a call: the lookup sees the content that the realm
  account has there. When a call creates the very account it names as its realm, the
  lookup sees the account just created, zeroed and owned by the program.
\<close>

definition authorised_at ::
    "runtime \<Rightarrow> ledger \<Rightarrow> pubkey \<Rightarrow> pubkey \<Rightarrow> pubkey \<Rightarrow> pubkey \<Rightarrow> pubkey \<Rightarrow> bool" where
  "authorised_at E L target gov realm mint signer \<longleftrightarrow>
     (\<exists>acc. (same_content acc (L realm) \<or>
             realm = target \<and> fresh_account (L realm) \<and>
             acc_owner acc = PROGRAM_ID \<and> (\<forall>b \<in> set (acc_data acc). b = 0)) \<and>
        realm_authority_is E gov realm acc mint signer)"

lemma authorised_at_now:
  "realm_authority_is E gov realm (L realm) mint signer \<Longrightarrow> authorised_at E L target gov realm mint signer"
  unfolding authorised_at_def by blast

lemma authorised_at_later:
  assumes "realm_authority_is E gov realm (L1 realm) mint signer"
    and "\<forall>k. k \<noteq> target \<longrightarrow> same_content (L1 k) (L k)"
    and "fresh_account (L target)" "acc_owner (L1 target) = PROGRAM_ID"
    and "acc_data (L1 target) = replicate n 0"
  shows "authorised_at E L target gov realm mint signer"
proof (cases "realm = target")
  case True
  then show ?thesis unfolding authorised_at_def using assms by (intro exI [of _ "L1 realm"]) auto
next
  case False
  then show ?thesis unfolding authorised_at_def using assms by blast
qed

text \<open>
  What the statements about runs assume of the chain in addition: the lookup accepts no
  realm at an address where a program is deployed (\<open>progs\<close>) nor at the default address,
  and closing an account does not make it executable. spl-governance derives the
  addresses of its realms, where nobody can deploy; the plugin takes any executable
  account as the governance program and leaves this to it.
\<close>

definition realms_are_no_programs :: "runtime \<Rightarrow> (pubkey \<Rightarrow> bool) \<Rightarrow> bool" where
  "realms_are_no_programs E progs \<longleftrightarrow>
     (\<forall>gov realm acc mint signer. realm_authority_is E gov realm acc mint signer \<longrightarrow>
        \<not> progs realm \<and> realm \<noteq> default_pubkey)"

definition close_deploys_nothing :: "runtime \<Rightarrow> bool" where
  "close_deploys_nothing E \<longleftrightarrow>
     (\<forall>a destination L L'. anchor_close E a destination L = Inr L' \<longrightarrow>
        acc_executable (L' a) \<longrightarrow> acc_executable (L a))"

definition chain_ok :: "runtime \<Rightarrow> (pubkey \<Rightarrow> bool) \<Rightarrow> bool" where
  "chain_ok E progs \<longleftrightarrow>
     runtime_ok E \<and> realms_are_no_programs E progs \<and> close_deploys_nothing E"

lemma chain_okD:
  assumes "chain_ok E progs"
  shows "runtime_ok E"
    and "realm_authority_is E gov realm acc mint signer \<Longrightarrow> \<not> progs realm \<and> realm \<noteq> default_pubkey"
    and "anchor_close E a destination L = Inr L' \<Longrightarrow> acc_executable (L' a) \<Longrightarrow> acc_executable (L a)"
  using assms unfolding chain_ok_def realms_are_no_programs_def close_deploys_nothing_def by blast+

section \<open>Addresses\<close>

definition registrar_seeds :: "pubkey \<Rightarrow> pubkey \<Rightarrow> byte list list" where
  "registrar_seeds realm mint = [seed_str ''registrar'', key_bytes realm, key_bytes mint]"

definition voter_weight_record_seeds :: "pubkey \<Rightarrow> pubkey \<Rightarrow> pubkey \<Rightarrow> byte list list" where
  "voter_weight_record_seeds realm mint token_owner =
     [seed_str ''voter-weight-record'', key_bytes realm, key_bytes mint, key_bytes token_owner]"

definition max_voter_weight_record_seeds :: "pubkey \<Rightarrow> pubkey \<Rightarrow> byte list list" where
  "max_voter_weight_record_seeds realm mint =
     [seed_str ''max-voter-weight-record'', key_bytes realm, key_bytes mint]"

lemma voter_seeds_inject:
  "voter_weight_record_seeds r m w = voter_weight_record_seeds r' m' w' \<longleftrightarrow> r = r' \<and> m = m' \<and> w = w'"
  by (simp add: voter_weight_record_seeds_def)

lemma registrar_seeds_inject:
  "registrar_seeds r m = registrar_seeds r' m' \<longleftrightarrow> r = r' \<and> m = m'"
  by (simp add: registrar_seeds_def)

definition registrar_pda :: "runtime \<Rightarrow> pubkey \<Rightarrow> pubkey \<Rightarrow> pubkey" where
  "registrar_pda E realm mint = pda E (registrar_seeds realm mint)"

definition voter_weight_record_pda :: "runtime \<Rightarrow> pubkey \<Rightarrow> pubkey \<Rightarrow> pubkey \<Rightarrow> pubkey" where
  "voter_weight_record_pda E realm mint token_owner =
     pda E (voter_weight_record_seeds realm mint token_owner)"

definition max_voter_weight_record_pda :: "runtime \<Rightarrow> pubkey \<Rightarrow> pubkey \<Rightarrow> pubkey" where
  "max_voter_weight_record_pda E realm mint = pda E (max_voter_weight_record_seeds realm mint)"

lemmas pda_defs = registrar_pda_def voter_weight_record_pda_def max_voter_weight_record_pda_def

text \<open>The registrar account of an instruction that takes it as input.\<close>

definition check_registrar_seeds :: "runtime \<Rightarrow> meta \<Rightarrow> registrar \<Rightarrow> program_error + unit" where
  "check_registrar_seeds E m r =
     check_seeds E m (registrar_seeds (reg_realm r) (reg_governing_token_mint r))"

lemma check_registrar_seeds_Inr [result_simps]:
  "check_registrar_seeds E m r = Inr u \<longleftrightarrow>
     key m = registrar_pda E (reg_realm r) (reg_governing_token_mint r)"
  by (simp add: check_registrar_seeds_def check_seeds_def registrar_pda_def result_simps)

definition load_registrar :: "runtime \<Rightarrow> ledger \<Rightarrow> meta \<Rightarrow> program_error + registrar" where
  "load_registrar E L m = load_account (registrar_deserialize E) (L (key m))"

definition load_voter_weight_record :: "ledger \<Rightarrow> meta \<Rightarrow> program_error + voter_weight_record" where
  "load_voter_weight_record L m =
     load_account voter_weight_record_deserialize_unchecked (L (key m))"

definition load_max_voter_weight_record ::
    "ledger \<Rightarrow> meta \<Rightarrow> program_error + max_voter_weight_record" where
  "load_max_voter_weight_record L m =
     load_account max_voter_weight_record_deserialize_unchecked (L (key m))"

lemmas load_defs = load_registrar_def load_voter_weight_record_def load_max_voter_weight_record_def

text \<open>The governance program and the mint of the registrar a call presents.\<close>

definition registrar_scope :: "runtime \<Rightarrow> ledger \<Rightarrow> meta \<Rightarrow> (pubkey \<times> pubkey) option" where
  "registrar_scope E L m =
     (case load_registrar E L m of
        Inl e \<Rightarrow> None
      | Inr r \<Rightarrow> Some (governance_program_id r, reg_governing_token_mint r))"

lemma registrar_scope_Some:
  "acc_owner (L (key m)) = PROGRAM_ID \<Longrightarrow> registrar_deserialize E (acc_data (L (key m))) = Inr r \<Longrightarrow>
     registrar_scope E L m = Some (governance_program_id r, reg_governing_token_mint r)"
  by (simp add: registrar_scope_def load_registrar_def load_account_def)

section \<open>Contracts\<close>

locale instruction =
  fixes run :: "runtime \<Rightarrow> 'c \<Rightarrow> ledger \<Rightarrow> program_error + ledger"
    and target :: "'c \<Rightarrow> pubkey"
  assumes frame: "runtime_ok E \<Longrightarrow> run E c L = Inr L' \<Longrightarrow> k \<noteq> target c \<Longrightarrow> same_content (L' k) (L k)"
    and target_own: "runtime_ok E \<Longrightarrow> run E c L = Inr L' \<Longrightarrow>
      acc_owner (L (target c)) = PROGRAM_ID \<or> fresh_account (L (target c))"
begin

text \<open>Accounts in use by other programs keep their content.\<close>

lemma others_untouched:
  assumes "runtime_ok E" "run E c L = Inr L'"
    and "acc_owner (L k) \<noteq> PROGRAM_ID" "\<not> fresh_account (L k)"
  shows "same_content (L' k) (L k)"
  using assms frame target_own by metis

text \<open>A property of the content of each account, kept by the target, is kept by the run.\<close>

lemma lift_account_property:
  assumes "runtime_ok E" "run E c L = Inr L'"
    and content: "\<And>k a b. same_content a b \<Longrightarrow> P k b \<Longrightarrow> P k a"
    and before: "\<And>k. P k (L k)"
    and at_target: "P (target c) (L' (target c))"
  shows "P k (L' k)"
proof (cases "k = target c")
  case True
  then show ?thesis using at_target by simp
next
  case False
  then have "same_content (L' k) (L k)" using assms(1,2) frame by blast
  then show ?thesis using before by (rule content)
qed

end

text \<open>
  An instruction of the realm's administration: \<open>gate\<close> gives the realm account and
  the signer of a call, \<open>scope\<close> the governance program and the mint it asks for.
\<close>

locale admin_instruction = instruction +
  fixes gate :: "'a \<Rightarrow> meta \<times> meta"
    and scope :: "runtime \<Rightarrow> 'a \<Rightarrow> ledger \<Rightarrow> (pubkey \<times> pubkey) option"
  assumes authorised: "runtime_ok E \<Longrightarrow> run E c L = Inr L' \<Longrightarrow>
      \<exists>gov mint. scope E c L = Some (gov, mint) \<and> is_signer (snd (gate c)) \<and>
        authorised_at E L (target c) gov (key (fst (gate c))) mint (key (snd (gate c)))"
begin

lemma unsigned_refused:
  assumes "runtime_ok E" "\<not> is_signer (snd (gate c))"
  shows "\<not> is_ok (run E c L)"
  using authorised [OF assms(1)] assms(2) by (auto simp add: is_ok_iff)

lemma strangers_refused:
  assumes ok: "runtime_ok E"
    and stranger: "\<And>gov mint. scope E c L = Some (gov, mint) \<Longrightarrow>
      \<not> authorised_at E L (target c) gov (key (fst (gate c))) mint (key (snd (gate c)))"
  shows "\<not> is_ok (run E c L)"
proof
  assume "is_ok (run E c L)"
  then obtain L' where "run E c L = Inr L'" by (auto simp add: is_ok_iff)
  then show False using authorised [OF ok] stranger by blast
qed

end

locale creating_instruction = instruction +
  assumes creates: "runtime_ok E \<Longrightarrow> run E c L = Inr L' \<Longrightarrow>
      fresh_account (L (target c)) \<and> acc_owner (L' (target c)) = PROGRAM_ID"
begin

text \<open>An address can be created once: a second run with the same target is refused.\<close>

lemma no_second_creation:
  assumes "runtime_ok E" "run E c L = Inr L'" "target c' = target c"
  shows "\<not> is_ok (run E c' L')"
proof
  assume "is_ok (run E c' L')"
  then obtain L'' where "run E c' L' = Inr L''" by (auto simp add: is_ok_iff)
  then have "fresh_account (L' (target c))" using creates assms(1,3) by metis
  moreover have "acc_owner (L' (target c)) = PROGRAM_ID" using creates assms(1,2) by blast
  ultimately show False by (simp add: fresh_account_def)
qed

end

locale updating_instruction = instruction +
  assumes updates: "runtime_ok E \<Longrightarrow> run E c L = Inr L' \<Longrightarrow>
      length (acc_data (L' (target c))) = length (acc_data (L (target c))) \<and>
      L' = L(target c := (L (target c))\<lparr>acc_data := acc_data (L' (target c))\<rparr>)"
begin

lemma only_target_changes:
  assumes "runtime_ok E" "run E c L = Inr L'"
  shows "{k. L' k \<noteq> L k} \<subseteq> {target c}"
proof
  fix k assume "k \<in> {k. L' k \<noteq> L k}"
  moreover have "L' k = (L(target c := (L (target c))\<lparr>acc_data := acc_data (L' (target c))\<rparr>)) k"
    using updates [OF assms] by simp
  ultimately show "k \<in> {target c}" by (simp split: if_splits)
qed

text \<open>An update moves no lamports.\<close>

lemma lamports_kept:
  assumes "runtime_ok E" "run E c L = Inr L'"
  shows "acc_lamports (L' k) = acc_lamports (L k)"
proof -
  have "L' k = (L(target c := (L (target c))\<lparr>acc_data := acc_data (L' (target c))\<rparr>)) k"
    using updates [OF assms] by simp
  then show ?thesis by (simp split: if_splits)
qed

end

locale closing_instruction = instruction +
  fixes destination :: "'a \<Rightarrow> pubkey"
  assumes closes: "runtime_ok E \<Longrightarrow> run E c L = Inr L' \<Longrightarrow>
      fresh_account (L' (target c)) \<and> target c \<noteq> destination c \<and> acc_lamports (L' (target c)) = 0 \<and>
      unat (acc_lamports (L' (destination c))) =
        unat (acc_lamports (L (destination c))) + unat (acc_lamports (L (target c)))"
begin

text \<open>A closed account cannot be loaded as any account of the program.\<close>

lemma closed_not_loadable:
  assumes "runtime_ok E" "run E c L = Inr L'"
  shows "load_account d (L' (target c)) = Inl (Anchor AccountNotInitialized)"
  using closes [OF assms] by (simp add: load_account_def fresh_account_def)

end

end
