(* ===== verification/Registrar_Instructions.thy ===== *)
theory Registrar_Instructions
  imports Instruction_Contract
begin

text \<open>
  \<open>create_registrar.rs\<close>, \<open>update_registrar.rs\<close> and \<open>close_registrar.rs\<close>. For each
  instruction: the accounts struct (a record of account metas), the validation that
  \<open>derive(Accounts)\<close> generates from its attributes, the handler, and their
  composition with what Anchor does around the handler (creation before, exit or
  close after). The ledger the handler sees is the one after the creation.
\<close>

section \<open>create_registrar\<close>

record create_registrar_accounts =
  cr_registrar :: meta
  cr_governance_program_id :: meta
  cr_realm :: meta
  cr_governing_token_mint :: meta
  cr_realm_authority :: meta
  cr_payer :: meta
  cr_system_program :: meta

definition create_registrar_try_accounts ::
    "runtime \<Rightarrow> create_registrar_accounts \<Rightarrow> ledger \<Rightarrow> program_error + registrar \<times> ledger" where
  "create_registrar_try_accounts E c L =
     bind_result (check_all
       [check_signer (cr_realm_authority c),
        check_signer (cr_payer c),
        check_system_program L (cr_system_program c),
        check_seeds E (cr_registrar c)
          (registrar_seeds (key (cr_realm c)) (key (cr_governing_token_mint c)))]) (\<lambda>_.
     bind_result (init_account E (cr_payer c) (cr_registrar c) Registrar_LEN L) (\<lambda>L1.
     bind_result (registrar_deserialize_unchecked (acc_data (L1 (key (cr_registrar c))))) (\<lambda>r.
     bind_result (check_all
       [check_mut (cr_registrar c),
        check_executable L1 (cr_governance_program_id c),
        check_owner L1 (cr_realm c) (key (cr_governance_program_id c)),
        check_mut (cr_payer c)]) (\<lambda>_.
     Inr (r, L1)))))"

definition create_registrar ::
    "runtime \<Rightarrow> create_registrar_accounts \<Rightarrow> ledger \<Rightarrow> registrar \<Rightarrow> u16 \<Rightarrow> i64
       \<Rightarrow> program_error + registrar" where
  "create_registrar E c L r min_score max_age =
     bind_result (require (0 < sint max_age) (Entros InvalidMaxVerificationAge)) (\<lambda>_.
     bind_result (check_realm_authority E (key (cr_governance_program_id c)) L (cr_realm c)
                    (key (cr_governing_token_mint c)) (cr_realm_authority c)) (\<lambda>_.
     Inr (r\<lparr>governance_program_id := key (cr_governance_program_id c),
            reg_realm := key (cr_realm c),
            reg_governing_token_mint := key (cr_governing_token_mint c),
            min_trust_score := min_score,
            max_verification_age := max_age\<rparr>)))"

definition create_registrar_instruction ::
    "runtime \<Rightarrow> create_registrar_accounts \<Rightarrow> u16 \<Rightarrow> i64 \<Rightarrow> ledger \<Rightarrow> program_error + ledger" where
  "create_registrar_instruction E c min_score max_age L =
     bind_result (create_registrar_try_accounts E c L) (\<lambda>(r, L1).
     bind_result (create_registrar E c L1 r min_score max_age) (\<lambda>r'.
     exit_account (key (cr_registrar c)) (registrar_serialize E r') L1))"

section \<open>update_registrar\<close>

record update_registrar_accounts =
  ur_registrar :: meta
  ur_realm :: meta
  ur_realm_authority :: meta

definition update_registrar_try_accounts ::
    "runtime \<Rightarrow> update_registrar_accounts \<Rightarrow> ledger \<Rightarrow> program_error + registrar" where
  "update_registrar_try_accounts E c L =
     bind_result (load_registrar E L (ur_registrar c)) (\<lambda>r.
     bind_result (check_all
       [check_signer (ur_realm_authority c),
        check_registrar_seeds E (ur_registrar c) r,
        check_mut (ur_registrar c),
        check_raw (key (ur_realm c) = reg_realm r)]) (\<lambda>_.
     Inr r))"

definition update_registrar ::
    "runtime \<Rightarrow> update_registrar_accounts \<Rightarrow> ledger \<Rightarrow> registrar \<Rightarrow> u16 \<Rightarrow> i64
       \<Rightarrow> program_error + registrar" where
  "update_registrar E c L r min_score max_age =
     bind_result (require (0 < sint max_age) (Entros InvalidMaxVerificationAge)) (\<lambda>_.
     bind_result (check_realm_authority E (governance_program_id r) L (ur_realm c)
                    (reg_governing_token_mint r) (ur_realm_authority c)) (\<lambda>_.
     Inr (r\<lparr>min_trust_score := min_score, max_verification_age := max_age\<rparr>)))"

definition update_registrar_instruction ::
    "runtime \<Rightarrow> update_registrar_accounts \<Rightarrow> u16 \<Rightarrow> i64 \<Rightarrow> ledger \<Rightarrow> program_error + ledger" where
  "update_registrar_instruction E c min_score max_age L =
     bind_result (update_registrar_try_accounts E c L) (\<lambda>r.
     bind_result (update_registrar E c L r min_score max_age) (\<lambda>r'.
     exit_account (key (ur_registrar c)) (registrar_serialize E r') L))"

section \<open>close_registrar\<close>

record close_registrar_accounts =
  xr_registrar :: meta
  xr_realm :: meta
  xr_realm_authority :: meta
  xr_sol_destination :: meta

definition close_registrar_try_accounts ::
    "runtime \<Rightarrow> close_registrar_accounts \<Rightarrow> ledger \<Rightarrow> program_error + registrar" where
  "close_registrar_try_accounts E c L =
     bind_result (load_registrar E L (xr_registrar c)) (\<lambda>r.
     bind_result (check_all
       [check_signer (xr_realm_authority c),
        check_registrar_seeds E (xr_registrar c) r,
        check_mut (xr_registrar c),
        check_close (xr_registrar c) (xr_sol_destination c),
        check_raw (key (xr_realm c) = reg_realm r),
        check_mut (xr_sol_destination c)]) (\<lambda>_.
     Inr r))"

definition close_registrar ::
    "runtime \<Rightarrow> close_registrar_accounts \<Rightarrow> ledger \<Rightarrow> registrar \<Rightarrow> program_error + unit" where
  "close_registrar E c L r =
     check_realm_authority E (governance_program_id r) L (xr_realm c)
       (reg_governing_token_mint r) (xr_realm_authority c)"

definition close_registrar_instruction ::
    "runtime \<Rightarrow> close_registrar_accounts \<Rightarrow> ledger \<Rightarrow> program_error + ledger" where
  "close_registrar_instruction E c L =
     bind_result (close_registrar_try_accounts E c L) (\<lambda>r.
     bind_result (close_registrar E c L r) (\<lambda>_.
     close_account E (xr_registrar c) (xr_sol_destination c) L))"

section \<open>When the instructions succeed\<close>

lemma overwrite_registrar:
  "length bs = Registrar_LEN \<Longrightarrow> overwrite (registrar_serialize E r) bs = registrar_serialize E r"
  by (simp add: overwrite_def length_registrar_serialize)

lemma registrar_fits:
  "registrar_deserialize E bs = Inr r \<Longrightarrow> length (registrar_serialize E r') \<le> length bs"
  by (auto simp add: registrar_deserialize_Inr length_registrar_serialize)

definition configured_registrar :: "create_registrar_accounts \<Rightarrow> u16 \<Rightarrow> i64 \<Rightarrow> registrar" where
  "configured_registrar c min_score max_age =
     \<lparr>governance_program_id = key (cr_governance_program_id c),
      reg_realm = key (cr_realm c),
      reg_governing_token_mint = key (cr_governing_token_mint c),
      min_trust_score = min_score, max_verification_age = max_age, reg_reserved = 0\<rparr>"

lemma create_registrar_ok:
  assumes "runtime_ok E"
  shows "create_registrar_instruction E c min_score max_age L = Inr L' \<longleftrightarrow>
    0 < sint max_age \<and>
    is_signer (cr_realm_authority c) \<and> is_signer (cr_payer c) \<and>
    is_writable (cr_registrar c) \<and> is_writable (cr_payer c) \<and>
    key (cr_system_program c) = SYSTEM_PROGRAM_ID \<and>
    acc_executable (L (key (cr_system_program c))) \<and>
    key (cr_registrar c) = registrar_pda E (key (cr_realm c)) (key (cr_governing_token_mint c)) \<and>
    (\<exists>L1. anchor_init E (key (cr_payer c)) (key (cr_registrar c)) Registrar_LEN PROGRAM_ID L = Inr L1 \<and>
       acc_executable (L1 (key (cr_governance_program_id c))) \<and>
       acc_owner (L1 (key (cr_realm c))) = key (cr_governance_program_id c) \<and>
       realm_authority_is E (key (cr_governance_program_id c)) (key (cr_realm c))
         (L1 (key (cr_realm c))) (key (cr_governing_token_mint c)) (key (cr_realm_authority c)) \<and>
       L' = L1(key (cr_registrar c) := (L1 (key (cr_registrar c)))
              \<lparr>acc_data := registrar_serialize E (configured_registrar c min_score max_age)\<rparr>))"
  by (auto simp add: create_registrar_instruction_def create_registrar_try_accounts_def
      create_registrar_def init_account_def check_defs result_simps registrar_pda_def
      runtime_init(2) [OF assms] reg.raw_zeros zeroed_registrar_def configured_registrar_def
      overwrite_registrar length_registrar_serialize)

lemma update_registrar_ok:
  "update_registrar_instruction E c min_score max_age L = Inr L' \<longleftrightarrow>
    0 < sint max_age \<and> is_signer (ur_realm_authority c) \<and> is_writable (ur_registrar c) \<and>
    acc_owner (L (key (ur_registrar c))) = PROGRAM_ID \<and>
    (\<exists>r. registrar_deserialize E (acc_data (L (key (ur_registrar c)))) = Inr r \<and>
       key (ur_registrar c) = registrar_pda E (reg_realm r) (reg_governing_token_mint r) \<and>
       key (ur_realm c) = reg_realm r \<and>
       realm_authority_is E (governance_program_id r) (reg_realm r) (L (reg_realm r))
         (reg_governing_token_mint r) (key (ur_realm_authority c)) \<and>
       L' = L(key (ur_registrar c) := (L (key (ur_registrar c)))
              \<lparr>acc_data := overwrite (registrar_serialize E
                 (r\<lparr>min_trust_score := min_score, max_verification_age := max_age\<rparr>))
                 (acc_data (L (key (ur_registrar c))))\<rparr>))"
  by (auto simp add: update_registrar_instruction_def update_registrar_try_accounts_def
      update_registrar_def load_registrar_def check_defs result_simps registrar_fits)

lemma close_registrar_ok:
  "close_registrar_instruction E c L = Inr L' \<longleftrightarrow>
    is_signer (xr_realm_authority c) \<and> is_writable (xr_registrar c) \<and>
    is_writable (xr_sol_destination c) \<and>
    key (xr_registrar c) \<noteq> key (xr_sol_destination c) \<and>
    acc_owner (L (key (xr_registrar c))) = PROGRAM_ID \<and>
    (\<exists>r. registrar_deserialize E (acc_data (L (key (xr_registrar c)))) = Inr r \<and>
       key (xr_registrar c) = registrar_pda E (reg_realm r) (reg_governing_token_mint r) \<and>
       key (xr_realm c) = reg_realm r \<and>
       realm_authority_is E (governance_program_id r) (reg_realm r) (L (reg_realm r))
         (reg_governing_token_mint r) (key (xr_realm_authority c))) \<and>
    anchor_close E (key (xr_registrar c)) (key (xr_sol_destination c)) L = Inr L'"
  by (auto simp add: close_registrar_instruction_def close_registrar_try_accounts_def
      close_registrar_def close_account_def load_registrar_def check_defs result_simps)

section \<open>The contracts\<close>

interpretation create_registrar: creating_instruction
  "\<lambda>E (c, min_score, max_age). create_registrar_instruction E c min_score max_age"
  "\<lambda>(c, min_score, max_age). key (cr_registrar c)"
  by unfold_locales
    (auto simp add: create_registrar_ok dest!: runtime_initD)

interpretation create_registrar_admin: admin_instruction
  "\<lambda>E (c, min_score, max_age). create_registrar_instruction E c min_score max_age"
  "\<lambda>(c, min_score, max_age). key (cr_registrar c)"
  "\<lambda>(c, min_score, max_age). (cr_realm c, cr_realm_authority c)"
  "\<lambda>E (c, min_score, max_age) L.
     Some (key (cr_governance_program_id c), key (cr_governing_token_mint c))"
  by unfold_locales (auto simp add: create_registrar_ok dest!: runtime_initD intro!: authorised_at_later)

interpretation update_registrar: updating_instruction
  "\<lambda>E (c, min_score, max_age). update_registrar_instruction E c min_score max_age"
  "\<lambda>(c, min_score, max_age). key (ur_registrar c)"
  by unfold_locales
    (auto simp add: update_registrar_ok length_overwrite registrar_fits)

interpretation update_registrar_admin: admin_instruction
  "\<lambda>E (c, min_score, max_age). update_registrar_instruction E c min_score max_age"
  "\<lambda>(c, min_score, max_age). key (ur_registrar c)"
  "\<lambda>(c, min_score, max_age). (ur_realm c, ur_realm_authority c)"
  "\<lambda>E (c, min_score, max_age) L. registrar_scope E L (ur_registrar c)"
  by unfold_locales (auto simp add: update_registrar_ok registrar_scope_Some intro!: authorised_at_now)

interpretation close_registrar: closing_instruction
  "\<lambda>E. close_registrar_instruction E"
  "\<lambda>c. key (xr_registrar c)" "\<lambda>c. key (xr_sol_destination c)"
  by unfold_locales (auto simp add: close_registrar_ok dest!: runtime_closeD)

interpretation close_registrar_admin: admin_instruction
  "\<lambda>E. close_registrar_instruction E"
  "\<lambda>c. key (xr_registrar c)"
  "\<lambda>c. (xr_realm c, xr_realm_authority c)"
  "\<lambda>E c L. registrar_scope E L (xr_registrar c)"
  by unfold_locales (auto simp add: close_registrar_ok registrar_scope_Some intro!: authorised_at_now)

end
