(* ===== verification/Identity_Check.thy ===== *)
theory Identity_Check
  imports Plugin_State
begin

text \<open>
  \<open>update_voter_weight_record.rs\<close>, the constants and
  \<open>verify_voter_identity_and_recency\<close>: the raw-byte read of an Entros
  \<open>IdentityState\<close> account and the eligibility rules. Slicing past the end of the
  data panics in Rust; the reads keep that branch (\<open>Panicked\<close>), and the lemmas
  show that the length check makes it unreachable. \<open>identity_eligible\<close> is the
  specification: the conjunction of conditions under which a voter is accepted.
\<close>

section \<open>Constants\<close>

definition ENTROS_ANCHOR_PROGRAM_ID :: pubkey where
  "ENTROS_ANCHOR_PROGRAM_ID = le_word
     [0xe7, 0x36, 0x00, 0xda, 0x70, 0x7e, 0xbf, 0x19, 0x90, 0x7d, 0x32, 0xec, 0x88, 0x42, 0xa4, 0x5f,
      0xb4, 0xd5, 0x32, 0x63, 0xa1, 0x49, 0x68, 0x01, 0x6d, 0xb4, 0xe6, 0x29, 0x37, 0xe0, 0x93, 0xd1]"

definition IDENTITY_LAST_VERIFICATION_OFFSET :: nat where
  "IDENTITY_LAST_VERIFICATION_OFFSET = 48"

definition IDENTITY_TRUST_SCORE_OFFSET :: nat where
  "IDENTITY_TRUST_SCORE_OFFSET = 60"

definition IDENTITY_MIN_DATA_LEN :: nat where
  "IDENTITY_MIN_DATA_LEN = 62"

definition IDENTITY_DISCRIMINATOR :: "byte list" where
  "IDENTITY_DISCRIMINATOR = [156, 32, 87, 93, 52, 155, 248, 207]"

definition VOTER_WEIGHT_EXPIRY_SLOT_WINDOW :: u64 where
  "VOTER_WEIGHT_EXPIRY_SLOT_WINDOW = 10"

lemmas identity_constants = IDENTITY_LAST_VERIFICATION_OFFSET_def IDENTITY_TRUST_SCORE_OFFSET_def
  IDENTITY_MIN_DATA_LEN_def IDENTITY_DISCRIMINATOR_def

section \<open>Reading the account\<close>

text \<open>\<open>data[off..off + n]\<close> panics out of range.\<close>

definition read_slice :: "byte list \<Rightarrow> nat \<Rightarrow> nat \<Rightarrow> program_error + byte list" where
  "read_slice bs off n =
     (if off + n \<le> length bs then Inr (take n (drop off bs)) else Inl Panicked)"

text \<open>\<open>try_into().map_err(...)\<close> to a fixed array, then \<open>from_le_bytes\<close>.\<close>

definition from_le_slice :: "nat \<Rightarrow> byte list \<Rightarrow> program_error + 'a::len word" where
  "from_le_slice n bs =
     (if length bs = n then Inr (le_word bs) else Inl (Entros InvalidIdentityData))"

definition read_last_verification_timestamp :: "byte list \<Rightarrow> program_error + i64" where
  "read_last_verification_timestamp bs =
     bind_result (read_slice bs IDENTITY_LAST_VERIFICATION_OFFSET 8) (from_le_slice 8)"

definition read_trust_score :: "byte list \<Rightarrow> program_error + u16" where
  "read_trust_score bs =
     bind_result (read_slice bs IDENTITY_TRUST_SCORE_OFFSET 2) (from_le_slice 2)"

definition check_discriminator :: "byte list \<Rightarrow> program_error + unit" where
  "check_discriminator bs =
     bind_result (read_slice bs 0 8)
       (\<lambda>d. require (d = IDENTITY_DISCRIMINATOR) (Entros InvalidIdentityData))"

definition verification_age :: "clock \<Rightarrow> i64 \<Rightarrow> i64" where
  "verification_age c last_ts =
     (case checked_sub_i64 (unix_timestamp c) last_ts of Some age \<Rightarrow> age | None \<Rightarrow> i64_max)"

definition identity_seeds :: "pubkey \<Rightarrow> byte list list" where
  "identity_seeds voter = [seed_str ''identity'', key_bytes voter]"

definition identity_pda :: "runtime \<Rightarrow> pubkey \<Rightarrow> pubkey" where
  "identity_pda E voter =
     fst (find_program_address E (identity_seeds voter) ENTROS_ANCHOR_PROGRAM_ID)"

text \<open>
  The result of \<open>Clock::get()\<close> is an argument. \<open>try_borrow_data\<close> fails only while
  another borrow is open; the handlers hold none.
\<close>

definition verify_voter_identity_and_recency ::
    "runtime \<Rightarrow> nat + clock \<Rightarrow> ledger \<Rightarrow> registrar \<Rightarrow> voter_weight_record \<Rightarrow> pubkey \<Rightarrow> meta list
       \<Rightarrow> program_error + clock" where
  "verify_voter_identity_and_recency E clk L reg v voter remaining_accounts =
     bind_result (require (governing_token_owner v = voter) (Entros VoterWeightRecordOwnerMismatch)) (\<lambda>_.
     bind_result (ok_or (case remaining_accounts of [] \<Rightarrow> None | m # _ \<Rightarrow> Some m)
                    (Entros MissingIdentityAccount)) (\<lambda>identity_info.
     bind_result (require (acc_owner (L (key identity_info)) = ENTROS_ANCHOR_PROGRAM_ID)
                    (Entros InvalidIdentityOwner)) (\<lambda>_.
     bind_result (require (key identity_info = identity_pda E voter) (Entros InvalidIdentityPda)) (\<lambda>_.
     (let bs = acc_data (L (key identity_info)) in
     bind_result (require (IDENTITY_MIN_DATA_LEN \<le> length bs) (Entros InvalidIdentityData)) (\<lambda>_.
     bind_result (check_discriminator bs) (\<lambda>_.
     bind_result (read_last_verification_timestamp bs) (\<lambda>last_verification_timestamp.
     bind_result (read_trust_score bs) (\<lambda>trust_score.
     bind_result (require (min_trust_score reg \<le> trust_score) (Entros InsufficientTrustScore)) (\<lambda>_.
     bind_result (map_err External clk) (\<lambda>c.
     bind_result (require (sint (verification_age c last_verification_timestamp)
                            < sint (max_verification_age reg)) (Entros VerificationExpired)) (\<lambda>_.
     Inr c))))))))))))"

section \<open>Reads stay in bounds\<close>

definition last_verification_of :: "byte list \<Rightarrow> i64" where
  "last_verification_of bs = le_word (take 8 (drop 48 bs))"

definition trust_score_of :: "byte list \<Rightarrow> u16" where
  "trust_score_of bs = le_word (take 2 (drop 60 bs))"

lemma read_last_verification_in_bounds:
  "62 \<le> length bs \<Longrightarrow> read_last_verification_timestamp bs = Inr (last_verification_of bs)"
  by (simp add: read_last_verification_timestamp_def read_slice_def from_le_slice_def
      identity_constants last_verification_of_def)

lemma read_trust_score_in_bounds:
  "62 \<le> length bs \<Longrightarrow> read_trust_score bs = Inr (trust_score_of bs)"
  by (simp add: read_trust_score_def read_slice_def from_le_slice_def
      identity_constants trust_score_of_def)

lemma check_discriminator_in_bounds:
  "62 \<le> length bs \<Longrightarrow>
     check_discriminator bs =
       require (take 8 bs = IDENTITY_DISCRIMINATOR) (Entros InvalidIdentityData)"
  by (simp add: check_discriminator_def read_slice_def)

lemmas identity_reads = read_last_verification_in_bounds read_trust_score_in_bounds
  check_discriminator_in_bounds

section \<open>The recency check\<close>

lemma verification_age_exact:
  assumes "- (2 ^ 63) \<le> sint (unix_timestamp c) - sint last_ts"
    and "sint (unix_timestamp c) - sint last_ts < 2 ^ 63"
  shows "sint (verification_age c last_ts) = sint (unix_timestamp c) - sint last_ts"
  using assms by (simp add: verification_age_def checked_sub_i64_def sint_sub_in_range)

lemma verification_age_overflow:
  assumes "\<not> (- (2 ^ 63) \<le> sint (unix_timestamp c) - sint last_ts \<and>
              sint (unix_timestamp c) - sint last_ts < 2 ^ 63)"
  shows "verification_age c last_ts = i64_max"
  using assms by (auto simp add: verification_age_def checked_sub_i64_def)

text \<open>
  Recency on mathematical integers: the difference of the timestamps is below the
  limit, and did not underflow (a difference below \<open>-2^63\<close> is treated as the
  greatest age, like one above).
\<close>

definition recent :: "clock \<Rightarrow> i64 \<Rightarrow> i64 \<Rightarrow> bool" where
  "recent c last_ts limit \<longleftrightarrow>
     - (2 ^ 63) \<le> sint (unix_timestamp c) - sint last_ts \<and>
     sint (unix_timestamp c) - sint last_ts < sint limit"

lemma age_check_iff_recent:
  "sint (verification_age c last_ts) < sint limit \<longleftrightarrow> recent c last_ts limit"
proof (cases "- (2 ^ 63) \<le> sint (unix_timestamp c) - sint last_ts \<and>
              sint (unix_timestamp c) - sint last_ts < 2 ^ 63")
  case True
  then show ?thesis by (simp add: recent_def verification_age_exact)
next
  case False
  then have "sint (verification_age c last_ts) = 2 ^ 63 - 1"
    by (simp add: verification_age_overflow sint_i64_max)
  then show ?thesis using False sint_i64_range [of limit] by (auto simp add: recent_def)
qed

section \<open>Specification of the whole check\<close>

definition identity_valid :: "runtime \<Rightarrow> ledger \<Rightarrow> pubkey \<Rightarrow> bool" where
  "identity_valid E L voter \<longleftrightarrow>
     (let a = L (identity_pda E voter) in
        acc_owner a = ENTROS_ANCHOR_PROGRAM_ID \<and>
        IDENTITY_MIN_DATA_LEN \<le> length (acc_data a) \<and>
        take 8 (acc_data a) = IDENTITY_DISCRIMINATOR)"

definition identity_eligible :: "runtime \<Rightarrow> clock \<Rightarrow> ledger \<Rightarrow> registrar \<Rightarrow> pubkey \<Rightarrow> bool" where
  "identity_eligible E c L reg voter \<longleftrightarrow>
     identity_valid E L voter \<and>
     (let bs = acc_data (L (identity_pda E voter)) in
        min_trust_score reg \<le> trust_score_of bs \<and>
        recent c (last_verification_of bs) (max_verification_age reg))"

lemma verify_Inr_iff:
  "verify_voter_identity_and_recency E clk L reg v voter rem = Inr c \<longleftrightarrow>
     clk = Inr c \<and> governing_token_owner v = voter \<and>
     (\<exists>m ms. rem = m # ms \<and> key m = identity_pda E voter) \<and>
     identity_eligible E c L reg voter"
  by (cases rem)
    (auto simp add: verify_voter_identity_and_recency_def Let_def result_simps identity_reads
      identity_eligible_def identity_valid_def IDENTITY_MIN_DATA_LEN_def age_check_iff_recent)

lemma verify_no_panic:
  "verify_voter_identity_and_recency E clk L reg v voter rem \<noteq> Inl Panicked"
  by (auto simp add: verify_voter_identity_and_recency_def Let_def result_simps identity_reads
      IDENTITY_MIN_DATA_LEN_def)

end
