(* ===== verification/Voter_Weight_Instructions.thy ===== *)
theory Voter_Weight_Instructions
  imports Instruction_Contract Identity_Check
begin

text \<open>
  \<open>create_voter_weight_record.rs\<close>, \<open>update_voter_weight_record.rs\<close> (both update
  instructions) and \<open>close_voter_weight_record.rs\<close>, laid out as the registrar
  instructions are.
\<close>

section \<open>create_voter_weight_record\<close>

record create_voter_weight_record_accounts =
  cv_registrar :: meta
  cv_voter_weight_record :: meta
  cv_governing_token_owner_signer :: meta
  cv_payer :: meta
  cv_system_program :: meta

definition create_voter_weight_record_try_accounts ::
    "runtime \<Rightarrow> create_voter_weight_record_accounts \<Rightarrow> pubkey \<Rightarrow> ledger
       \<Rightarrow> program_error + registrar \<times> voter_weight_record \<times> ledger" where
  "create_voter_weight_record_try_accounts E c token_owner L =
     bind_result (load_registrar E L (cv_registrar c)) (\<lambda>r.
     bind_result (check_all
       [check_signer (cv_governing_token_owner_signer c),
        check_signer (cv_payer c),
        check_system_program L (cv_system_program c),
        check_seeds E (cv_voter_weight_record c)
          (voter_weight_record_seeds (reg_realm r) (reg_governing_token_mint r) token_owner)]) (\<lambda>_.
     bind_result (init_account E (cv_payer c) (cv_voter_weight_record c)
                    VoterWeightRecord_get_space L) (\<lambda>L1.
     bind_result (voter_weight_record_deserialize_unchecked
                    (acc_data (L1 (key (cv_voter_weight_record c))))) (\<lambda>v.
     bind_result (check_all
       [check_registrar_seeds E (cv_registrar c) r,
        check_mut (cv_voter_weight_record c),
        check_mut (cv_payer c)]) (\<lambda>_.
     Inr (r, v, L1))))))"

definition create_voter_weight_record ::
    "runtime \<Rightarrow> create_voter_weight_record_accounts \<Rightarrow> registrar \<Rightarrow> voter_weight_record \<Rightarrow> pubkey
       \<Rightarrow> program_error + voter_weight_record" where
  "create_voter_weight_record E c r v token_owner =
     bind_result (require (key (cv_governing_token_owner_signer c) = token_owner)
                    (Entros GoverningTokenOwnerSignerMismatch)) (\<lambda>_.
     Inr (v\<lparr>account_discriminator := VOTER_WEIGHT_DISCRIMINATOR E,
            vwr_realm := reg_realm r,
            vwr_governing_token_mint := reg_governing_token_mint r,
            governing_token_owner := token_owner,
            voter_weight := 0,
            voter_weight_expiry := Some 0,
            weight_action := None,
            weight_action_target := None\<rparr>))"

definition create_voter_weight_record_instruction ::
    "runtime \<Rightarrow> create_voter_weight_record_accounts \<Rightarrow> pubkey \<Rightarrow> ledger \<Rightarrow> program_error + ledger" where
  "create_voter_weight_record_instruction E c token_owner L =
     bind_result (create_voter_weight_record_try_accounts E c token_owner L) (\<lambda>(r, v, L1).
     bind_result (create_voter_weight_record E c r v token_owner) (\<lambda>v'.
     exit_account (key (cv_voter_weight_record c)) (voter_weight_record_serialize v') L1))"

section \<open>The two updates\<close>

record update_voter_weight_record_accounts =
  uv_registrar :: meta
  uv_voter_weight_record :: meta
  uv_voter_authority :: meta
  uv_remaining_accounts :: "meta list"

definition update_voter_weight_record_try_accounts ::
    "runtime \<Rightarrow> update_voter_weight_record_accounts \<Rightarrow> ledger
       \<Rightarrow> program_error + registrar \<times> voter_weight_record" where
  "update_voter_weight_record_try_accounts E c L =
     bind_result (load_registrar E L (uv_registrar c)) (\<lambda>r.
     bind_result (load_voter_weight_record L (uv_voter_weight_record c)) (\<lambda>v.
     bind_result (check_all
       [check_signer (uv_voter_authority c),
        check_registrar_seeds E (uv_registrar c) r,
        check_mut (uv_voter_weight_record c),
        require (vwr_realm v = reg_realm r) (Entros VoterWeightRecordRealmMismatch),
        require (vwr_governing_token_mint v = reg_governing_token_mint r)
          (Entros VoterWeightRecordMintMismatch)]) (\<lambda>_.
     Inr (r, v))))"

definition update_voter_weight_record ::
    "runtime \<Rightarrow> nat + clock \<Rightarrow> update_voter_weight_record_accounts \<Rightarrow> ledger
       \<Rightarrow> registrar \<Rightarrow> voter_weight_record \<Rightarrow> program_error + voter_weight_record" where
  "update_voter_weight_record E clk c L r v =
     bind_result (verify_voter_identity_and_recency E clk L r v (key (uv_voter_authority c))
                    (uv_remaining_accounts c)) (\<lambda>clock.
     Inr (v\<lparr>voter_weight := 1,
            voter_weight_expiry :=
              Some (saturating_add_u64 (slot clock) VOTER_WEIGHT_EXPIRY_SLOT_WINDOW),
            weight_action := None,
            weight_action_target := None\<rparr>))"

definition update_voter_weight_record_for_action ::
    "runtime \<Rightarrow> nat + clock \<Rightarrow> update_voter_weight_record_accounts \<Rightarrow> ledger
       \<Rightarrow> registrar \<Rightarrow> voter_weight_record \<Rightarrow> voter_weight_action \<Rightarrow> pubkey
       \<Rightarrow> program_error + voter_weight_record" where
  "update_voter_weight_record_for_action E clk c L r v action action_target =
     bind_result (require (action_target \<noteq> default_pubkey) (Entros InvalidWeightActionTarget)) (\<lambda>_.
     bind_result (verify_voter_identity_and_recency E clk L r v (key (uv_voter_authority c))
                    (uv_remaining_accounts c)) (\<lambda>clock.
     Inr (v\<lparr>voter_weight := 1,
            voter_weight_expiry := Some (slot clock),
            weight_action := Some (into_addin action),
            weight_action_target := Some action_target\<rparr>)))"

definition update_voter_weight_record_instruction ::
    "runtime \<Rightarrow> nat + clock \<Rightarrow> update_voter_weight_record_accounts \<Rightarrow> ledger
       \<Rightarrow> program_error + ledger" where
  "update_voter_weight_record_instruction E clk c L =
     bind_result (update_voter_weight_record_try_accounts E c L) (\<lambda>(r, v).
     bind_result (update_voter_weight_record E clk c L r v) (\<lambda>v'.
     exit_account (key (uv_voter_weight_record c)) (voter_weight_record_serialize v') L))"

definition update_voter_weight_record_for_action_instruction ::
    "runtime \<Rightarrow> nat + clock \<Rightarrow> update_voter_weight_record_accounts \<Rightarrow> voter_weight_action \<Rightarrow> pubkey
       \<Rightarrow> ledger \<Rightarrow> program_error + ledger" where
  "update_voter_weight_record_for_action_instruction E clk c action action_target L =
     bind_result (update_voter_weight_record_try_accounts E c L) (\<lambda>(r, v).
     bind_result (update_voter_weight_record_for_action E clk c L r v action action_target) (\<lambda>v'.
     exit_account (key (uv_voter_weight_record c)) (voter_weight_record_serialize v') L))"

section \<open>close_voter_weight_record\<close>

record close_voter_weight_record_accounts =
  xv_registrar :: meta
  xv_voter_weight_record :: meta
  xv_voter_authority :: meta
  xv_sol_destination :: meta

definition close_voter_weight_record_try_accounts ::
    "runtime \<Rightarrow> close_voter_weight_record_accounts \<Rightarrow> ledger
       \<Rightarrow> program_error + registrar \<times> voter_weight_record" where
  "close_voter_weight_record_try_accounts E c L =
     bind_result (load_registrar E L (xv_registrar c)) (\<lambda>r.
     bind_result (load_voter_weight_record L (xv_voter_weight_record c)) (\<lambda>v.
     bind_result (check_all
       [check_signer (xv_voter_authority c),
        check_registrar_seeds E (xv_registrar c) r,
        check_mut (xv_voter_weight_record c),
        require (vwr_realm v = reg_realm r) (Entros VoterWeightRecordRealmMismatch),
        require (vwr_governing_token_mint v = reg_governing_token_mint r)
          (Entros VoterWeightRecordMintMismatch),
        check_close (xv_voter_weight_record c) (xv_sol_destination c),
        check_mut (xv_sol_destination c)]) (\<lambda>_.
     Inr (r, v))))"

definition close_voter_weight_record ::
    "close_voter_weight_record_accounts \<Rightarrow> voter_weight_record \<Rightarrow> program_error + unit" where
  "close_voter_weight_record c v =
     require (governing_token_owner v = key (xv_voter_authority c))
       (Entros VoterWeightRecordOwnerMismatch)"

definition close_voter_weight_record_instruction ::
    "runtime \<Rightarrow> close_voter_weight_record_accounts \<Rightarrow> ledger \<Rightarrow> program_error + ledger" where
  "close_voter_weight_record_instruction E c L =
     bind_result (close_voter_weight_record_try_accounts E c L) (\<lambda>(r, v).
     bind_result (close_voter_weight_record c v) (\<lambda>_.
     close_account E (xv_voter_weight_record c) (xv_sol_destination c) L))"

section \<open>When the instructions succeed\<close>

definition born_expired_record :: "runtime \<Rightarrow> registrar \<Rightarrow> pubkey \<Rightarrow> voter_weight_record" where
  "born_expired_record E r token_owner =
     \<lparr>account_discriminator = VOTER_WEIGHT_DISCRIMINATOR E,
      vwr_realm = reg_realm r, vwr_governing_token_mint = reg_governing_token_mint r,
      governing_token_owner = token_owner, voter_weight = 0, voter_weight_expiry = Some 0,
      weight_action = None, weight_action_target = None, vwr_reserved = 0\<rparr>"

lemma create_voter_weight_record_ok:
  assumes "runtime_ok E"
  shows "create_voter_weight_record_instruction E c token_owner L = Inr L' \<longleftrightarrow>
    key (cv_governing_token_owner_signer c) = token_owner \<and>
    is_signer (cv_governing_token_owner_signer c) \<and> is_signer (cv_payer c) \<and>
    is_writable (cv_voter_weight_record c) \<and> is_writable (cv_payer c) \<and>
    key (cv_system_program c) = SYSTEM_PROGRAM_ID \<and>
    acc_executable (L (key (cv_system_program c))) \<and>
    acc_owner (L (key (cv_registrar c))) = PROGRAM_ID \<and>
    (\<exists>r L1. registrar_deserialize E (acc_data (L (key (cv_registrar c)))) = Inr r \<and>
       key (cv_registrar c) = registrar_pda E (reg_realm r) (reg_governing_token_mint r) \<and>
       key (cv_voter_weight_record c) =
         voter_weight_record_pda E (reg_realm r) (reg_governing_token_mint r) token_owner \<and>
       anchor_init E (key (cv_payer c)) (key (cv_voter_weight_record c))
         VoterWeightRecord_get_space PROGRAM_ID L = Inr L1 \<and>
       L' = L1(key (cv_voter_weight_record c) := (L1 (key (cv_voter_weight_record c)))
              \<lparr>acc_data := overwrite (voter_weight_record_serialize (born_expired_record E r token_owner))
                 (replicate VoterWeightRecord_get_space 0)\<rparr>))"
  by (auto simp add: create_voter_weight_record_instruction_def
      create_voter_weight_record_try_accounts_def create_voter_weight_record_def
      init_account_def load_registrar_def check_defs result_simps voter_weight_record_pda_def
      runtime_init(2) [OF assms] voter.raw_zeros voter.ser_fits
      zeroed_voter_weight_record_def born_expired_record_def)

text \<open>What an update stores, and the conditions both updates share.\<close>

definition granted_record :: "voter_weight_record \<Rightarrow> clock \<Rightarrow> voter_weight_record" where
  "granted_record v c =
     v\<lparr>voter_weight := 1,
       voter_weight_expiry := Some (saturating_add_u64 (slot c) VOTER_WEIGHT_EXPIRY_SLOT_WINDOW),
       weight_action := None, weight_action_target := None\<rparr>"

definition granted_record_for_action ::
    "voter_weight_record \<Rightarrow> clock \<Rightarrow> voter_weight_action \<Rightarrow> pubkey \<Rightarrow> voter_weight_record" where
  "granted_record_for_action v c action action_target =
     v\<lparr>voter_weight := 1, voter_weight_expiry := Some (slot c),
       weight_action := Some (into_addin action), weight_action_target := Some action_target\<rparr>"

definition update_permitted ::
    "runtime \<Rightarrow> clock \<Rightarrow> update_voter_weight_record_accounts \<Rightarrow> ledger \<Rightarrow> voter_weight_record \<Rightarrow> bool" where
  "update_permitted E clock c L v \<longleftrightarrow>
     is_signer (uv_voter_authority c) \<and> is_writable (uv_voter_weight_record c) \<and>
     acc_owner (L (key (uv_registrar c))) = PROGRAM_ID \<and>
     acc_owner (L (key (uv_voter_weight_record c))) = PROGRAM_ID \<and>
     voter_weight_record_deserialize_unchecked (acc_data (L (key (uv_voter_weight_record c)))) = Inr v \<and>
     governing_token_owner v = key (uv_voter_authority c) \<and>
     (\<exists>m ms. uv_remaining_accounts c = m # ms \<and>
        key m = identity_pda E (key (uv_voter_authority c))) \<and>
     (\<exists>r. registrar_deserialize E (acc_data (L (key (uv_registrar c)))) = Inr r \<and>
          key (uv_registrar c) = registrar_pda E (reg_realm r) (reg_governing_token_mint r) \<and>
          vwr_realm v = reg_realm r \<and> vwr_governing_token_mint v = reg_governing_token_mint r \<and>
          identity_eligible E clock L r (key (uv_voter_authority c)))"

definition store_record :: "pubkey \<Rightarrow> voter_weight_record \<Rightarrow> ledger \<Rightarrow> ledger" where
  "store_record k v L =
     L(k := (L k)\<lparr>acc_data := overwrite (voter_weight_record_serialize v) (acc_data (L k))\<rparr>)"

lemma update_voter_weight_record_ok:
  "update_voter_weight_record_instruction E clk c L = Inr L' \<longleftrightarrow>
    (\<exists>clock v. clk = Inr clock \<and> update_permitted E clock c L v \<and>
       length (voter_weight_record_serialize (granted_record v clock)) \<le>
         length (acc_data (L (key (uv_voter_weight_record c)))) \<and>
       L' = store_record (key (uv_voter_weight_record c)) (granted_record v clock) L)"
  by (auto simp add: update_voter_weight_record_instruction_def
      update_voter_weight_record_try_accounts_def update_voter_weight_record_def
      load_registrar_def load_voter_weight_record_def check_defs result_simps verify_Inr_iff
      update_permitted_def granted_record_def store_record_def)

lemma update_voter_weight_record_for_action_ok:
  "update_voter_weight_record_for_action_instruction E clk c action action_target L = Inr L' \<longleftrightarrow>
    action_target \<noteq> default_pubkey \<and>
    (\<exists>clock v. clk = Inr clock \<and> update_permitted E clock c L v \<and>
       length (voter_weight_record_serialize (granted_record_for_action v clock action action_target)) \<le>
         length (acc_data (L (key (uv_voter_weight_record c)))) \<and>
       L' = store_record (key (uv_voter_weight_record c))
              (granted_record_for_action v clock action action_target) L)"
  by (auto simp add: update_voter_weight_record_for_action_instruction_def
      update_voter_weight_record_try_accounts_def update_voter_weight_record_for_action_def
      load_registrar_def load_voter_weight_record_def check_defs result_simps verify_Inr_iff
      update_permitted_def granted_record_for_action_def store_record_def)

lemma close_voter_weight_record_ok:
  "close_voter_weight_record_instruction E c L = Inr L' \<longleftrightarrow>
    is_signer (xv_voter_authority c) \<and> is_writable (xv_voter_weight_record c) \<and>
    is_writable (xv_sol_destination c) \<and>
    key (xv_voter_weight_record c) \<noteq> key (xv_sol_destination c) \<and>
    acc_owner (L (key (xv_registrar c))) = PROGRAM_ID \<and>
    acc_owner (L (key (xv_voter_weight_record c))) = PROGRAM_ID \<and>
    (\<exists>r v. registrar_deserialize E (acc_data (L (key (xv_registrar c)))) = Inr r \<and>
       voter_weight_record_deserialize_unchecked
         (acc_data (L (key (xv_voter_weight_record c)))) = Inr v \<and>
       key (xv_registrar c) = registrar_pda E (reg_realm r) (reg_governing_token_mint r) \<and>
       vwr_realm v = reg_realm r \<and> vwr_governing_token_mint v = reg_governing_token_mint r \<and>
       governing_token_owner v = key (xv_voter_authority c)) \<and>
    anchor_close E (key (xv_voter_weight_record c)) (key (xv_sol_destination c)) L = Inr L'"
  by (auto simp add: close_voter_weight_record_instruction_def
      close_voter_weight_record_try_accounts_def close_voter_weight_record_def close_account_def
      load_registrar_def load_voter_weight_record_def check_defs result_simps)

section \<open>The contracts\<close>

interpretation create_voter: creating_instruction
  "\<lambda>E (c, token_owner). create_voter_weight_record_instruction E c token_owner"
  "\<lambda>(c, token_owner). key (cv_voter_weight_record c)"
  by unfold_locales (auto simp add: create_voter_weight_record_ok dest!: runtime_initD)

lemma store_record_frame: "k \<noteq> k' \<Longrightarrow> store_record k v L k' = L k'"
  by (simp add: store_record_def)

lemma store_record_at [simp]:
  "store_record k v L k =
     (L k)\<lparr>acc_data := overwrite (voter_weight_record_serialize v) (acc_data (L k))\<rparr>"
  by (simp add: store_record_def)

lemma update_permitted_owner:
  "update_permitted E clock c L v \<Longrightarrow> acc_owner (L (key (uv_voter_weight_record c))) = PROGRAM_ID"
  by (simp add: update_permitted_def)

interpretation update_voter: updating_instruction
  "\<lambda>E (clk, c). update_voter_weight_record_instruction E clk c"
  "\<lambda>(clk, c). key (uv_voter_weight_record c)"
  by unfold_locales
    (auto simp add: update_voter_weight_record_ok store_record_def length_overwrite
      dest: update_permitted_owner)

interpretation update_voter_for_action: updating_instruction
  "\<lambda>E (clk, c, action, action_target).
     update_voter_weight_record_for_action_instruction E clk c action action_target"
  "\<lambda>(clk, c, action, action_target). key (uv_voter_weight_record c)"
  by unfold_locales
    (auto simp add: update_voter_weight_record_for_action_ok store_record_def length_overwrite
      dest: update_permitted_owner)

interpretation close_voter: closing_instruction
  "\<lambda>E. close_voter_weight_record_instruction E"
  "\<lambda>c. key (xv_voter_weight_record c)" "\<lambda>c. key (xv_sol_destination c)"
  by unfold_locales (auto simp add: close_voter_weight_record_ok dest!: runtime_closeD)

end
