(* ===== verification/Max_Weight_Instructions.thy ===== *)
theory Max_Weight_Instructions
  imports Instruction_Contract
begin

text \<open>
  \<open>create_max_voter_weight_record.rs\<close> and \<open>update_max_voter_weight_record.rs\<close>: the
  record that tells the governance program the greatest possible total weight.
\<close>

section \<open>create_max_voter_weight_record\<close>

record create_max_voter_weight_record_accounts =
  cm_registrar :: meta
  cm_max_voter_weight_record :: meta
  cm_realm :: meta
  cm_realm_authority :: meta
  cm_payer :: meta
  cm_system_program :: meta

definition create_max_voter_weight_record_try_accounts ::
    "runtime \<Rightarrow> create_max_voter_weight_record_accounts \<Rightarrow> ledger
       \<Rightarrow> program_error + registrar \<times> max_voter_weight_record \<times> ledger" where
  "create_max_voter_weight_record_try_accounts E c L =
     bind_result (load_registrar E L (cm_registrar c)) (\<lambda>r.
     bind_result (check_all
       [check_signer (cm_realm_authority c),
        check_signer (cm_payer c),
        check_system_program L (cm_system_program c),
        check_seeds E (cm_max_voter_weight_record c)
          (max_voter_weight_record_seeds (reg_realm r) (reg_governing_token_mint r))]) (\<lambda>_.
     bind_result (init_account E (cm_payer c) (cm_max_voter_weight_record c)
                    MaxVoterWeightRecord_get_space L) (\<lambda>L1.
     bind_result (max_voter_weight_record_deserialize_unchecked
                    (acc_data (L1 (key (cm_max_voter_weight_record c))))) (\<lambda>m.
     bind_result (check_all
       [check_registrar_seeds E (cm_registrar c) r,
        check_mut (cm_max_voter_weight_record c),
        check_raw (key (cm_realm c) = reg_realm r),
        check_mut (cm_payer c)]) (\<lambda>_.
     Inr (r, m, L1))))))"

definition create_max_voter_weight_record ::
    "runtime \<Rightarrow> create_max_voter_weight_record_accounts \<Rightarrow> ledger \<Rightarrow> registrar
       \<Rightarrow> max_voter_weight_record \<Rightarrow> program_error + max_voter_weight_record" where
  "create_max_voter_weight_record E c L r m =
     bind_result (check_realm_authority E (governance_program_id r) L (cm_realm c)
                    (reg_governing_token_mint r) (cm_realm_authority c)) (\<lambda>_.
     Inr (m\<lparr>max_account_discriminator := MAX_VOTER_WEIGHT_DISCRIMINATOR E,
            max_realm := reg_realm r,
            max_governing_token_mint := reg_governing_token_mint r,
            max_voter_weight := 0,
            max_voter_weight_expiry := Some 0\<rparr>))"

definition create_max_voter_weight_record_instruction ::
    "runtime \<Rightarrow> create_max_voter_weight_record_accounts \<Rightarrow> ledger \<Rightarrow> program_error + ledger" where
  "create_max_voter_weight_record_instruction E c L =
     bind_result (create_max_voter_weight_record_try_accounts E c L) (\<lambda>(r, m, L1).
     bind_result (create_max_voter_weight_record E c L1 r m) (\<lambda>m'.
     exit_account (key (cm_max_voter_weight_record c)) (max_voter_weight_record_serialize m') L1))"

section \<open>update_max_voter_weight_record\<close>

record update_max_voter_weight_record_accounts =
  um_registrar :: meta
  um_max_voter_weight_record :: meta
  um_realm :: meta
  um_realm_authority :: meta

definition update_max_voter_weight_record_try_accounts ::
    "runtime \<Rightarrow> update_max_voter_weight_record_accounts \<Rightarrow> ledger
       \<Rightarrow> program_error + registrar \<times> max_voter_weight_record" where
  "update_max_voter_weight_record_try_accounts E c L =
     bind_result (load_registrar E L (um_registrar c)) (\<lambda>r.
     bind_result (load_max_voter_weight_record L (um_max_voter_weight_record c)) (\<lambda>m.
     bind_result (check_all
       [check_signer (um_realm_authority c),
        check_registrar_seeds E (um_registrar c) r,
        check_mut (um_max_voter_weight_record c),
        check_raw (max_realm m = reg_realm r),
        check_raw (max_governing_token_mint m = reg_governing_token_mint r),
        check_raw (key (um_realm c) = reg_realm r)]) (\<lambda>_.
     Inr (r, m))))"

definition update_max_voter_weight_record ::
    "runtime \<Rightarrow> update_max_voter_weight_record_accounts \<Rightarrow> ledger \<Rightarrow> registrar
       \<Rightarrow> max_voter_weight_record \<Rightarrow> u64 \<Rightarrow> program_error + max_voter_weight_record" where
  "update_max_voter_weight_record E c L r m max_weight =
     bind_result (require (0 < max_weight) (Entros InvalidMaxVoterWeight)) (\<lambda>_.
     bind_result (check_realm_authority E (governance_program_id r) L (um_realm c)
                    (reg_governing_token_mint r) (um_realm_authority c)) (\<lambda>_.
     Inr (m\<lparr>max_voter_weight := max_weight, max_voter_weight_expiry := None\<rparr>)))"

definition update_max_voter_weight_record_instruction ::
    "runtime \<Rightarrow> update_max_voter_weight_record_accounts \<Rightarrow> u64 \<Rightarrow> ledger \<Rightarrow> program_error + ledger" where
  "update_max_voter_weight_record_instruction E c max_weight L =
     bind_result (update_max_voter_weight_record_try_accounts E c L) (\<lambda>(r, m).
     bind_result (update_max_voter_weight_record E c L r m max_weight) (\<lambda>m'.
     exit_account (key (um_max_voter_weight_record c)) (max_voter_weight_record_serialize m') L))"

section \<open>When the instructions succeed\<close>

definition born_expired_max_record :: "runtime \<Rightarrow> registrar \<Rightarrow> max_voter_weight_record" where
  "born_expired_max_record E r =
     \<lparr>max_account_discriminator = MAX_VOTER_WEIGHT_DISCRIMINATOR E, max_realm = reg_realm r,
      max_governing_token_mint = reg_governing_token_mint r, max_voter_weight = 0,
      max_voter_weight_expiry = Some 0, max_reserved = 0\<rparr>"

lemma create_max_voter_weight_record_ok:
  assumes "runtime_ok E"
  shows "create_max_voter_weight_record_instruction E c L = Inr L' \<longleftrightarrow>
    is_signer (cm_realm_authority c) \<and> is_signer (cm_payer c) \<and>
    is_writable (cm_max_voter_weight_record c) \<and> is_writable (cm_payer c) \<and>
    key (cm_system_program c) = SYSTEM_PROGRAM_ID \<and>
    acc_executable (L (key (cm_system_program c))) \<and>
    acc_owner (L (key (cm_registrar c))) = PROGRAM_ID \<and>
    (\<exists>r L1. registrar_deserialize E (acc_data (L (key (cm_registrar c)))) = Inr r \<and>
       key (cm_registrar c) = registrar_pda E (reg_realm r) (reg_governing_token_mint r) \<and>
       key (cm_max_voter_weight_record c) =
         max_voter_weight_record_pda E (reg_realm r) (reg_governing_token_mint r) \<and>
       key (cm_realm c) = reg_realm r \<and>
       anchor_init E (key (cm_payer c)) (key (cm_max_voter_weight_record c))
         MaxVoterWeightRecord_get_space PROGRAM_ID L = Inr L1 \<and>
       realm_authority_is E (governance_program_id r) (reg_realm r) (L1 (reg_realm r))
         (reg_governing_token_mint r) (key (cm_realm_authority c)) \<and>
       L' = L1(key (cm_max_voter_weight_record c) := (L1 (key (cm_max_voter_weight_record c)))
              \<lparr>acc_data := overwrite (max_voter_weight_record_serialize (born_expired_max_record E r))
                 (replicate MaxVoterWeightRecord_get_space 0)\<rparr>))"
  by (auto simp add: create_max_voter_weight_record_instruction_def
      create_max_voter_weight_record_try_accounts_def create_max_voter_weight_record_def
      init_account_def load_registrar_def check_defs result_simps max_voter_weight_record_pda_def
      runtime_init(2) [OF assms] maxw.raw_zeros maxw.ser_fits
      zeroed_max_voter_weight_record_def born_expired_max_record_def)

lemma update_max_voter_weight_record_ok:
  "update_max_voter_weight_record_instruction E c max_weight L = Inr L' \<longleftrightarrow>
    0 < max_weight \<and> is_signer (um_realm_authority c) \<and>
    is_writable (um_max_voter_weight_record c) \<and>
    acc_owner (L (key (um_registrar c))) = PROGRAM_ID \<and>
    acc_owner (L (key (um_max_voter_weight_record c))) = PROGRAM_ID \<and>
    (\<exists>r m. registrar_deserialize E (acc_data (L (key (um_registrar c)))) = Inr r \<and>
       max_voter_weight_record_deserialize_unchecked
         (acc_data (L (key (um_max_voter_weight_record c)))) = Inr m \<and>
       key (um_registrar c) = registrar_pda E (reg_realm r) (reg_governing_token_mint r) \<and>
       max_realm m = reg_realm r \<and> max_governing_token_mint m = reg_governing_token_mint r \<and>
       key (um_realm c) = reg_realm r \<and>
       realm_authority_is E (governance_program_id r) (reg_realm r) (L (reg_realm r))
         (reg_governing_token_mint r) (key (um_realm_authority c)) \<and>
       length (max_voter_weight_record_serialize
           (m\<lparr>max_voter_weight := max_weight, max_voter_weight_expiry := None\<rparr>)) \<le>
         length (acc_data (L (key (um_max_voter_weight_record c)))) \<and>
       L' = L(key (um_max_voter_weight_record c) := (L (key (um_max_voter_weight_record c)))
              \<lparr>acc_data := overwrite (max_voter_weight_record_serialize
                 (m\<lparr>max_voter_weight := max_weight, max_voter_weight_expiry := None\<rparr>))
                 (acc_data (L (key (um_max_voter_weight_record c))))\<rparr>))"
  by (auto simp add: update_max_voter_weight_record_instruction_def
      update_max_voter_weight_record_try_accounts_def update_max_voter_weight_record_def
      load_registrar_def load_max_voter_weight_record_def check_defs result_simps)

section \<open>The contracts\<close>

interpretation create_max: creating_instruction
  "\<lambda>E. create_max_voter_weight_record_instruction E"
  "\<lambda>c. key (cm_max_voter_weight_record c)"
  by unfold_locales (auto simp add: create_max_voter_weight_record_ok dest!: runtime_initD)

interpretation create_max_admin: admin_instruction
  "\<lambda>E. create_max_voter_weight_record_instruction E"
  "\<lambda>c. key (cm_max_voter_weight_record c)"
  "\<lambda>c. (cm_realm c, cm_realm_authority c)"
  "\<lambda>E c L. registrar_scope E L (cm_registrar c)"
  by unfold_locales
    (auto simp add: create_max_voter_weight_record_ok registrar_scope_Some dest!: runtime_initD
      intro!: authorised_at_later)

interpretation update_max: updating_instruction
  "\<lambda>E (c, max_weight). update_max_voter_weight_record_instruction E c max_weight"
  "\<lambda>(c, max_weight). key (um_max_voter_weight_record c)"
  by unfold_locales (auto simp add: update_max_voter_weight_record_ok length_overwrite)

interpretation update_max_admin: admin_instruction
  "\<lambda>E (c, max_weight). update_max_voter_weight_record_instruction E c max_weight"
  "\<lambda>(c, max_weight). key (um_max_voter_weight_record c)"
  "\<lambda>(c, max_weight). (um_realm c, um_realm_authority c)"
  "\<lambda>E (c, max_weight) L. registrar_scope E L (um_registrar c)"
  by unfold_locales
    (auto simp add: update_max_voter_weight_record_ok registrar_scope_Some
      intro!: authorised_at_now)

end
