(* ===== verification/Account_View.thy ===== *)
theory Account_View
  imports Registrar_Instructions Voter_Weight_Instructions Max_Weight_Instructions
begin

text \<open>
  The typed reading of an account's bytes, and the invariant of the accounts the
  program owns: a registrar, a voter weight record or a max voter weight record is
  stored at the address derived from its own fields, in an account of the size it
  was created with, and its fields are in a state that the handlers produce; every
  other account the program owns is still zeroed (anybody may have the system
  program create one).
\<close>

section \<open>The typed view\<close>

datatype account_view =
    ViewRegistrar registrar
  | ViewVoter voter_weight_record
  | ViewMax max_voter_weight_record
  | ViewNone

definition holds_discriminator :: "bytes8 \<Rightarrow> account \<Rightarrow> bool" where
  "holds_discriminator d a \<longleftrightarrow> take 8 (acc_data a) = le_bytes 8 d"

definition view :: "runtime \<Rightarrow> account \<Rightarrow> account_view" where
  "view E a =
     (if acc_owner a \<noteq> PROGRAM_ID then ViewNone
      else case registrar_deserialize E (acc_data a) of
        Inr r \<Rightarrow> ViewRegistrar r
      | Inl e \<Rightarrow>
         (case voter_weight_record_deserialize_unchecked (acc_data a) of
            Inr v \<Rightarrow> if account_discriminator v = VOTER_WEIGHT_DISCRIMINATOR E then ViewVoter v
                     else ViewNone
          | Inl e' \<Rightarrow>
             (case max_voter_weight_record_deserialize_unchecked (acc_data a) of
                Inr m \<Rightarrow> if max_account_discriminator m = MAX_VOTER_WEIGHT_DISCRIMINATOR E
                         then ViewMax m else ViewNone
              | Inl e'' \<Rightarrow> ViewNone)))"

text \<open>
  A max voter weight record is created with 97 bytes, fewer than any voter weight
  record takes, so the order of the two reads does not matter for it.
\<close>

lemma voter_needs_123_bytes:
  "voter_weight_record_deserialize_unchecked bs = Inr v \<Longrightarrow> 123 \<le> length bs"
  using vwr.enc_shortest [of v] by (auto simp add: voter_weight_record_deserialize_Inr)

lemma short_is_no_voter_record:
  "length bs < 123 \<Longrightarrow>
     voter_weight_record_deserialize_unchecked bs = Inl (Anchor AccountDidNotDeserialize)"
  by (simp add: voter_weight_record_deserialize_unchecked_def vwr.parse_short)

lemma first_bytes:
  "take 8 (registrar_serialize E r @ rest) = le_bytes 8 (REGISTRAR_DISCRIMINATOR E)"
  "take 8 (voter_weight_record_serialize v @ rest) = le_bytes 8 (account_discriminator v)"
  "take 8 (max_voter_weight_record_serialize m @ rest) = le_bytes 8 (max_account_discriminator m)"
  by (simp_all add: registrar_serialize_def voter_weight_record_serialize_def
      max_voter_weight_record_serialize_def)

lemma disc_inject: "le_bytes 8 (d :: bytes8) = le_bytes 8 d' \<longleftrightarrow> d = d'"
  by (simp add: le_bytes_inject)

lemma registrar_deserialize_disc:
  "registrar_deserialize E bs = Inr r \<Longrightarrow> take 8 bs = le_bytes 8 (REGISTRAR_DISCRIMINATOR E)"
  by (auto simp add: registrar_deserialize_Inr first_bytes simp del: take_append)

lemma voter_deserialize_disc:
  "voter_weight_record_deserialize_unchecked bs = Inr v \<Longrightarrow>
     take 8 bs = le_bytes 8 (account_discriminator v)"
  by (auto simp add: voter_weight_record_deserialize_Inr first_bytes simp del: take_append)

lemma max_deserialize_disc:
  "max_voter_weight_record_deserialize_unchecked bs = Inr m \<Longrightarrow>
     take 8 bs = le_bytes 8 (max_account_discriminator m)"
  by (auto simp add: max_voter_weight_record_deserialize_Inr first_bytes simp del: take_append)

lemma view_registrar:
  "view E a = ViewRegistrar r \<longleftrightarrow>
     acc_owner a = PROGRAM_ID \<and> registrar_deserialize E (acc_data a) = Inr r"
  by (auto simp add: view_def split: sum.splits if_splits)

lemma view_voterD:
  "view E a = ViewVoter v \<Longrightarrow>
     acc_owner a = PROGRAM_ID \<and> voter_weight_record_deserialize_unchecked (acc_data a) = Inr v \<and>
     account_discriminator v = VOTER_WEIGHT_DISCRIMINATOR E"
  by (auto simp add: view_def split: sum.splits if_splits)

lemma view_maxD:
  "view E a = ViewMax m \<Longrightarrow>
     acc_owner a = PROGRAM_ID \<and>
     max_voter_weight_record_deserialize_unchecked (acc_data a) = Inr m \<and>
     max_account_discriminator m = MAX_VOTER_WEIGHT_DISCRIMINATOR E"
  by (auto simp add: view_def split: sum.splits if_splits)

lemma not_registrar:
  assumes "runtime_ok E" "take 8 bs = le_bytes 8 d" "d \<noteq> REGISTRAR_DISCRIMINATOR E"
  shows "\<exists>e. registrar_deserialize E bs = Inl e"
  using registrar_deserialize_disc [of E bs] assms(2,3)
  by (cases "registrar_deserialize E bs") (auto simp add: disc_inject)

lemma view_voter:
  assumes "runtime_ok E"
  shows "view E a = ViewVoter v \<longleftrightarrow>
     acc_owner a = PROGRAM_ID \<and> voter_weight_record_deserialize_unchecked (acc_data a) = Inr v \<and>
     account_discriminator v = VOTER_WEIGHT_DISCRIMINATOR E"
proof
  assume r: "acc_owner a = PROGRAM_ID \<and>
     voter_weight_record_deserialize_unchecked (acc_data a) = Inr v \<and>
     account_discriminator v = VOTER_WEIGHT_DISCRIMINATOR E"
  then obtain e where "registrar_deserialize E (acc_data a) = Inl e"
    using not_registrar [OF assms] voter_deserialize_disc runtime_discriminators [OF assms] by metis
  with r show "view E a = ViewVoter v" by (simp add: view_def)
qed (rule view_voterD)

lemma view_max:
  assumes "runtime_ok E" "length (acc_data a) < 123"
  shows "view E a = ViewMax m \<longleftrightarrow>
     acc_owner a = PROGRAM_ID \<and>
     max_voter_weight_record_deserialize_unchecked (acc_data a) = Inr m \<and>
     max_account_discriminator m = MAX_VOTER_WEIGHT_DISCRIMINATOR E"
proof
  assume r: "acc_owner a = PROGRAM_ID \<and>
     max_voter_weight_record_deserialize_unchecked (acc_data a) = Inr m \<and>
     max_account_discriminator m = MAX_VOTER_WEIGHT_DISCRIMINATOR E"
  then obtain e where "registrar_deserialize E (acc_data a) = Inl e"
    using not_registrar [OF assms(1)] max_deserialize_disc runtime_discriminators [OF assms(1)]
    by metis
  with r assms(2) show "view E a = ViewMax m"
    by (simp add: view_def short_is_no_voter_record)
qed (rule view_maxD)

lemma view_same_content: "same_content a b \<Longrightarrow> view E a = view E b"
  unfolding view_def by (simp only: same_contentD)

lemma view_foreign: "acc_owner a \<noteq> PROGRAM_ID \<Longrightarrow> view E a = ViewNone"
  by (simp add: view_def)

section \<open>The invariant of an account\<close>

definition zeroed :: "account \<Rightarrow> bool" where
  "zeroed a \<longleftrightarrow> (\<forall>b \<in> set (acc_data a). b = 0)"

text \<open>
  The states of a voter weight record at a time: never granted, granted for any
  action for at most ten slots, or granted for one action in one slot.
\<close>

definition never_granted :: "voter_weight_record \<Rightarrow> bool" where
  "never_granted v \<longleftrightarrow>
     voter_weight v = 0 \<and> voter_weight_expiry v = Some 0 \<and>
     weight_action v = None \<and> weight_action_target v = None"

definition granted_any :: "clock \<Rightarrow> voter_weight_record \<Rightarrow> bool" where
  "granted_any c v \<longleftrightarrow>
     voter_weight v = 1 \<and>
     (case voter_weight_expiry v of None \<Rightarrow> False
      | Some e \<Rightarrow> e \<le> saturating_add_u64 (slot c) VOTER_WEIGHT_EXPIRY_SLOT_WINDOW) \<and>
     weight_action v = None \<and> weight_action_target v = None"

definition granted_bound :: "clock \<Rightarrow> voter_weight_record \<Rightarrow> bool" where
  "granted_bound c v \<longleftrightarrow>
     voter_weight v = 1 \<and>
     (case voter_weight_expiry v of None \<Rightarrow> False | Some e \<Rightarrow> e \<le> slot c) \<and>
     weight_action v \<noteq> None \<and>
     (case weight_action_target v of None \<Rightarrow> False | Some t \<Rightarrow> t \<noteq> default_pubkey)"

definition voter_record_ok :: "clock \<Rightarrow> voter_weight_record \<Rightarrow> bool" where
  "voter_record_ok c v \<longleftrightarrow> never_granted v \<or> granted_any c v \<or> granted_bound c v"

definition max_record_ok :: "max_voter_weight_record \<Rightarrow> bool" where
  "max_record_ok m \<longleftrightarrow>
     max_voter_weight m = 0 \<and> max_voter_weight_expiry m = Some 0 \<or>
     0 < max_voter_weight m \<and> max_voter_weight_expiry m = None"

definition space_ok :: "runtime \<Rightarrow> account \<Rightarrow> bool" where
  "space_ok E a \<longleftrightarrow>
     (case view E a of
        ViewRegistrar r \<Rightarrow> length (acc_data a) = Registrar_LEN
      | ViewVoter v \<Rightarrow> length (acc_data a) = VoterWeightRecord_get_space
      | ViewMax m \<Rightarrow> length (acc_data a) = MaxVoterWeightRecord_get_space
      | ViewNone \<Rightarrow> acc_owner a = PROGRAM_ID \<longrightarrow> zeroed a)"

text \<open>
  Two invariants of what an account is read as. In \<open>view_ok\<close> a voter weight record
  stands at the address derived from its owner. In \<open>view_sound\<close> it stands at the
  address derived from some key, its owner when it was created; and a registrar's
  governance program, but not its realm, is at an address of a program.
\<close>

definition view_ok :: "runtime \<Rightarrow> clock \<Rightarrow> pubkey \<Rightarrow> account_view \<Rightarrow> bool" where
  "view_ok E c k x \<longleftrightarrow>
     (case x of
        ViewRegistrar r \<Rightarrow>
          k = registrar_pda E (reg_realm r) (reg_governing_token_mint r) \<and>
          0 < sint (max_verification_age r)
      | ViewVoter v \<Rightarrow>
          k = voter_weight_record_pda E (vwr_realm v) (vwr_governing_token_mint v)
                (governing_token_owner v) \<and>
          voter_record_ok c v
      | ViewMax m \<Rightarrow>
          k = max_voter_weight_record_pda E (max_realm m) (max_governing_token_mint m) \<and>
          max_record_ok m
      | ViewNone \<Rightarrow> True)"

definition view_sound :: "runtime \<Rightarrow> (pubkey \<Rightarrow> bool) \<Rightarrow> clock \<Rightarrow> pubkey \<Rightarrow> account_view \<Rightarrow> bool" where
  "view_sound E progs c k x \<longleftrightarrow>
     (case x of
        ViewRegistrar r \<Rightarrow>
          view_ok E c k x \<and> progs (governance_program_id r) \<and>
          \<not> progs (reg_realm r) \<and> reg_realm r \<noteq> default_pubkey
      | ViewVoter v \<Rightarrow>
          (\<exists>w. k = voter_weight_record_pda E (vwr_realm v) (vwr_governing_token_mint v) w) \<and>
          voter_record_ok c v
      | ViewMax m \<Rightarrow> view_ok E c k x
      | ViewNone \<Rightarrow> True)"

definition account_ok :: "runtime \<Rightarrow> clock \<Rightarrow> pubkey \<Rightarrow> account \<Rightarrow> bool" where
  "account_ok E c k a \<longleftrightarrow> space_ok E a \<and> view_ok E c k (view E a)"

definition account_sound :: "runtime \<Rightarrow> (pubkey \<Rightarrow> bool) \<Rightarrow> clock \<Rightarrow> pubkey \<Rightarrow> account \<Rightarrow> bool" where
  "account_sound E progs c k a \<longleftrightarrow>
     space_ok E a \<and> view_sound E progs c k (view E a) \<and> (acc_executable a \<longrightarrow> progs k)"

definition ledger_ok :: "runtime \<Rightarrow> clock \<Rightarrow> ledger \<Rightarrow> bool" where
  "ledger_ok E c L \<longleftrightarrow> (\<forall>k. account_ok E c k (L k))"

definition ledger_sound :: "runtime \<Rightarrow> (pubkey \<Rightarrow> bool) \<Rightarrow> clock \<Rightarrow> ledger \<Rightarrow> bool" where
  "ledger_sound E progs c L \<longleftrightarrow> (\<forall>k. account_sound E progs c k (L k))"

lemmas account_defs = account_ok_def account_sound_def

lemma view_sound_simps [simp]:
  "view_sound E progs c k ViewNone"
  "view_sound E progs c k (ViewRegistrar r) \<longleftrightarrow>
     k = registrar_pda E (reg_realm r) (reg_governing_token_mint r) \<and>
     0 < sint (max_verification_age r) \<and> progs (governance_program_id r) \<and>
     \<not> progs (reg_realm r) \<and> reg_realm r \<noteq> default_pubkey"
  "view_sound E progs c k (ViewVoter v) \<longleftrightarrow>
     (\<exists>w. k = voter_weight_record_pda E (vwr_realm v) (vwr_governing_token_mint v) w) \<and>
     voter_record_ok c v"
  "view_sound E progs c k (ViewMax m) \<longleftrightarrow>
     k = max_voter_weight_record_pda E (max_realm m) (max_governing_token_mint m) \<and>
     max_record_ok m"
  by (simp_all add: view_sound_def view_ok_def)

lemma view_ok_simps [simp]:
  "view_ok E c k ViewNone"
  "view_ok E c k (ViewRegistrar r) \<longleftrightarrow>
     k = registrar_pda E (reg_realm r) (reg_governing_token_mint r) \<and>
     0 < sint (max_verification_age r)"
  "view_ok E c k (ViewVoter v) \<longleftrightarrow>
     k = voter_weight_record_pda E (vwr_realm v) (vwr_governing_token_mint v)
           (governing_token_owner v) \<and> voter_record_ok c v"
  "view_ok E c k (ViewMax m) \<longleftrightarrow>
     k = max_voter_weight_record_pda E (max_realm m) (max_governing_token_mint m) \<and>
     max_record_ok m"
  by (simp_all add: view_ok_def)

lemma space_okD:
  assumes "space_ok E a"
  shows "view E a = ViewRegistrar r \<Longrightarrow> length (acc_data a) = Registrar_LEN"
    and "view E a = ViewVoter v \<Longrightarrow> length (acc_data a) = VoterWeightRecord_get_space"
    and "view E a = ViewMax m \<Longrightarrow> length (acc_data a) = MaxVoterWeightRecord_get_space"
    and "view E a = ViewNone \<Longrightarrow> acc_owner a = PROGRAM_ID \<Longrightarrow> zeroed a"
  using assms by (simp_all add: space_ok_def)

lemma ledger_okD:
  assumes "ledger_ok E c L"
  shows "space_ok E (L k)" "view_ok E c k (view E (L k))"
  using assms by (simp_all add: ledger_ok_def account_ok_def)

lemma ledger_soundD:
  assumes "ledger_sound E progs c L"
  shows "space_ok E (L k)" "view_sound E progs c k (view E (L k))"
    "acc_executable (L k) \<Longrightarrow> progs k"
  using assms by (simp_all add: ledger_sound_def account_sound_def)

lemma account_sound_same_content:
  assumes "same_content a b" "account_sound E progs c k b"
  shows "account_sound E progs c k a"
proof -
  have "view E a = view E b" "space_ok E a = space_ok E b"
    unfolding space_ok_def zeroed_def
    by (simp_all only: same_contentD [OF assms(1)] view_same_content [OF assms(1)])
  then show ?thesis using assms(2) same_contentD [OF assms(1)] by (simp add: account_sound_def)
qed

lemma account_ok_foreign: "acc_owner a \<noteq> PROGRAM_ID \<Longrightarrow> account_ok E c k a"
  by (simp add: account_ok_def space_ok_def view_foreign)

lemma account_sound_foreign:
  "acc_owner a \<noteq> PROGRAM_ID \<Longrightarrow> (acc_executable a \<Longrightarrow> progs k) \<Longrightarrow> account_sound E progs c k a"
  by (simp add: account_sound_def space_ok_def view_foreign)

lemma voter_record_ok_mono:
  assumes "voter_record_ok c v" "slot c \<le> slot c'"
  shows "voter_record_ok c' v"
proof -
  have "saturating_add_u64 (slot c) w \<le> saturating_add_u64 (slot c') w" for w
    using assms(2) by (rule saturating_add_u64_mono)
  then show ?thesis using assms
    by (auto simp add: voter_record_ok_def granted_any_def granted_bound_def
        split: option.splits intro: order_trans)
qed

lemma view_sound_mono: "view_sound E progs c k x \<Longrightarrow> slot c \<le> slot c' \<Longrightarrow> view_sound E progs c' k x"
  by (cases x) (auto intro: voter_record_ok_mono)

lemma ledger_sound_mono: "ledger_sound E progs c L \<Longrightarrow> slot c \<le> slot c' \<Longrightarrow> ledger_sound E progs c' L"
  by (auto simp add: ledger_sound_def account_sound_def intro: view_sound_mono)

lemma zeroed_disc:
  assumes "zeroed a" "take 8 (acc_data a) = le_bytes 8 (d :: bytes8)"
  shows "d = 0"
proof -
  have "\<forall>b \<in> set (take 8 (acc_data a)). b = 0"
    using assms(1) by (auto simp add: zeroed_def dest: in_set_takeD)
  then have "take 8 (acc_data a) = replicate (length (take 8 (acc_data a))) 0"
    by (simp only: replicate_length_same)
  then have "le_bytes 8 d = le_bytes 8 (0 :: bytes8)"
    using assms(2) by (metis le_bytes_zero length_le_bytes)
  then show ?thesis by (simp only: disc_inject)
qed

lemma view_zeroed:
  assumes "runtime_ok E" "zeroed a"
  shows "view E a = ViewNone"
proof -
  note disc = runtime_discriminators [OF assms(1)] zeroed_disc [OF assms(2)]
  show ?thesis
  proof (cases "view E a")
    case (ViewRegistrar r)
    then show ?thesis using disc registrar_deserialize_disc by (auto simp add: view_registrar)
  next
    case (ViewVoter v)
    then show ?thesis using disc by (auto dest!: view_voterD dest: voter_deserialize_disc)
  next
    case (ViewMax m)
    then show ?thesis using disc by (auto dest!: view_maxD dest: max_deserialize_disc)
  qed simp
qed

text \<open>
  In a ledger that satisfies the invariant, an account that decodes as a record and
  carries the discriminator of that record is viewed as one.
\<close>

lemma loaded_voter_view:
  assumes "runtime_ok E" "acc_owner a = PROGRAM_ID"
    and "voter_weight_record_deserialize_unchecked (acc_data a) = Inr v"
    and "holds_discriminator (VOTER_WEIGHT_DISCRIMINATOR E) a"
  shows "view E a = ViewVoter v"
  using assms voter_deserialize_disc [OF assms(3)]
  by (simp add: view_voter [OF assms(1)] holds_discriminator_def disc_inject)

lemma loaded_max_view:
  assumes "runtime_ok E" "space_ok E a" "acc_owner a = PROGRAM_ID"
    and d: "max_voter_weight_record_deserialize_unchecked (acc_data a) = Inr m"
    and h: "holds_discriminator (MAX_VOTER_WEIGHT_DISCRIMINATOR E) a"
  shows "view E a = ViewMax m"
proof -
  note disc = runtime_discriminators [OF assms(1)]
  have b: "take 8 (acc_data a) = le_bytes 8 (MAX_VOTER_WEIGHT_DISCRIMINATOR E)"
    using h by (simp add: holds_discriminator_def)
  show ?thesis
  proof (cases "view E a")
    case (ViewRegistrar r)
    then show ?thesis
      using b disc registrar_deserialize_disc by (auto simp add: view_registrar disc_inject)
  next
    case (ViewVoter v)
    then show ?thesis
      using b disc by (auto simp add: disc_inject dest!: view_voterD voter_deserialize_disc)
  next
    case (ViewMax m')
    then show ?thesis using d by (auto dest: view_maxD)
  next
    case ViewNone
    then have "zeroed a" using assms(2,3) by (simp add: space_ok_def)
    then show ?thesis using zeroed_disc [OF _ b] disc by simp
  qed
qed

section \<open>The size of what the handlers store\<close>

lemma view_stored_registrar:
  "acc_owner a = PROGRAM_ID \<Longrightarrow> acc_data a = overwrite (registrar_serialize E r) buffer \<Longrightarrow>
     view E a = ViewRegistrar r"
  by (simp add: view_registrar overwrite_def reg.deser_ser)

lemma view_stored_voter:
  "runtime_ok E \<Longrightarrow> acc_owner a = PROGRAM_ID \<Longrightarrow>
     acc_data a = overwrite (voter_weight_record_serialize v) buffer \<Longrightarrow>
     account_discriminator v = VOTER_WEIGHT_DISCRIMINATOR E \<Longrightarrow> view E a = ViewVoter v"
  by (simp add: view_voter overwrite_def voter.deser_ser)

lemma view_stored_max:
  assumes "runtime_ok E" "acc_owner a = PROGRAM_ID"
    and "acc_data a = overwrite (max_voter_weight_record_serialize m) buffer"
    and "max_account_discriminator m = MAX_VOTER_WEIGHT_DISCRIMINATOR E"
    and "length buffer = MaxVoterWeightRecord_get_space"
  shows "view E a = ViewMax m"
proof -
  have "length (acc_data a) = MaxVoterWeightRecord_get_space"
    using assms(3,5) maxw.ser_fits [of m] by (simp add: length_overwrite)
  then show ?thesis using assms
    by (subst view_max [OF assms(1)])
      (simp_all add: MaxVoterWeightRecord_get_space_def overwrite_def maxw.deser_ser)
qed

lemma stored_registrar_space:
  assumes "acc_owner a = PROGRAM_ID" "acc_data a = overwrite (registrar_serialize E r) buffer"
    and "length buffer = Registrar_LEN"
  shows "space_ok E a"
  using assms view_stored_registrar [OF assms(1,2)]
  by (simp add: space_ok_def length_overwrite length_registrar_serialize)

lemma stored_voter_space:
  assumes "runtime_ok E" "acc_owner a = PROGRAM_ID"
    and "acc_data a = overwrite (voter_weight_record_serialize v) buffer"
    and "account_discriminator v = VOTER_WEIGHT_DISCRIMINATOR E"
    and "length buffer = VoterWeightRecord_get_space"
  shows "space_ok E a"
  using assms view_stored_voter [OF assms(1-4)] voter.ser_fits [of v]
  by (simp add: space_ok_def length_overwrite)

lemma stored_max_space:
  assumes "runtime_ok E" "acc_owner a = PROGRAM_ID"
    and "acc_data a = overwrite (max_voter_weight_record_serialize m) buffer"
    and "max_account_discriminator m = MAX_VOTER_WEIGHT_DISCRIMINATOR E"
    and "length buffer = MaxVoterWeightRecord_get_space"
  shows "space_ok E a"
  using assms view_stored_max [OF assms(1-5)] maxw.ser_fits [of m]
  by (simp add: space_ok_def length_overwrite)

end
