(* ===== verification/Record_Confusion.thy ===== *)
theory Record_Confusion
  imports Account_View
begin

text \<open>
  What the missing discriminator check of the two record wrappers means: which
  accounts decode as a record that they are not.

  A max voter weight record is too short to be read as a voter weight record. In the
  other direction the two records agree in their layout up to the mint; behind it a
  max voter weight record has a weight and an optional expiry where a voter weight
  record has the voter's key. When byte 8 of the key is 0 or 1 the bytes of a voter
  weight record decode as a max voter weight record, and
  \<open>update_max_voter_weight_record\<close>, which has no address constraint on the record,
  stores the new weight over the front of the key. Registrars decode as weight records
  of a realm that is their governance program, zeroed accounts as records of realm 0.
\<close>

section \<open>The key under the weight\<close>

lemma le_bytes_add: "le_bytes (m + n) w = le_bytes m w @ le_bytes n (drop_bit (8 * m) w)"
  by (induction m arbitrary: w) (simp_all add: drop_bit_drop_bit add.commute)

lemma le_bytes_cong:
  fixes v :: "'a::len word" and w :: "'b::len word"
  assumes "\<And>i. i < 8 * n \<Longrightarrow> bit v i = bit w i"
  shows "le_bytes n v = le_bytes n w"
  using assms
proof (induction n arbitrary: v w)
  case (Suc n)
  have "ucast v = (ucast w :: byte)"
    using Suc.prems by (intro bit_word_eqI) (simp add: bit_simps)
  moreover have "le_bytes n (drop_bit 8 v) = le_bytes n (drop_bit 8 w)"
    using Suc.prems by (intro Suc.IH) (simp add: bit_simps)
  ultimately show ?case by simp
qed simp

definition key_front :: "pubkey \<Rightarrow> u64" where
  "key_front k = ucast k"

definition key_tag :: "pubkey \<Rightarrow> byte" where
  "key_tag k = ucast (drop_bit 64 k)"

definition key_tail :: "pubkey \<Rightarrow> byte list" where
  "key_tail k = le_bytes 23 (drop_bit 72 k)"

text \<open>
  The key that is left when a max voter weight record with weight \<open>w\<close> and no expiry is
  written over the key \<open>k\<close>: when \<open>k\<close> was read with an expiry, its encoding has become
  eight bytes shorter, and the eight reserved bytes behind it have moved forward.
\<close>

definition reassigned_bytes :: "u64 \<Rightarrow> pubkey \<Rightarrow> byte list" where
  "reassigned_bytes w k =
     le_bytes 8 w @ 0 #
     (if key_tag k = 0 then key_tail k else take 8 (drop 8 (key_tail k)) @ drop 8 (key_tail k))"

definition reassigned_owner :: "u64 \<Rightarrow> pubkey \<Rightarrow> pubkey" where
  "reassigned_owner w k = le_word (reassigned_bytes w k)"

lemma key_parts: "le_bytes 32 k = le_bytes 8 (key_front k) @ key_tag k # key_tail k"
proof -
  have "le_bytes 8 (key_front k) = le_bytes 8 k"
    by (rule le_bytes_cong) (simp add: key_front_def bit_simps)
  moreover have "le_bytes 32 k = le_bytes 8 k @ le_bytes 24 (drop_bit 64 k)"
    using le_bytes_add [of 8 24 k] by simp
  moreover have "le_bytes 24 (drop_bit 64 k) = key_tag k # key_tail k"
    using le_bytes_add [of 1 23 "drop_bit 64 k"]
    by (simp add: key_tag_def key_tail_def drop_bit_drop_bit)
  ultimately show ?thesis by simp
qed

lemma length_key_tail [simp]: "length (key_tail k) = 23"
  by (simp add: key_tail_def)

lemma bytes_reassigned_owner: "le_bytes 32 (reassigned_owner w k) = reassigned_bytes w k"
proof -
  have "length (reassigned_bytes w k) = 32" by (simp add: reassigned_bytes_def)
  then show ?thesis
    using le_bytes_le_word [where bs = "reassigned_bytes w k" and 'a = 256]
    by (simp add: reassigned_owner_def)
qed

definition voter_tail :: "voter_weight_record \<Rightarrow> byte list" where
  "voter_tail v =
     le_bytes 8 (voter_weight v) @ enc_option (le_bytes 8) (voter_weight_expiry v) @
     enc_option enc_action (weight_action v) @ enc_option (le_bytes 32) (weight_action_target v) @
     le_bytes 8 (vwr_reserved v)"

lemma voter_bytes:
  "voter_weight_record_serialize v =
     le_bytes 8 (account_discriminator v) @ le_bytes 32 (vwr_realm v) @
     le_bytes 32 (vwr_governing_token_mint v) @ le_bytes 32 (governing_token_owner v) @ voter_tail v"
  by (simp add: voter_weight_record_serialize_def voter_tail_def)

lemma voter_bytes_parts:
  "voter_weight_record_serialize v =
     le_bytes 8 (account_discriminator v) @ le_bytes 32 (vwr_realm v) @
     le_bytes 32 (vwr_governing_token_mint v) @ le_bytes 8 (key_front (governing_token_owner v)) @
     key_tag (governing_token_owner v) # key_tail (governing_token_owner v) @ voter_tail v"
  by (simp only: voter_bytes key_parts [of "governing_token_owner v"] append.simps append_assoc)

lemma voter_bytes_reassigned:
  "voter_weight_record_serialize
       (v\<lparr>governing_token_owner := reassigned_owner w (governing_token_owner v)\<rparr>) =
     le_bytes 8 (account_discriminator v) @ le_bytes 32 (vwr_realm v) @
     le_bytes 32 (vwr_governing_token_mint v) @ reassigned_bytes w (governing_token_owner v) @ voter_tail v"
  by (simp add: voter_bytes bytes_reassigned_owner) (simp add: voter_tail_def)

section \<open>Reading a voter weight record as a max voter weight record\<close>

definition confused_record :: "voter_weight_record \<Rightarrow> max_voter_weight_record" where
  "confused_record v =
     (let k = governing_token_owner v; t = key_tail k in
      \<lparr>max_account_discriminator = account_discriminator v, max_realm = vwr_realm v,
       max_governing_token_mint = vwr_governing_token_mint v, max_voter_weight = key_front k,
       max_voter_weight_expiry = (if key_tag k = 0 then None else Some (le_word (take 8 t))),
       max_reserved = le_word (take 8 (if key_tag k = 0 then t else drop 8 t))\<rparr>)"

lemma parse_option_Cons:
  "parse_option parse (t # bs) =
     (if t = 0 then Some (None, bs)
      else if t = 1 then map_option (\<lambda>(x, rest). (Some x, rest)) (parse bs)
      else None)"
  by (simp add: parse_option_def)

lemma voter_read_as_max:
  "max_voter_weight_record_deserialize_unchecked (voter_weight_record_serialize v @ rest) =
     (if key_tag (governing_token_owner v) = 0 \<or> key_tag (governing_token_owner v) = 1
      then Inr (confused_record v) else Inl (Anchor AccountDidNotDeserialize))"
  by (simp add: max_voter_weight_record_deserialize_unchecked_def
      parse_max_voter_weight_record_def voter_bytes_parts codec_simps parse_option_Cons
      parse_word_def confused_record_def Let_def)

lemma le_bytes_of_take8: "8 \<le> length bs \<Longrightarrow> le_bytes 8 (le_word (take 8 bs) :: bytes8) = take 8 bs"
  using le_bytes_le_word [where bs = "take 8 bs" and 'a = 64] by simp

lemma confused_write:
  assumes "key_tag (governing_token_owner v) = 0 \<or> key_tag (governing_token_owner v) = 1"
  shows "overwrite (max_voter_weight_record_serialize
             ((confused_record v)\<lparr>max_voter_weight := w, max_voter_weight_expiry := None\<rparr>))
           (voter_weight_record_serialize v @ rest) =
         voter_weight_record_serialize
           (v\<lparr>governing_token_owner := reassigned_owner w (governing_token_owner v)\<rparr>) @ rest"
proof -
  let ?t = "key_tail (governing_token_owner v)"
  have t: "take 8 ?t @ drop 8 ?t @ rest' = ?t @ rest'" for rest'
    by (simp only: append_assoc [symmetric] append_take_drop_id)
  show ?thesis using assms unfolding voter_bytes_reassigned
    by (auto simp add: overwrite_def voter_bytes_parts reassigned_bytes_def max_voter_weight_record_serialize_def confused_record_def Let_def
        le_bytes_of_take8 t)
qed

text \<open>The other direction is impossible: a max voter weight record has 97 bytes.\<close>

lemma max_not_read_as_voter:
  "length bs = MaxVoterWeightRecord_get_space \<Longrightarrow>
     voter_weight_record_deserialize_unchecked bs = Inl (Anchor AccountDidNotDeserialize)"
  by (rule short_is_no_voter_record) (simp add: MaxVoterWeightRecord_get_space_def)

text \<open>
  An update of the max voter weight record that is given a voter weight record of the
  same realm and mint succeeds, and reassigns the record to another key.
\<close>

lemma update_max_reassigns:
  assumes E: "runtime_ok E" and v: "view E (L (key (um_max_voter_weight_record c))) = ViewVoter v"
    and u: "update_max_voter_weight_record_instruction E c w L = Inr L'"
  shows "view E (L' (key (um_max_voter_weight_record c))) =
    ViewVoter (v\<lparr>governing_token_owner := reassigned_owner w (governing_token_owner v)\<rparr>)"
proof -
  let ?k = "key (um_max_voter_weight_record c)"
  let ?tag = "key_tag (governing_token_owner v)"
  obtain rest where o: "acc_owner (L ?k) = PROGRAM_ID"
    and bs: "acc_data (L ?k) = voter_weight_record_serialize v @ rest"
    and disc: "account_discriminator v = VOTER_WEIGHT_DISCRIMINATOR E"
    using view_voterD [OF v] by (auto simp add: voter_weight_record_deserialize_Inr)
  have tag: "?tag = 0 \<or> ?tag = 1"
    using u by (auto simp add: update_max_voter_weight_record_ok bs voter_read_as_max split: if_splits)
  have "L' ?k = (L ?k)\<lparr>acc_data := voter_weight_record_serialize
      (v\<lparr>governing_token_owner := reassigned_owner w (governing_token_owner v)\<rparr>) @ rest\<rparr>"
    using u tag by (auto simp add: update_max_voter_weight_record_ok bs voter_read_as_max
        confused_write [OF tag])
  then show ?thesis using o disc
    by (subst view_voter [OF E]) (simp_all add: voter.deser_ser)
qed

section \<open>What else can be read as a weight record\<close>

text \<open>
  In a ledger whose accounts have their sizes only two kinds of accounts without the
  discriminator decode as a voter weight record: zeroed ones, for the zero realm and
  mint, and registrars, whose governance program stands in the place of the realm and
  whose realm in the place of the mint. The same two are read as a max voter weight
  record, besides voter weight records.
\<close>

lemma zero_bytes_word:
  fixes w :: pubkey
  assumes "\<forall>b \<in> set (le_bytes 32 w). b = 0"
  shows "w = 0"
proof -
  have "le_bytes 32 w = replicate (length (le_bytes 32 w)) 0"
    using assms by (simp only: replicate_length_same)
  then have "le_bytes 32 w = le_bytes 32 (0 :: pubkey)" by simp
  then show ?thesis by (subst (asm) le_bytes_inject) simp_all
qed

lemma zeroed_read_as_voter:
  assumes "zeroed a" "voter_weight_record_deserialize_unchecked (acc_data a) = Inr v"
  shows "vwr_realm v = 0" "vwr_governing_token_mint v = 0"
proof -
  obtain rest where bs: "acc_data a = voter_weight_record_serialize v @ rest"
    using assms(2) by (auto simp add: voter_weight_record_deserialize_Inr)
  have z: "b = 0" if "b \<in> set (acc_data a)" for b using assms(1) that by (simp add: zeroed_def)
  show "vwr_realm v = 0" "vwr_governing_token_mint v = 0"
    by (rule zero_bytes_word, auto simp add: bs voter_weight_record_serialize_def intro!: z)+
qed

lemma registrar_read_as_voter:
  assumes "registrar_deserialize E bs = Inr r" "voter_weight_record_deserialize_unchecked bs = Inr v"
  shows "vwr_realm v = governance_program_id r" "vwr_governing_token_mint v = reg_realm r"
proof -
  obtain rest rest' where "registrar_serialize E r @ rest = voter_weight_record_serialize v @ rest'"
    using assms by (auto simp add: registrar_deserialize_Inr voter_weight_record_deserialize_Inr)
  then have "le_bytes 32 (vwr_realm v) = le_bytes 32 (governance_program_id r) \<and>
      le_bytes 32 (vwr_governing_token_mint v) = le_bytes 32 (reg_realm r)"
    by (simp add: registrar_serialize_def enc_registrar_def voter_weight_record_serialize_def)
  then show "vwr_realm v = governance_program_id r" "vwr_governing_token_mint v = reg_realm r"
    by (simp_all add: le_bytes_inject)
qed

lemma zeroed_read_as_max:
  assumes "zeroed a" "max_voter_weight_record_deserialize_unchecked (acc_data a) = Inr m"
  shows "max_realm m = 0"
proof -
  obtain rest where bs: "acc_data a = max_voter_weight_record_serialize m @ rest"
    using assms(2) by (auto simp add: max_voter_weight_record_deserialize_Inr)
  have z: "b = 0" if "b \<in> set (acc_data a)" for b using assms(1) that by (simp add: zeroed_def)
  show ?thesis
    by (rule zero_bytes_word) (auto simp add: bs max_voter_weight_record_serialize_def intro!: z)
qed

lemma registrar_read_as_max:
  assumes "registrar_deserialize E bs = Inr r"
    and "max_voter_weight_record_deserialize_unchecked bs = Inr m"
  shows "max_realm m = governance_program_id r"
proof -
  obtain rest rest' where "registrar_serialize E r @ rest = max_voter_weight_record_serialize m @ rest'"
    using assms by (auto simp add: registrar_deserialize_Inr max_voter_weight_record_deserialize_Inr)
  then have "le_bytes 32 (max_realm m) = le_bytes 32 (governance_program_id r)"
    by (simp add: registrar_serialize_def enc_registrar_def max_voter_weight_record_serialize_def)
  then show ?thesis by (simp add: le_bytes_inject)
qed

lemma undiscriminated_voter_record:
  assumes "runtime_ok E" "space_ok E a" "acc_owner a = PROGRAM_ID"
    and d: "voter_weight_record_deserialize_unchecked (acc_data a) = Inr v"
    and h: "\<not> holds_discriminator (VOTER_WEIGHT_DISCRIMINATOR E) a"
  shows "vwr_realm v = 0 \<and> vwr_governing_token_mint v = 0 \<or>
    (\<exists>r. view E a = ViewRegistrar r \<and>
       vwr_realm v = governance_program_id r \<and> vwr_governing_token_mint v = reg_realm r)"
proof (cases "view E a")
  case (ViewRegistrar r)
  then show ?thesis using registrar_read_as_voter [OF _ d] by (auto simp add: view_registrar)
next
  case (ViewVoter w)
  then have "holds_discriminator (VOTER_WEIGHT_DISCRIMINATOR E) a"
    using voter_deserialize_disc by (auto simp add: holds_discriminator_def dest!: view_voterD)
  then show ?thesis using h by simp
next
  case (ViewMax m)
  then show ?thesis using space_okD(3) [OF assms(2)] max_not_read_as_voter d by auto
next
  case ViewNone
  then have "zeroed a" using space_okD(4) [OF assms(2)] assms(3) by simp
  then show ?thesis using zeroed_read_as_voter [OF _ d] by simp
qed

lemma read_as_max:
  assumes "space_ok E a" "acc_owner a = PROGRAM_ID"
    and d: "max_voter_weight_record_deserialize_unchecked (acc_data a) = Inr m"
  shows "max_realm m = 0 \<or> (\<exists>r. view E a = ViewRegistrar r \<and> max_realm m = governance_program_id r) \<or>
    (\<exists>v. view E a = ViewVoter v \<and> max_realm m = vwr_realm v) \<or> view E a = ViewMax m"
proof (cases "view E a")
  case (ViewRegistrar r)
  then show ?thesis using registrar_read_as_max [OF _ d] by (auto simp add: view_registrar)
next
  case (ViewVoter v)
  then obtain rest where "acc_data a = voter_weight_record_serialize v @ rest"
    by (auto dest!: view_voterD simp add: voter_weight_record_deserialize_Inr)
  then have "m = confused_record v" using d by (simp add: voter_read_as_max split: if_splits)
  then show ?thesis using ViewVoter by (simp add: confused_record_def Let_def)
next
  case (ViewMax m')
  then show ?thesis using d by (auto dest!: view_maxD)
next
  case ViewNone
  then have "zeroed a" using space_okD(4) [OF assms(1)] assms(2) by simp
  then show ?thesis using zeroed_read_as_max [OF _ d] by simp
qed

end
