(* ===== verification/Program_Dispatch.thy ===== *)
theory Program_Dispatch
  imports Record_Confusion
begin

text \<open>
  \<open>lib.rs\<close>: the nine instructions of the program as one function of the ledger, what
  creations, updates and closings do to the account they change, and which kinds of
  account an accepted call can have read. Anchor's routing of an
  instruction's bytes to a handler is represented by the constructors of \<open>call\<close>.
\<close>

datatype call =
    Create_registrar create_registrar_accounts u16 i64
  | Update_registrar update_registrar_accounts u16 i64
  | Create_voter_weight_record create_voter_weight_record_accounts pubkey
  | Update_voter_weight_record update_voter_weight_record_accounts
  | Update_voter_weight_record_for_action update_voter_weight_record_accounts
      voter_weight_action pubkey
  | Close_registrar close_registrar_accounts
  | Close_voter_weight_record close_voter_weight_record_accounts
  | Create_max_voter_weight_record create_max_voter_weight_record_accounts
  | Update_max_voter_weight_record update_max_voter_weight_record_accounts u64

fun process :: "runtime \<Rightarrow> nat + clock \<Rightarrow> call \<Rightarrow> ledger \<Rightarrow> program_error + ledger" where
  "process E clk (Create_registrar c min_score max_age) L =
     create_registrar_instruction E c min_score max_age L"
| "process E clk (Update_registrar c min_score max_age) L =
     update_registrar_instruction E c min_score max_age L"
| "process E clk (Create_voter_weight_record c token_owner) L =
     create_voter_weight_record_instruction E c token_owner L"
| "process E clk (Update_voter_weight_record c) L =
     update_voter_weight_record_instruction E clk c L"
| "process E clk (Update_voter_weight_record_for_action c action action_target) L =
     update_voter_weight_record_for_action_instruction E clk c action action_target L"
| "process E clk (Close_registrar c) L = close_registrar_instruction E c L"
| "process E clk (Close_voter_weight_record c) L = close_voter_weight_record_instruction E c L"
| "process E clk (Create_max_voter_weight_record c) L =
     create_max_voter_weight_record_instruction E c L"
| "process E clk (Update_max_voter_weight_record c max_weight) L =
     update_max_voter_weight_record_instruction E c max_weight L"

text \<open>The account whose content a call changes.\<close>

fun call_target :: "call \<Rightarrow> pubkey" where
  "call_target (Create_registrar c min_score max_age) = key (cr_registrar c)"
| "call_target (Update_registrar c min_score max_age) = key (ur_registrar c)"
| "call_target (Create_voter_weight_record c token_owner) = key (cv_voter_weight_record c)"
| "call_target (Update_voter_weight_record c) = key (uv_voter_weight_record c)"
| "call_target (Update_voter_weight_record_for_action c action action_target) =
     key (uv_voter_weight_record c)"
| "call_target (Close_registrar c) = key (xr_registrar c)"
| "call_target (Close_voter_weight_record c) = key (xv_voter_weight_record c)"
| "call_target (Create_max_voter_weight_record c) = key (cm_max_voter_weight_record c)"
| "call_target (Update_max_voter_weight_record c max_weight) = key (um_max_voter_weight_record c)"

lemma process_frame:
  assumes "runtime_ok E" "process E clk c L = Inr L'" "k \<noteq> call_target c"
  shows "same_content (L' k) (L k)"
proof (cases c)
  case (Create_registrar c' s a)
  then show ?thesis using assms create_registrar.frame [where c = "(c', s, a)"] by simp
next
  case (Update_registrar c' s a)
  then show ?thesis using assms update_registrar.frame [where c = "(c', s, a)"] by simp
next
  case (Create_voter_weight_record c' w)
  then show ?thesis using assms create_voter.frame [where c = "(c', w)"] by simp
next
  case (Update_voter_weight_record c')
  then show ?thesis using assms update_voter.frame [where c = "(clk, c')"] by simp
next
  case (Update_voter_weight_record_for_action c' a t)
  then show ?thesis using assms update_voter_for_action.frame [where c = "(clk, c', a, t)"] by simp
next
  case (Close_registrar c')
  then show ?thesis using assms close_registrar.frame [where c = "c'"] by simp
next
  case (Close_voter_weight_record c')
  then show ?thesis using assms close_voter.frame [where c = "c'"] by simp
next
  case (Create_max_voter_weight_record c')
  then show ?thesis using assms create_max.frame [where c = "c'"] by simp
next
  case (Update_max_voter_weight_record c' w)
  then show ?thesis using assms update_max.frame [where c = "(c', w)"] by simp
qed

lemma process_target:
  assumes "runtime_ok E" "process E clk c L = Inr L'"
  shows "acc_owner (L (call_target c)) = PROGRAM_ID \<or> fresh_account (L (call_target c))"
proof (cases c)
  case (Create_registrar c' s a)
  then show ?thesis using assms create_registrar.target_own [where c = "(c', s, a)"] by simp
next
  case (Update_registrar c' s a)
  then show ?thesis using assms update_registrar.target_own [where c = "(c', s, a)"] by simp
next
  case (Create_voter_weight_record c' w)
  then show ?thesis using assms create_voter.target_own [where c = "(c', w)"] by simp
next
  case (Update_voter_weight_record c')
  then show ?thesis using assms update_voter.target_own [where c = "(clk, c')"] by simp
next
  case (Update_voter_weight_record_for_action c' a t)
  then show ?thesis using assms update_voter_for_action.target_own [where c = "(clk, c', a, t)"] by simp
next
  case (Close_registrar c')
  then show ?thesis using assms close_registrar.target_own [where c = "c'"] by simp
next
  case (Close_voter_weight_record c')
  then show ?thesis using assms close_voter.target_own [where c = "c'"] by simp
next
  case (Create_max_voter_weight_record c')
  then show ?thesis using assms create_max.target_own [where c = "c'"] by simp
next
  case (Update_max_voter_weight_record c' w)
  then show ?thesis using assms update_max.target_own [where c = "(c', w)"] by simp
qed

interpretation program: instruction
  "\<lambda>E (clk, c). process E clk c" "\<lambda>(clk, c). call_target c"
  by unfold_locales (auto intro: process_frame dest: process_target)

section \<open>Creations, updates and closings\<close>

fun is_creation :: "call \<Rightarrow> bool" where
  "is_creation (Create_registrar c s m) = True"
| "is_creation (Create_voter_weight_record c w) = True"
| "is_creation (Create_max_voter_weight_record c) = True"
| "is_creation c = False"

fun is_update :: "call \<Rightarrow> bool" where
  "is_update (Update_registrar c s m) = True"
| "is_update (Update_voter_weight_record c) = True"
| "is_update (Update_voter_weight_record_for_action c a t) = True"
| "is_update (Update_max_voter_weight_record c w) = True"
| "is_update c = False"

lemma creation_effect:
  assumes "runtime_ok E" "process E clk c L = Inr L'" "is_creation c"
  shows "fresh_account (L (call_target c)) \<and> acc_owner (L' (call_target c)) = PROGRAM_ID"
proof (cases c)
  case (Create_registrar a s x)
  then show ?thesis using assms create_registrar.creates [where c = "(a, s, x)"] by simp
next
  case (Create_voter_weight_record a w)
  then show ?thesis using assms create_voter.creates [where c = "(a, w)"] by simp
next
  case (Create_max_voter_weight_record a)
  then show ?thesis using assms create_max.creates [where c = a] by simp
qed (use assms(3) in simp_all)

lemma update_effect:
  assumes "runtime_ok E" "process E clk c L = Inr L'" "is_update c"
  shows "acc_owner (L (call_target c)) = PROGRAM_ID \<and>
    length (acc_data (L' (call_target c))) = length (acc_data (L (call_target c))) \<and>
    L' = L(call_target c := (L (call_target c))\<lparr>acc_data := acc_data (L' (call_target c))\<rparr>)"
proof (cases c)
  case (Update_registrar a s x)
  then show ?thesis using assms update_registrar.updates [where c = "(a, s, x)"]
    by (auto simp add: update_registrar_ok)
next
  case (Update_voter_weight_record a)
  then show ?thesis using assms update_voter.updates [where c = "(clk, a)"]
    by (auto simp add: update_voter_weight_record_ok dest: update_permitted_owner)
next
  case (Update_voter_weight_record_for_action a x t)
  then show ?thesis using assms update_voter_for_action.updates [where c = "(clk, a, x, t)"]
    by (auto simp add: update_voter_weight_record_for_action_ok dest: update_permitted_owner)
next
  case (Update_max_voter_weight_record a w)
  then show ?thesis using assms update_max.updates [where c = "(a, w)"]
    by (auto simp add: update_max_voter_weight_record_ok)
qed (use assms(3) in simp_all)

lemma closing_effect:
  assumes "runtime_ok E" "process E clk c L = Inr L'" "\<not> is_creation c" "\<not> is_update c"
  shows "fresh_account (L' (call_target c)) \<and>
    (\<exists>destination. anchor_close E (call_target c) destination L = Inr L')"
proof (cases c)
  case (Close_registrar a)
  then show ?thesis using assms
    by (auto simp add: close_registrar_ok intro: runtime_close(3) [OF assms(1)])
next
  case (Close_voter_weight_record a)
  then show ?thesis using assms
    by (auto simp add: close_voter_weight_record_ok intro: runtime_close(3) [OF assms(1)])
qed (use assms(3,4) in simp_all)

section \<open>Which account a call has read\<close>

text \<open>
  The four instructions that load a weight record do not look at the discriminator
  of the account they are given. A call is \<open>discriminated\<close> when that account
  carries the discriminator its creation wrote; it \<open>reassigns\<close> when it updates the
  max voter weight record and has been given a voter weight record.
\<close>

fun discriminated :: "runtime \<Rightarrow> call \<Rightarrow> ledger \<Rightarrow> bool" where
  "discriminated E (Update_voter_weight_record c) L =
     holds_discriminator (VOTER_WEIGHT_DISCRIMINATOR E) (L (key (uv_voter_weight_record c)))"
| "discriminated E (Update_voter_weight_record_for_action c action action_target) L =
     holds_discriminator (VOTER_WEIGHT_DISCRIMINATOR E) (L (key (uv_voter_weight_record c)))"
| "discriminated E (Update_max_voter_weight_record c max_weight) L =
     holds_discriminator (MAX_VOTER_WEIGHT_DISCRIMINATOR E) (L (key (um_max_voter_weight_record c)))"
| "discriminated E (Close_voter_weight_record c) L =
     holds_discriminator (VOTER_WEIGHT_DISCRIMINATOR E) (L (key (xv_voter_weight_record c)))"
| "discriminated E c L = True"

fun reassigns :: "runtime \<Rightarrow> call \<Rightarrow> ledger \<Rightarrow> bool" where
  "reassigns E (Update_max_voter_weight_record c max_weight) L =
     (case view E (L (key (um_max_voter_weight_record c))) of ViewVoter v \<Rightarrow> True | _ \<Rightarrow> False)"
| "reassigns E c L = False"

text \<open>
  In a sound ledger these are the only accepted calls: the registrar a call presents is
  for a realm that is neither a program nor the default address, so that no registrar
  and no zeroed account can stand in for a weight record of it.
\<close>

lemma sound_registrar:
  assumes "ledger_sound E progs clock L" "acc_owner (L k) = PROGRAM_ID"
    and "registrar_deserialize E (acc_data (L k)) = Inr r"
  shows "progs (governance_program_id r)" "\<not> progs (reg_realm r)" "reg_realm r \<noteq> default_pubkey"
proof -
  have v: "view E (L k) = ViewRegistrar r" using assms(2,3) by (simp add: view_registrar)
  show "progs (governance_program_id r)" "\<not> progs (reg_realm r)" "reg_realm r \<noteq> default_pubkey"
    using ledger_soundD(2) [OF assms(1), of k] by (simp_all add: v)
qed

lemma sound_view_registrar:
  assumes "ledger_sound E progs clock L" "view E (L k) = ViewRegistrar r"
  shows "k = registrar_pda E (reg_realm r) (reg_governing_token_mint r)"
    "0 < sint (max_verification_age r)" "progs (governance_program_id r)"
    "\<not> progs (reg_realm r)" "reg_realm r \<noteq> default_pubkey"
  using ledger_soundD(2) [OF assms(1), of k] by (simp_all add: assms(2))

lemma sound_voter_record:
  assumes E: "runtime_ok E" and L: "ledger_sound E progs clock L"
    and o: "acc_owner (L k) = PROGRAM_ID"
    and d: "voter_weight_record_deserialize_unchecked (acc_data (L k)) = Inr v"
    and realm: "\<not> progs (vwr_realm v)" "vwr_realm v \<noteq> default_pubkey"
  shows "holds_discriminator (VOTER_WEIGHT_DISCRIMINATOR E) (L k)"
proof (rule ccontr)
  assume "\<not> holds_discriminator (VOTER_WEIGHT_DISCRIMINATOR E) (L k)"
  then obtain r where "view E (L k) = ViewRegistrar r" "vwr_realm v = governance_program_id r"
    using undiscriminated_voter_record [OF E ledger_soundD(1) [OF L] o d] realm(2)
    by (auto simp add: default_pubkey_def)
  then show False using sound_view_registrar(3) [OF L] realm(1) by simp
qed

lemma sound_max_record:
  assumes L: "ledger_sound E progs clock L"
    and o: "acc_owner (L k) = PROGRAM_ID"
    and d: "max_voter_weight_record_deserialize_unchecked (acc_data (L k)) = Inr m"
    and realm: "\<not> progs (max_realm m)" "max_realm m \<noteq> default_pubkey"
  shows "view E (L k) = ViewMax m \<or> (\<exists>v. view E (L k) = ViewVoter v)"
  using read_as_max [OF ledger_soundD(1) [OF L] o d] realm sound_view_registrar(3) [OF L]
  by (auto simp add: default_pubkey_def)

lemma accepted_calls:
  assumes E: "runtime_ok E" and L: "ledger_sound E progs clock L"
    and p: "process E clk c L = Inr L'"
  shows "discriminated E c L \<or> reassigns E c L"
proof (cases c)
  case (Update_voter_weight_record a)
  then obtain cl v where "update_permitted E cl a L v"
    using p by (auto simp add: update_voter_weight_record_ok)
  then show ?thesis using Update_voter_weight_record sound_voter_record [OF E L] sound_registrar [OF L]
    by (auto simp add: update_permitted_def)
next
  case (Update_voter_weight_record_for_action a x t)
  then obtain cl v where "update_permitted E cl a L v"
    using p by (auto simp add: update_voter_weight_record_for_action_ok)
  then show ?thesis
    using Update_voter_weight_record_for_action sound_voter_record [OF E L] sound_registrar [OF L]
    by (auto simp add: update_permitted_def)
next
  case (Close_voter_weight_record a)
  then show ?thesis using p sound_voter_record [OF E L] sound_registrar [OF L]
    by (auto simp add: close_voter_weight_record_ok)
next
  case (Update_max_voter_weight_record a w)
  let ?k = "key (um_max_voter_weight_record a)"
  obtain m where "acc_owner (L ?k) = PROGRAM_ID"
    and "max_voter_weight_record_deserialize_unchecked (acc_data (L ?k)) = Inr m"
    and "\<not> progs (max_realm m)" "max_realm m \<noteq> default_pubkey"
    using p Update_max_voter_weight_record sound_registrar [OF L]
    by (auto simp add: update_max_voter_weight_record_ok)
  then consider "view E (L ?k) = ViewMax m" | v where "view E (L ?k) = ViewVoter v"
    using sound_max_record [OF L] by blast
  then show ?thesis
  proof cases
    case 1
    then show ?thesis using Update_max_voter_weight_record
      by (auto simp add: holds_discriminator_def dest!: view_maxD max_deserialize_disc)
  qed (simp add: Update_max_voter_weight_record)
qed simp_all

end
