(* ===== verification/Typed_Refinement.thy ===== *)
theory Typed_Refinement
  imports Program_Dispatch
begin

text \<open>
  The abstract specification: the program as a machine on typed accounts, with no
  bytes, buffers or discriminators. \<open>spec_apply\<close> is the effect of a successful call;
  the refinement theorem says that the byte-level instruction has exactly that effect
  on the typed view of the ledger, at every address, for every call the program
  accepts in a sound ledger. The one effect that is not meant has its own equation:
  an update of the max voter weight record that has been given a voter weight record
  reassigns its owner. The transaction theorem extends this to a sequence of
  instructions, which succeeds as a whole or leaves the ledger as it was.
\<close>

type_synonym typed_ledger = "pubkey \<Rightarrow> account_view"

definition typed_view :: "runtime \<Rightarrow> ledger \<Rightarrow> typed_ledger" where
  "typed_view E L = (\<lambda>k. view E (L k))"

fun spec_apply :: "runtime \<Rightarrow> clock \<Rightarrow> call \<Rightarrow> typed_ledger \<Rightarrow> typed_ledger" where
  "spec_apply E clock (Create_registrar c min_score max_age) S =
     S(key (cr_registrar c) := ViewRegistrar (configured_registrar c min_score max_age))"
| "spec_apply E clock (Update_registrar c min_score max_age) S =
     (case S (key (ur_registrar c)) of
        ViewRegistrar r \<Rightarrow> S(key (ur_registrar c) := ViewRegistrar
          (r\<lparr>min_trust_score := min_score, max_verification_age := max_age\<rparr>))
      | _ \<Rightarrow> S)"
| "spec_apply E clock (Create_voter_weight_record c token_owner) S =
     (case S (key (cv_registrar c)) of
        ViewRegistrar r \<Rightarrow>
          S(key (cv_voter_weight_record c) := ViewVoter (born_expired_record E r token_owner))
      | _ \<Rightarrow> S)"
| "spec_apply E clock (Update_voter_weight_record c) S =
     (case S (key (uv_voter_weight_record c)) of
        ViewVoter v \<Rightarrow> S(key (uv_voter_weight_record c) := ViewVoter (granted_record v clock))
      | _ \<Rightarrow> S)"
| "spec_apply E clock (Update_voter_weight_record_for_action c action action_target) S =
     (case S (key (uv_voter_weight_record c)) of
        ViewVoter v \<Rightarrow> S(key (uv_voter_weight_record c) :=
          ViewVoter (granted_record_for_action v clock action action_target))
      | _ \<Rightarrow> S)"
| "spec_apply E clock (Close_registrar c) S = S(key (xr_registrar c) := ViewNone)"
| "spec_apply E clock (Close_voter_weight_record c) S = S(key (xv_voter_weight_record c) := ViewNone)"
| "spec_apply E clock (Create_max_voter_weight_record c) S =
     (case S (key (cm_registrar c)) of
        ViewRegistrar r \<Rightarrow>
          S(key (cm_max_voter_weight_record c) := ViewMax (born_expired_max_record E r))
      | _ \<Rightarrow> S)"
| "spec_apply E clock (Update_max_voter_weight_record c max_weight) S =
     (case S (key (um_max_voter_weight_record c)) of
        ViewMax m \<Rightarrow> S(key (um_max_voter_weight_record c) := ViewMax
          (m\<lparr>max_voter_weight := max_weight, max_voter_weight_expiry := None\<rparr>))
      | ViewVoter v \<Rightarrow> S(key (um_max_voter_weight_record c) := ViewVoter
          (v\<lparr>governing_token_owner := reassigned_owner max_weight (governing_token_owner v)\<rparr>))
      | _ \<Rightarrow> S)"

lemma typed_view_eqI:
  assumes "\<And>k'. k' \<noteq> k \<Longrightarrow> same_content (L' k') (L k')" "view E (L' k) = x"
  shows "typed_view E L' = (typed_view E L)(k := x)"
  using assms by (auto simp add: typed_view_def fun_eq_iff intro: view_same_content)

lemma view_fresh: "fresh_account a \<Longrightarrow> view E a = ViewNone"
  by (rule view_foreign) (simp add: fresh_account_def)

section \<open>The view of the target after each call\<close>

lemma view_create_registrar:
  assumes "runtime_ok E" "create_registrar_instruction E c s m L = Inr L'"
  shows "view E (L' (key (cr_registrar c))) = ViewRegistrar (configured_registrar c s m)"
  using assms
  by (auto simp add: create_registrar_ok view_registrar reg.deser_iff dest!: runtime_initD)

lemma view_update_registrar:
  assumes "update_registrar_instruction E c s m L = Inr L'"
  shows "\<exists>r. view E (L (key (ur_registrar c))) = ViewRegistrar r \<and>
    view E (L' (key (ur_registrar c))) =
      ViewRegistrar (r\<lparr>min_trust_score := s, max_verification_age := m\<rparr>)"
  using assms
  by (auto simp add: update_registrar_ok view_registrar overwrite_def reg.deser_ser)

lemma view_create_voter:
  assumes "runtime_ok E" "create_voter_weight_record_instruction E c w L = Inr L'"
  shows "\<exists>r. view E (L (key (cv_registrar c))) = ViewRegistrar r \<and>
    key (cv_voter_weight_record c) =
      voter_weight_record_pda E (reg_realm r) (reg_governing_token_mint r) w \<and>
    view E (L' (key (cv_voter_weight_record c))) = ViewVoter (born_expired_record E r w)"
  using assms
  by (auto simp add: create_voter_weight_record_ok view_registrar view_voter overwrite_def
      voter.deser_ser born_expired_record_def dest!: runtime_initD)

lemma view_update_permitted:
  assumes "runtime_ok E" "update_permitted E clock c L v"
    and "holds_discriminator (VOTER_WEIGHT_DISCRIMINATOR E) (L (key (uv_voter_weight_record c)))"
  shows "view E (L (key (uv_voter_weight_record c))) = ViewVoter v"
  using assms by (intro loaded_voter_view) (simp_all add: update_permitted_def)

lemma view_store_record:
  assumes "runtime_ok E" "view E (L k) = ViewVoter v"
    and "account_discriminator w = account_discriminator v"
  shows "view E (store_record k w L k) = ViewVoter w"
  using assms view_voterD [OF assms(2)]
  by (intro view_stored_voter [where buffer = "acc_data (L k)"]) simp_all

lemma view_update_voter:
  assumes "runtime_ok E" "update_voter_weight_record_instruction E (Inr clock) c L = Inr L'"
    and "holds_discriminator (VOTER_WEIGHT_DISCRIMINATOR E) (L (key (uv_voter_weight_record c)))"
  shows "\<exists>v. view E (L (key (uv_voter_weight_record c))) = ViewVoter v \<and>
    update_permitted E clock c L v \<and>
    view E (L' (key (uv_voter_weight_record c))) = ViewVoter (granted_record v clock)"
proof -
  obtain v where p: "update_permitted E clock c L v"
    and L': "L' = store_record (key (uv_voter_weight_record c)) (granted_record v clock) L"
    using assms(2) unfolding update_voter_weight_record_ok by auto
  note vw = view_update_permitted [OF assms(1) p assms(3)]
  have "view E (L' (key (uv_voter_weight_record c))) = ViewVoter (granted_record v clock)"
    unfolding L' by (rule view_store_record [where L = L and v = v
          and k = "key (uv_voter_weight_record c)", OF assms(1) vw])
      (simp add: granted_record_def)
  with vw p show ?thesis by blast
qed

lemma view_update_voter_for_action:
  assumes "runtime_ok E"
    and "update_voter_weight_record_for_action_instruction E (Inr clock) c action t L = Inr L'"
    and "holds_discriminator (VOTER_WEIGHT_DISCRIMINATOR E) (L (key (uv_voter_weight_record c)))"
  shows "\<exists>v. view E (L (key (uv_voter_weight_record c))) = ViewVoter v \<and>
    update_permitted E clock c L v \<and> t \<noteq> default_pubkey \<and>
    view E (L' (key (uv_voter_weight_record c))) =
      ViewVoter (granted_record_for_action v clock action t)"
proof -
  obtain v where p: "update_permitted E clock c L v" and t: "t \<noteq> default_pubkey"
    and L': "L' = store_record (key (uv_voter_weight_record c))
               (granted_record_for_action v clock action t) L"
    using assms(2) unfolding update_voter_weight_record_for_action_ok by auto
  note vw = view_update_permitted [OF assms(1) p assms(3)]
  have "view E (L' (key (uv_voter_weight_record c))) =
      ViewVoter (granted_record_for_action v clock action t)"
    unfolding L' by (rule view_store_record [where L = L and v = v
          and k = "key (uv_voter_weight_record c)", OF assms(1) vw])
      (simp add: granted_record_for_action_def)
  with vw p t show ?thesis by blast
qed

lemma view_create_max:
  assumes "runtime_ok E" "create_max_voter_weight_record_instruction E c L = Inr L'"
  shows "\<exists>r. view E (L (key (cm_registrar c))) = ViewRegistrar r \<and>
    key (cm_max_voter_weight_record c) =
      max_voter_weight_record_pda E (reg_realm r) (reg_governing_token_mint r) \<and>
    view E (L' (key (cm_max_voter_weight_record c))) = ViewMax (born_expired_max_record E r)"
proof -
  obtain r L1 where o: "acc_owner (L (key (cm_registrar c))) = PROGRAM_ID"
    and r: "registrar_deserialize E (acc_data (L (key (cm_registrar c)))) = Inr r"
    and k: "key (cm_max_voter_weight_record c) =
      max_voter_weight_record_pda E (reg_realm r) (reg_governing_token_mint r)"
    and i: "anchor_init E (key (cm_payer c)) (key (cm_max_voter_weight_record c))
         MaxVoterWeightRecord_get_space PROGRAM_ID L = Inr L1"
    and L': "L' = L1(key (cm_max_voter_weight_record c) := (L1 (key (cm_max_voter_weight_record c)))
              \<lparr>acc_data := overwrite (max_voter_weight_record_serialize (born_expired_max_record E r))
                 (replicate MaxVoterWeightRecord_get_space 0)\<rparr>)"
    using assms(2) unfolding create_max_voter_weight_record_ok [OF assms(1)] by blast
  have "view E (L' (key (cm_max_voter_weight_record c))) = ViewMax (born_expired_max_record E r)"
    unfolding L'
    by (rule view_stored_max [OF assms(1),
          where buffer = "replicate MaxVoterWeightRecord_get_space 0"])
      (simp_all add: runtime_init(3) [OF assms(1) i] born_expired_max_record_def)
  moreover have "view E (L (key (cm_registrar c))) = ViewRegistrar r"
    unfolding view_registrar using o r by blast
  ultimately show ?thesis using k by blast
qed

lemma view_update_max:
  assumes E: "runtime_ok E" and a: "space_ok E (L (key (um_max_voter_weight_record c)))"
    and u: "update_max_voter_weight_record_instruction E c w L = Inr L'"
    and d: "holds_discriminator (MAX_VOTER_WEIGHT_DISCRIMINATOR E) (L (key (um_max_voter_weight_record c)))"
  shows "\<exists>m. view E (L (key (um_max_voter_weight_record c))) = ViewMax m \<and>
    view E (L' (key (um_max_voter_weight_record c))) =
      ViewMax (m\<lparr>max_voter_weight := w, max_voter_weight_expiry := None\<rparr>)"
proof -
  let ?k = "key (um_max_voter_weight_record c)"
  obtain m where o: "acc_owner (L ?k) = PROGRAM_ID"
    and m: "max_voter_weight_record_deserialize_unchecked (acc_data (L ?k)) = Inr m"
    and L': "L' = L(?k := (L ?k)\<lparr>acc_data := overwrite (max_voter_weight_record_serialize
                 (m\<lparr>max_voter_weight := w, max_voter_weight_expiry := None\<rparr>)) (acc_data (L ?k))\<rparr>)"
    using u unfolding update_max_voter_weight_record_ok by blast
  have vw: "view E (L ?k) = ViewMax m" by (rule loaded_max_view [OF E a o m d])
  have len: "length (acc_data (L ?k)) = MaxVoterWeightRecord_get_space"
    by (rule space_okD(3) [OF a vw])
  have "view E (L' ?k) = ViewMax (m\<lparr>max_voter_weight := w, max_voter_weight_expiry := None\<rparr>)"
    unfolding L' using view_maxD [OF vw]
    by (intro view_stored_max [OF E, where buffer = "acc_data (L ?k)"]) (simp_all add: o len)
  with vw show ?thesis by blast
qed

section \<open>Refinement\<close>

lemma view_process_target:
  assumes "runtime_ok E" "process E (Inr clock) c L = Inr L'" "space_ok E (L (call_target c))"
    and "discriminated E c L \<or> reassigns E c L"
  shows "spec_apply E clock c (typed_view E L) =
    (typed_view E L)(call_target c := view E (L' (call_target c)))"
proof (cases c)
  case (Create_registrar a s m)
  then show ?thesis using assms view_create_registrar by simp
next
  case (Update_registrar a s m)
  then show ?thesis using assms view_update_registrar [of E a s m L L']
    by (auto simp add: typed_view_def)
next
  case (Create_voter_weight_record a w)
  then show ?thesis using assms view_create_voter [of E a w L L'] by (auto simp add: typed_view_def)
next
  case (Update_voter_weight_record a)
  then show ?thesis using assms view_update_voter [of E clock a L L']
    by (auto simp add: typed_view_def)
next
  case (Update_voter_weight_record_for_action a x t)
  then show ?thesis using assms view_update_voter_for_action [of E clock a x t L L']
    by (auto simp add: typed_view_def)
next
  case (Close_registrar a)
  then show ?thesis using assms close_registrar.closes [where c = a] by (simp add: view_fresh)
next
  case (Close_voter_weight_record a)
  then show ?thesis using assms close_voter.closes [where c = a] by (simp add: view_fresh)
next
  case (Create_max_voter_weight_record a)
  then show ?thesis using assms view_create_max [of E a L L'] by (auto simp add: typed_view_def)
next
  case (Update_max_voter_weight_record a w)
  then show ?thesis using assms view_update_max [of E L a w L']
      update_max_reassigns [of E L a _ w L']
    by (auto simp add: typed_view_def split: account_view.splits)
qed

lemma process_refines:
  assumes "runtime_ok E" "ledger_sound E progs clock L" "process E (Inr clock) c L = Inr L'"
  shows "typed_view E L' = spec_apply E clock c (typed_view E L)"
  unfolding view_process_target [OF assms(1,3) ledger_soundD(1) [OF assms(2)] accepted_calls [OF assms]]
  using process_frame [OF assms(1,3)] by (intro typed_view_eqI) auto

lemma spec_apply_frame: "k \<noteq> call_target c \<Longrightarrow> spec_apply E clock c S k = S k"
  by (cases c) (simp_all split: account_view.split)

section \<open>Transactions\<close>

text \<open>The instructions of a transaction run in order at one clock; an error aborts them all.\<close>

primrec process_transaction ::
    "runtime \<Rightarrow> clock \<Rightarrow> call list \<Rightarrow> ledger \<Rightarrow> program_error + ledger" where
  "process_transaction E clock [] L = Inr L"
| "process_transaction E clock (c # cs) L =
     bind_result (process E (Inr clock) c L) (process_transaction E clock cs)"

primrec spec_transaction :: "runtime \<Rightarrow> clock \<Rightarrow> call list \<Rightarrow> typed_ledger \<Rightarrow> typed_ledger" where
  "spec_transaction E clock [] S = S"
| "spec_transaction E clock (c # cs) S = spec_transaction E clock cs (spec_apply E clock c S)"

end
