(* ===== verification/Account_Invariant.thy ===== *)
theory Account_Invariant
  imports Typed_Refinement
begin

text \<open>
  Every call the program accepts keeps a sound ledger sound: the size of the target by
  the kind of the call, what the target is read as by the refinement theorem, all
  other accounts by the frame. The same for the transactions of several calls.
\<close>

section \<open>The target of a call\<close>

lemma created_space_ok:
  assumes E: "runtime_ok E" and p: "process E clk c L = Inr L'" and c: "is_creation c"
  shows "space_ok E (L' (call_target c)) \<and> \<not> acc_executable (L' (call_target c))"
proof (cases c)
  case (Create_registrar a s m)
  then show ?thesis using p
    by (auto simp add: create_registrar_ok [OF E] overwrite_def length_registrar_serialize
        dest!: runtime_initD [OF _ E]
        intro!: stored_registrar_space [where buffer = "replicate Registrar_LEN 0"])
next
  case (Create_voter_weight_record a w)
  then show ?thesis using p
    by (auto simp add: create_voter_weight_record_ok [OF E] dest!: runtime_initD [OF _ E]
        intro!: stored_voter_space [OF E, where buffer = "replicate VoterWeightRecord_get_space 0"])
      (simp_all add: born_expired_record_def)
next
  case (Create_max_voter_weight_record a)
  then show ?thesis using p
    by (auto simp add: create_max_voter_weight_record_ok [OF E] dest!: runtime_initD [OF _ E]
        intro!: stored_max_space [OF E, where buffer = "replicate MaxVoterWeightRecord_get_space 0"])
      (simp_all add: born_expired_max_record_def)
qed (use c in simp_all)

text \<open>An update leaves a registrar a registrar, a record a record.\<close>

lemma updated_space_ok:
  assumes E: "runtime_ok E" and p: "process E (Inr clock) c L = Inr L'" and c: "is_update c"
    and sp: "space_ok E (L (call_target c))" and d: "discriminated E c L \<or> reassigns E c L"
  shows "space_ok E (L' (call_target c))"
proof -
  have len: "length (acc_data (L' (call_target c))) = length (acc_data (L (call_target c)))"
    using update_effect [OF E p c] by simp
  show ?thesis
  proof (cases c)
    case (Update_registrar a s m)
    then show ?thesis using p len space_okD(1) [OF sp] view_update_registrar [of E a s m L L']
      by (auto simp add: space_ok_def)
  next
    case (Update_voter_weight_record a)
    then show ?thesis using p d len space_okD(2) [OF sp] view_update_voter [OF E, of clock a L L']
      by (auto simp add: space_ok_def)
  next
    case (Update_voter_weight_record_for_action a x t)
    then show ?thesis
      using p d len space_okD(2) [OF sp] view_update_voter_for_action [OF E, of clock a x t L L']
      by (auto simp add: space_ok_def)
  next
    case (Update_max_voter_weight_record a w)
    then show ?thesis
      using p d len space_okD(2,3) [OF sp] view_update_max [OF E, of L a w L'] sp
        update_max_reassigns [OF E, of L a _ w L']
      by (auto simp add: space_ok_def split: account_view.splits)
  qed (use c in simp_all)
qed

lemma never_granted_born_expired: "never_granted (born_expired_record E r w)"
  by (simp add: never_granted_def born_expired_record_def)

lemma born_expired_fields:
  "vwr_realm (born_expired_record E r w) = reg_realm r"
  "vwr_governing_token_mint (born_expired_record E r w) = reg_governing_token_mint r"
  "governing_token_owner (born_expired_record E r w) = w"
  "voter_weight (born_expired_record E r w) = 0"
  by (simp_all add: born_expired_record_def)

lemma granted_ok:
  "voter_record_ok clock (granted_record v clock)"
  "t \<noteq> default_pubkey \<Longrightarrow> voter_record_ok clock (granted_record_for_action v clock a t)"
  by (simp_all add: voter_record_ok_def granted_any_def granted_record_def granted_bound_def
      granted_record_for_action_def)

lemma reassigned_ok [simp]:
  "voter_record_ok clock (v\<lparr>governing_token_owner := w\<rparr>) = voter_record_ok clock v"
  by (simp add: voter_record_ok_def never_granted_def granted_any_def granted_bound_def)

lemma granted_scope [simp]:
  "vwr_realm (granted_record v clock) = vwr_realm v"
  "vwr_governing_token_mint (granted_record v clock) = vwr_governing_token_mint v"
  "vwr_realm (granted_record_for_action v clock a t) = vwr_realm v"
  "vwr_governing_token_mint (granted_record_for_action v clock a t) = vwr_governing_token_mint v"
  by (simp_all add: granted_record_def granted_record_for_action_def)

lemma created_registrar_sound:
  assumes E: "chain_ok E progs" and L: "ledger_sound E progs clock L"
    and p: "create_registrar_instruction E c s m L = Inr L'"
  shows "view_sound E progs clock (key (cr_registrar c)) (ViewRegistrar (configured_registrar c s m))"
proof -
  note R = chain_okD(1) [OF E]
  obtain L1 where i: "anchor_init E (key (cr_payer c)) (key (cr_registrar c)) Registrar_LEN PROGRAM_ID L = Inr L1"
    and x: "acc_executable (L1 (key (cr_governance_program_id c)))"
    and a: "realm_authority_is E (key (cr_governance_program_id c)) (key (cr_realm c))
         (L1 (key (cr_realm c))) (key (cr_governing_token_mint c)) (key (cr_realm_authority c))"
    and "0 < sint m"
      "key (cr_registrar c) = registrar_pda E (key (cr_realm c)) (key (cr_governing_token_mint c))"
    using p unfolding create_registrar_ok [OF R] by blast
  moreover have "key (cr_governance_program_id c) \<noteq> key (cr_registrar c)"
    using x runtime_init(4) [OF R i] by auto
  then have "acc_executable (L (key (cr_governance_program_id c)))"
    using x same_contentD(3) [OF runtime_init(5) [OF R i]] by simp
  then have "progs (key (cr_governance_program_id c))" by (rule ledger_soundD(3) [OF L])
  ultimately show ?thesis using chain_okD(2) [OF E a] by (simp add: configured_registrar_def)
qed

lemma target_view_sound:
  assumes E: "chain_ok E progs" and L: "ledger_sound E progs clock L"
    and p: "process E (Inr clock) c L = Inr L'"
  shows "view_sound E progs clock (call_target c) (view E (L' (call_target c)))"
proof -
  note R = chain_okD(1) [OF E]
  note before = ledger_soundD(2) [OF L, of "call_target c"]
  note d = accepted_calls [OF R L p]
  show ?thesis
  proof (cases c)
    case (Create_registrar a s m)
    then show ?thesis using p view_create_registrar [OF R, of a s m L L'] created_registrar_sound [OF E L, of a s m L']
      by simp
  next
    case (Update_registrar a s m)
    then show ?thesis using p before view_update_registrar [of E a s m L L']
      by (auto simp add: update_registrar_ok)
  next
    case (Create_voter_weight_record a w)
    then show ?thesis using p view_create_voter [OF R, of a w L L']
      by (auto simp add: born_expired_fields voter_record_ok_def never_granted_born_expired)
  next
    case (Update_voter_weight_record a)
    then show ?thesis using p d before view_update_voter [OF R, of clock a L L'] by (auto intro: granted_ok)
  next
    case (Update_voter_weight_record_for_action a x t)
    then show ?thesis using p d before view_update_voter_for_action [OF R, of clock a x t L L']
      by (auto intro: granted_ok)
  next
    case (Create_max_voter_weight_record a)
    then show ?thesis using p view_create_max [OF R, of a L L']
      by (auto simp add: born_expired_max_record_def max_record_ok_def)
  next
    case (Update_max_voter_weight_record a w)
    then show ?thesis
      using p d before view_update_max [where L = L and c = a and w = w and L' = L',
          OF R ledger_soundD(1) [OF L]]
        update_max_reassigns [OF R, of L a _ w L']
      by (auto simp add: max_record_ok_def update_max_voter_weight_record_ok split: account_view.splits)
  qed (use closing_effect [OF R p] in \<open>simp_all add: view_fresh\<close>)
qed

lemma target_executable:
  assumes E: "chain_ok E progs" and L: "ledger_sound E progs clock L"
    and p: "process E (Inr clock) c L = Inr L'" and x: "acc_executable (L' (call_target c))"
  shows "progs (call_target c)"
proof (rule ledger_soundD(3) [OF L])
  note R = chain_okD(1) [OF E]
  consider "is_creation c" | "is_update c" | "\<not> is_creation c" "\<not> is_update c" by blast
  then show "acc_executable (L (call_target c))"
  proof cases
    case 1
    then show ?thesis using created_space_ok [OF R p] x by simp
  next
    case 2
    then have e: "L' (call_target c) =
        (L(call_target c := (L (call_target c))\<lparr>acc_data := acc_data (L' (call_target c))\<rparr>)) (call_target c)"
      using update_effect [OF R p] by metis
    have "acc_executable (L' (call_target c)) = acc_executable (L (call_target c))"
      by (subst e) simp
    then show ?thesis using x by simp
  next
    case 3
    then show ?thesis using closing_effect [OF R p] chain_okD(3) [OF E] x by blast
  qed
qed

lemma target_space_ok:
  assumes E: "chain_ok E progs" and L: "ledger_sound E progs clock L"
    and p: "process E (Inr clock) c L = Inr L'"
  shows "space_ok E (L' (call_target c))"
proof -
  note R = chain_okD(1) [OF E]
  consider "is_creation c" | "is_update c" | "\<not> is_creation c" "\<not> is_update c" by blast
  then show ?thesis
  proof cases
    case 1
    then show ?thesis using created_space_ok [OF R p] by blast
  next
    case 2
    then show ?thesis
      using updated_space_ok [OF R p _ ledger_soundD(1) [OF L] accepted_calls [OF R L p]] by blast
  next
    case 3
    then have "fresh_account (L' (call_target c))" using closing_effect [OF R p] by blast
    then show ?thesis by (simp add: space_ok_def view_fresh) (simp add: fresh_account_def)
  qed
qed

section \<open>Calls and transactions\<close>

lemma process_keeps_ledger_sound:
  assumes E: "chain_ok E progs" and L: "ledger_sound E progs clock L"
    and p: "process E (Inr clock) c L = Inr L'"
  shows "ledger_sound E progs clock L'"
  unfolding ledger_sound_def
proof
  fix k
  have "account_sound E progs clock (call_target c) (L' (call_target c))"
    using target_space_ok [OF E L p] target_view_sound [OF E L p] target_executable [OF E L p]
    by (simp add: account_sound_def)
  then show "account_sound E progs clock k (L' k)"
    using program.lift_account_property [where c = "(Inr clock, c)" and L = L and L' = L'
        and P = "account_sound E progs clock", OF chain_okD(1) [OF E]] p L
    by (simp add: ledger_sound_def account_sound_same_content)
qed

lemma transaction_simulation:
  assumes E: "chain_ok E progs" and "ledger_sound E progs clock L"
    and "process_transaction E clock cs L = Inr L'"
  shows "typed_view E L' = spec_transaction E clock cs (typed_view E L) \<and>
    ledger_sound E progs clock L'"
  using assms(2,3)
proof (induction cs arbitrary: L)
  case Nil
  then show ?case by simp
next
  case (Cons c cs)
  from Cons.prems(2) obtain L1 where p: "process E (Inr clock) c L = Inr L1"
    and rest: "process_transaction E clock cs L1 = Inr L'"
    by (auto simp add: result_simps)
  have ok: "ledger_sound E progs clock L1"
    by (rule process_keeps_ledger_sound [OF E Cons.prems(1) p])
  show ?case
    using Cons.IH [OF ok rest] process_refines [OF chain_okD(1) [OF E] Cons.prems(1) p] by simp
qed

end
