(* ===== verification/Plugin_System.thy ===== *)
theory Plugin_System
  imports Account_Invariant
begin

text \<open>
  The program on a chain: states are a ledger and a clock, a step is any call that the
  program accepts or anything the rest of the chain may do, which is to change accounts
  of other owners, to hand zeroed accounts to the program, to add lamports, to deploy
  programs at the addresses of programs, and to let time pass.

  The reachable states satisfy the account invariant; the statements about voters,
  weights and expiry follow from it. Reachability takes a condition on the calls of the
  run: \<open>reachable\<close> sets none, \<open>careful_call\<close> leaves out the updates of the max voter
  weight record that are given a voter weight record.
\<close>

record system =
  ledger_of :: ledger
  clock_of :: clock

text \<open>Only its owner program can change the data or the owner of an account.\<close>

definition foreign_step :: "(pubkey \<Rightarrow> bool) \<Rightarrow> ledger \<Rightarrow> ledger \<Rightarrow> bool" where
  "foreign_step progs L L' \<longleftrightarrow>
     (\<forall>k. (if acc_owner (L k) = PROGRAM_ID
           then acc_owner (L' k) = PROGRAM_ID \<and> acc_data (L' k) = acc_data (L k)
           else acc_owner (L' k) = PROGRAM_ID \<longrightarrow> zeroed (L' k)) \<and>
          (acc_executable (L' k) \<longrightarrow> progs k))"

inductive step ::
    "runtime \<Rightarrow> (pubkey \<Rightarrow> bool) \<Rightarrow> (call \<Rightarrow> ledger \<Rightarrow> bool) \<Rightarrow> system \<Rightarrow> system \<Rightarrow> bool"
  for E progs allowed where
  instruction_step:
    "process E (Inr (clock_of s)) c (ledger_of s) = Inr L' \<Longrightarrow> allowed c (ledger_of s) \<Longrightarrow>
       step E progs allowed s (s\<lparr>ledger_of := L'\<rparr>)"
| environment_step:
    "foreign_step progs (ledger_of s) L' \<Longrightarrow> slot (clock_of s) \<le> slot c' \<Longrightarrow>
       step E progs allowed s \<lparr>ledger_of = L', clock_of = c'\<rparr>"

inductive_cases step_cases: "step E progs allowed s s'"

inductive reachable_by ::
    "runtime \<Rightarrow> (pubkey \<Rightarrow> bool) \<Rightarrow> (call \<Rightarrow> ledger \<Rightarrow> bool) \<Rightarrow> system \<Rightarrow> bool"
  for E progs allowed where
  initial:
    "(\<And>k. acc_owner (ledger_of s k) \<noteq> PROGRAM_ID) \<Longrightarrow>
     (\<And>k. acc_executable (ledger_of s k) \<Longrightarrow> progs k) \<Longrightarrow> reachable_by E progs allowed s"
| step: "reachable_by E progs allowed s \<Longrightarrow> step E progs allowed s s' \<Longrightarrow> reachable_by E progs allowed s'"

abbreviation any_call :: "call \<Rightarrow> ledger \<Rightarrow> bool" where
  "any_call \<equiv> \<lambda>c L. True"

definition careful_call :: "runtime \<Rightarrow> call \<Rightarrow> ledger \<Rightarrow> bool" where
  "careful_call E c L \<longleftrightarrow> \<not> reassigns E c L"

abbreviation reachable :: "runtime \<Rightarrow> (pubkey \<Rightarrow> bool) \<Rightarrow> system \<Rightarrow> bool" where
  "reachable E progs \<equiv> reachable_by E progs any_call"

lemma step_any: "step E progs allowed s s' \<Longrightarrow> step E progs any_call s s'"
  by (auto elim!: step_cases intro: step.intros)

lemma reachable_by_any: "reachable_by E progs allowed s \<Longrightarrow> reachable E progs s"
proof (induction rule: reachable_by.induct)
  case (initial s)
  then show ?case by (rule reachable_by.initial)
next
  case (step s s')
  then show ?case by (blast intro: reachable_by.step step_any)
qed

section \<open>The invariant of the reachable states\<close>

text \<open>The rest of the chain does not change what an account is read as.\<close>

lemma foreign_step_view:
  assumes "runtime_ok E" "foreign_step progs L L'"
  shows "view E (L' k) = view E (L k)"
proof -
  have f: "if acc_owner (L k) = PROGRAM_ID
           then acc_owner (L' k) = PROGRAM_ID \<and> acc_data (L' k) = acc_data (L k)
           else acc_owner (L' k) = PROGRAM_ID \<longrightarrow> zeroed (L' k)"
    using assms(2) by (simp add: foreign_step_def)
  show ?thesis
  proof (cases "acc_owner (L k) = PROGRAM_ID")
    case True
    then have "acc_owner (L' k) = acc_owner (L k)" "acc_data (L' k) = acc_data (L k)"
      using f by simp_all
    then show ?thesis unfolding view_def by (simp only:)
  next
    case False
    then have "view E (L' k) = ViewNone"
      using f view_zeroed [OF assms(1)] by (cases "acc_owner (L' k) = PROGRAM_ID") (simp_all add: view_foreign)
    then show ?thesis using False by (simp add: view_foreign)
  qed
qed

lemma foreign_step_sound:
  assumes "runtime_ok E" "foreign_step progs L L'" "ledger_sound E progs c L"
  shows "ledger_sound E progs c L'"
  unfolding ledger_sound_def account_sound_def
proof (intro allI conjI impI)
  fix k
  have f: "if acc_owner (L k) = PROGRAM_ID
           then acc_owner (L' k) = PROGRAM_ID \<and> acc_data (L' k) = acc_data (L k)
           else acc_owner (L' k) = PROGRAM_ID \<longrightarrow> zeroed (L' k)"
    and x: "acc_executable (L' k) \<Longrightarrow> progs k"
    using assms(2) by (simp_all add: foreign_step_def)
  note v = foreign_step_view [OF assms(1,2), of k]
  show "view_sound E progs c k (view E (L' k))" using ledger_soundD(2) [OF assms(3), of k] v by simp
  show "space_ok E (L' k)"
  proof (cases "acc_owner (L k) = PROGRAM_ID")
    case True
    then have "acc_owner (L' k) = acc_owner (L k)" "acc_data (L' k) = acc_data (L k)"
      using f by simp_all
    then show ?thesis using ledger_soundD(1) [OF assms(3), of k]
      unfolding space_ok_def v zeroed_def by (simp only:)
  next
    case False
    then show ?thesis using f unfolding space_ok_def v by (simp add: view_foreign)
  qed
  show "acc_executable (L' k) \<Longrightarrow> progs k" by (rule x)
qed

lemma step_keeps_ledger_sound:
  assumes E: "chain_ok E progs" and st: "step E progs allowed s s'"
    and L: "ledger_sound E progs (clock_of s) (ledger_of s)"
  shows "ledger_sound E progs (clock_of s') (ledger_of s')"
  using st
proof (cases rule: step.cases)
  case (instruction_step c L')
  then show ?thesis using process_keeps_ledger_sound [OF E L] by simp
next
  case (environment_step L' c')
  then show ?thesis
    using foreign_step_sound [OF chain_okD(1) [OF E] _ L] by (auto intro: ledger_sound_mono)
qed

lemma reachable_ledger_sound:
  assumes "chain_ok E progs" "reachable_by E progs allowed s"
  shows "ledger_sound E progs (clock_of s) (ledger_of s)"
  using assms(2)
proof (induction rule: reachable_by.induct)
  case (initial s)
  then show ?case by (simp add: ledger_sound_def account_sound_foreign)
next
  case (step s s')
  then show ?case using step_keeps_ledger_sound [OF assms(1)] by blast
qed

text \<open>Time may pass without anything else happening.\<close>

lemma clock_step:
  assumes "ledger_sound E progs c L" "slot c \<le> slot c'"
  shows "step E progs any_call \<lparr>ledger_of = L, clock_of = c\<rparr> \<lparr>ledger_of = L, clock_of = c'\<rparr>"
proof (rule environment_step)
  show "foreign_step progs (ledger_of \<lparr>ledger_of = L, clock_of = c\<rparr>) L"
    using ledger_soundD(3) [OF assms(1)] by (simp add: foreign_step_def)
qed (use assms(2) in simp)

section \<open>Records and their addresses\<close>

text \<open>On careful runs a voter weight record stays at the address derived from its owner.\<close>

definition owners_at_home :: "runtime \<Rightarrow> ledger \<Rightarrow> bool" where
  "owners_at_home E L \<longleftrightarrow>
     (\<forall>k v. view E (L k) = ViewVoter v \<longrightarrow>
        k = voter_weight_record_pda E (vwr_realm v) (vwr_governing_token_mint v)
              (governing_token_owner v))"

lemma unchanged_elsewhere:
  assumes "runtime_ok E" "process E clk c L = Inr L'" "view E (L' k) \<noteq> view E (L k)"
  shows "k = call_target c"
  using process_frame [OF assms(1,2)] assms(3) view_same_content by metis

lemma granted_owner [simp]:
  "governing_token_owner (granted_record v c) = governing_token_owner v"
  "governing_token_owner (granted_record_for_action v c a t) = governing_token_owner v"
  by (simp_all add: granted_record_def granted_record_for_action_def)

lemma process_keeps_home:
  assumes E: "runtime_ok E" and home: "owners_at_home E L" and sp: "\<And>k. space_ok E (L k)"
    and p: "process E (Inr clock) c L = Inr L'" and d: "discriminated E c L"
  shows "owners_at_home E L'"
  unfolding owners_at_home_def
proof (intro allI impI)
  fix k v assume v: "view E (L' k) = ViewVoter v"
  show "k = voter_weight_record_pda E (vwr_realm v) (vwr_governing_token_mint v)
              (governing_token_owner v)"
  proof (cases "view E (L' k) = view E (L k)")
    case True
    then show ?thesis using v home by (auto simp add: owners_at_home_def)
  next
    case False
    note k = unchanged_elsewhere [OF E p False]
    show ?thesis
    proof (cases c)
      case (Create_voter_weight_record a w)
      then show ?thesis using p k v view_create_voter [OF E, of a w L L']
        by (auto simp add: born_expired_fields)
    next
      case (Update_voter_weight_record a)
      then show ?thesis using p d k v home view_update_voter [OF E, of clock a L L']
        by (auto simp add: owners_at_home_def)
    next
      case (Update_voter_weight_record_for_action a x t)
      then show ?thesis
        using p d k v home view_update_voter_for_action [OF E, of clock a x t L L']
        by (auto simp add: owners_at_home_def)
    next
      case (Create_registrar a s m)
      then show ?thesis using p k v view_create_registrar [OF E] by auto
    next
      case (Update_registrar a s m)
      then show ?thesis using p k v view_update_registrar [of E a s m L L'] by auto
    next
      case (Create_max_voter_weight_record a)
      then show ?thesis using p k v view_create_max [OF E, of a L L'] by auto
    next
      case (Update_max_voter_weight_record a w)
      then show ?thesis
        using p d k v view_update_max [where L = L and c = a and w = w and L' = L', OF E sp] by auto
    qed (use closing_effect [OF E p] k v in \<open>auto simp add: view_fresh\<close>)
  qed
qed

lemma careful_reachable_home:
  assumes E: "chain_ok E progs" and s: "reachable_by E progs (careful_call E) s"
  shows "owners_at_home E (ledger_of s)"
  using s
proof (induction rule: reachable_by.induct)
  case (initial s)
  then show ?case by (simp add: owners_at_home_def view_foreign)
next
  case (step s s')
  note sound = reachable_ledger_sound [OF E step.hyps(1)]
  from step.hyps(2) show ?case
  proof (cases rule: step.cases)
    case (instruction_step c L')
    then have "discriminated E c (ledger_of s)"
      using accepted_calls [OF chain_okD(1) [OF E] sound] by (auto simp add: careful_call_def)
    then show ?thesis using instruction_step step.IH
        process_keeps_home [OF chain_okD(1) [OF E] _ ledger_soundD(1) [OF sound]] by simp
  next
    case (environment_step L' c')
    then show ?thesis
      using step.IH foreign_step_view [OF chain_okD(1) [OF E]] by (auto simp add: owners_at_home_def)
  qed
qed

lemma careful_reachable_ok:
  assumes "chain_ok E progs" "reachable_by E progs (careful_call E) s"
  shows "ledger_ok E (clock_of s) (ledger_of s)"
  unfolding ledger_ok_def account_ok_def
proof (intro allI conjI)
  fix k
  note sound = reachable_ledger_sound [OF assms]
  show "space_ok E (ledger_of s k)" by (rule ledger_soundD(1) [OF sound])
  have "view_sound E progs (clock_of s) k (view E (ledger_of s k))" by (rule ledger_soundD(2) [OF sound])
  then show "view_ok E (clock_of s) k (view E (ledger_of s k))"
    using careful_reachable_home [OF assms]
    by (cases "view E (ledger_of s k)") (simp_all add: owners_at_home_def)
qed

lemma voter_record_address:
  assumes "ledger_ok E c L" "view E (L k) = ViewVoter v"
  shows "k = voter_weight_record_pda E (vwr_realm v) (vwr_governing_token_mint v)
               (governing_token_owner v)"
  using ledger_okD(2) [OF assms(1), of k] by (simp add: assms(2))

lemma voter_record_state:
  assumes "ledger_sound E progs c L" "view E (L k) = ViewVoter v"
  shows "voter_record_ok c v"
  using ledger_soundD(2) [OF assms(1), of k] by (simp add: assms(2))

lemma voter_record_ok_weight: "voter_record_ok c v \<Longrightarrow> unat (voter_weight v) \<le> 1"
  by (auto simp add: voter_record_ok_def never_granted_def granted_any_def granted_bound_def)

text \<open>The records of a realm and mint among given addresses, and the sum of their weights.\<close>

definition voter_record_at ::
    "runtime \<Rightarrow> ledger \<Rightarrow> pubkey \<Rightarrow> pubkey \<Rightarrow> pubkey \<Rightarrow> voter_weight_record option" where
  "voter_record_at E L realm mint k =
     (case view E (L k) of
        ViewVoter v \<Rightarrow>
          if vwr_realm v = realm \<and> vwr_governing_token_mint v = mint then Some v else None
      | _ \<Rightarrow> None)"

definition voter_records ::
    "runtime \<Rightarrow> ledger \<Rightarrow> pubkey \<Rightarrow> pubkey \<Rightarrow> pubkey list \<Rightarrow> voter_weight_record list" where
  "voter_records E L realm mint ks = List.map_filter (voter_record_at E L realm mint) ks"

definition total_weight :: "voter_weight_record list \<Rightarrow> nat" where
  "total_weight vs = sum_list (map (\<lambda>v. unat (voter_weight v)) vs)"

lemma voter_record_at_Some:
  "voter_record_at E L realm mint k = Some v \<longleftrightarrow>
     view E (L k) = ViewVoter v \<and> vwr_realm v = realm \<and> vwr_governing_token_mint v = mint"
  by (auto simp add: voter_record_at_def split: account_view.splits)

lemma voter_record_at_address:
  assumes "ledger_ok E c L" "voter_record_at E L realm mint k = Some v"
  shows "k = voter_weight_record_pda E realm mint (governing_token_owner v)"
proof -
  have v: "view E (L k) = ViewVoter v" "vwr_realm v = realm" "vwr_governing_token_mint v = mint"
    using assms(2) by (simp_all add: voter_record_at_Some)
  show ?thesis using voter_record_address [OF assms(1) v(1)] by (simp only: v)
qed

lemma voter_records_simps:
  "voter_records E L realm mint [] = []"
  "voter_records E L realm mint (k # ks) =
     (case voter_record_at E L realm mint k of
        None \<Rightarrow> voter_records E L realm mint ks
      | Some v \<Rightarrow> v # voter_records E L realm mint ks)"
  by (simp_all add: voter_records_def List.map_filter_def split: option.splits)

lemma set_voter_records:
  "v \<in> set (voter_records E L realm mint ks) \<longleftrightarrow>
     (\<exists>k \<in> set ks. voter_record_at E L realm mint k = Some v)"
  by (induction ks) (auto simp add: voter_records_simps split: option.splits)

lemma owners_distinct:
  assumes "ledger_ok E c L" "distinct ks"
  shows "distinct (map governing_token_owner (voter_records E L realm mint ks))"
  using assms(2)
proof (induction ks)
  case Nil
  then show ?case by (simp add: voter_records_simps)
next
  case (Cons k ks)
  have "governing_token_owner v \<notin> governing_token_owner ` set (voter_records E L realm mint ks)"
    if v: "voter_record_at E L realm mint k = Some v" for v
  proof
    assume "governing_token_owner v \<in> governing_token_owner ` set (voter_records E L realm mint ks)"
    then obtain k' w where k': "k' \<in> set ks" and w: "voter_record_at E L realm mint k' = Some w"
      and o: "governing_token_owner w = governing_token_owner v"
      by (auto simp add: set_voter_records)
    have "k = voter_weight_record_pda E realm mint (governing_token_owner v)"
      "k' = voter_weight_record_pda E realm mint (governing_token_owner w)"
      by (rule voter_record_at_address [OF assms(1) v], rule voter_record_at_address [OF assms(1) w])
    then show False using Cons.prems k' o by simp
  qed
  then show ?case using Cons by (auto simp add: voter_records_simps split: option.splits)
qed

lemma total_weight_le_length:
  "\<forall>v \<in> set vs. unat (voter_weight v) \<le> 1 \<Longrightarrow> total_weight vs \<le> length vs"
  by (induction vs) (auto simp add: total_weight_def)

lemma total_weight_le_owners:
  assumes "ledger_ok E c L" "distinct ks"
  shows "total_weight (voter_records E L realm mint ks)
           \<le> card (governing_token_owner ` set (voter_records E L realm mint ks))"
proof -
  let ?vs = "voter_records E L realm mint ks"
  have "unat (voter_weight v) \<le> 1" if vs: "v \<in> set ?vs" for v
  proof -
    obtain k where "view E (L k) = ViewVoter v"
      using vs unfolding set_voter_records voter_record_at_Some by blast
    then have "voter_record_ok c v" using ledger_okD(2) [OF assms(1), of k] by simp
    then show ?thesis by (rule voter_record_ok_weight)
  qed
  then have "total_weight ?vs \<le> length (map governing_token_owner ?vs)"
    using total_weight_le_length by simp
  also have "\<dots> = card (set (map governing_token_owner ?vs))"
    using owners_distinct [OF assms] by (metis distinct_card)
  finally show ?thesis by simp
qed

section \<open>Who can change what\<close>

fun call_authority :: "call \<Rightarrow> meta option" where
  "call_authority (Create_registrar c s m) = Some (cr_realm_authority c)"
| "call_authority (Update_registrar c s m) = Some (ur_realm_authority c)"
| "call_authority (Close_registrar c) = Some (xr_realm_authority c)"
| "call_authority (Create_max_voter_weight_record c) = Some (cm_realm_authority c)"
| "call_authority (Update_max_voter_weight_record c w) = Some (um_realm_authority c)"
| "call_authority c = None"

fun call_voter :: "call \<Rightarrow> meta option" where
  "call_voter (Create_voter_weight_record c w) = Some (cv_governing_token_owner_signer c)"
| "call_voter (Update_voter_weight_record c) = Some (uv_voter_authority c)"
| "call_voter (Update_voter_weight_record_for_action c a t) = Some (uv_voter_authority c)"
| "call_voter (Close_voter_weight_record c) = Some (xv_voter_authority c)"
| "call_voter c = None"

lemma view_close_voter:
  assumes "runtime_ok E" "close_voter_weight_record_instruction E c L = Inr L'"
    and "holds_discriminator (VOTER_WEIGHT_DISCRIMINATOR E) (L (key (xv_voter_weight_record c)))"
  shows "\<exists>v. view E (L (key (xv_voter_weight_record c))) = ViewVoter v \<and>
    is_signer (xv_voter_authority c) \<and> governing_token_owner v = key (xv_voter_authority c)"
  using assms loaded_voter_view [OF assms(1) _ _ assms(3)]
  by (auto simp add: close_voter_weight_record_ok)

text \<open>The view of the target before a call.\<close>

lemma view_target_before:
  assumes E: "runtime_ok E" and ok: "ledger_sound E progs clock L"
    and p: "process E (Inr clock) c L = Inr L'"
  shows "case c of
      Create_registrar a s m \<Rightarrow> view E (L (call_target c)) = ViewNone
    | Create_voter_weight_record a w \<Rightarrow> view E (L (call_target c)) = ViewNone
    | Create_max_voter_weight_record a \<Rightarrow> view E (L (call_target c)) = ViewNone
    | Update_max_voter_weight_record a w \<Rightarrow>
        (\<exists>m. view E (L (call_target c)) = ViewMax m) \<or> (\<exists>v. view E (L (call_target c)) = ViewVoter v)
    | Update_registrar a s m \<Rightarrow> \<exists>r. view E (L (call_target c)) = ViewRegistrar r
    | Close_registrar a \<Rightarrow> \<exists>r. view E (L (call_target c)) = ViewRegistrar r
    | _ \<Rightarrow> \<exists>v. view E (L (call_target c)) = ViewVoter v"
proof -
  note d = accepted_calls [OF E ok p]
  show ?thesis
  proof (cases c)
    case (Update_max_voter_weight_record a w)
    then show ?thesis
      using p d view_update_max [where L = L and c = a and w = w and L' = L', OF E ledger_soundD(1) [OF ok]]
      by (auto split: account_view.splits)
  next
    case (Update_registrar a s m)
    then show ?thesis using p view_update_registrar [of E a s m L L'] by auto
  next
    case (Close_registrar a)
    then show ?thesis using p by (auto simp add: close_registrar_ok view_registrar)
  next
    case (Update_voter_weight_record a)
    then show ?thesis using p d view_update_voter [OF E, of clock a L L'] by auto
  next
    case (Update_voter_weight_record_for_action a x t)
    then show ?thesis using p d view_update_voter_for_action [OF E, of clock a x t L L'] by auto
  next
    case (Close_voter_weight_record a)
    then show ?thesis using p d view_close_voter [OF E, of a L L'] by auto
  qed (use creation_effect [OF E p] in \<open>simp_all add: view_fresh\<close>)
qed

text \<open>
  A registrar appears, changes or disappears only in a call that the authority of
  its realm has signed.
\<close>

lemma registrar_change_authorised:
  assumes E: "runtime_ok E" and ok: "ledger_sound E progs clock L"
    and p: "process E (Inr clock) c L = Inr L'"
    and change: "view E (L' k) \<noteq> view E (L k)"
    and r: "view E (L' k) = ViewRegistrar r \<or> view E (L k) = ViewRegistrar r"
  shows "\<exists>m. call_authority c = Some m \<and> is_signer m \<and>
    authorised_at E L k (governance_program_id r) (reg_realm r) (reg_governing_token_mint r) (key m)"
proof -
  note k = unchanged_elsewhere [OF E p change]
  note before = view_target_before [OF E ok p, folded k]
  note d = accepted_calls [OF E ok p]
  show ?thesis
  proof (cases c)
    case (Create_registrar a s m)
    then have "view E (L' k) = ViewRegistrar (configured_registrar a s m)"
      using p k view_create_registrar [OF E] by simp
    then have "r = configured_registrar a s m" using r before Create_registrar by auto
    then show ?thesis using p k Create_registrar
      by (auto simp add: create_registrar_ok [OF E] configured_registrar_def
          dest!: runtime_initD [OF _ E] intro!: authorised_at_later)
  next
    case (Update_registrar a s m)
    then obtain q where "view E (L k) = ViewRegistrar q" and
        "view E (L' k) = ViewRegistrar (q\<lparr>min_trust_score := s, max_verification_age := m\<rparr>)"
      using p k view_update_registrar [of E a s m L L'] by auto
    then have "governance_program_id r = governance_program_id q" "reg_realm r = reg_realm q"
      "reg_governing_token_mint r = reg_governing_token_mint q"
      and "acc_owner (L k) = PROGRAM_ID" "registrar_deserialize E (acc_data (L k)) = Inr q"
      using r by (auto simp add: view_registrar)
    then show ?thesis using p k Update_registrar
      by (auto simp add: update_registrar_ok intro!: authorised_at_now)
  next
    case (Close_registrar a)
    then have "view E (L' k) = ViewNone" using closing_effect [OF E p] k by (simp add: view_fresh)
    then have "view E (L k) = ViewRegistrar r" using r by simp
    then show ?thesis using p k Close_registrar
      by (auto simp add: close_registrar_ok view_registrar intro!: authorised_at_now)
  next
    case (Create_voter_weight_record a w)
    then show ?thesis using p k r before view_create_voter [OF E, of a w L L'] by auto
  next
    case (Create_max_voter_weight_record a)
    then show ?thesis using p k r before view_create_max [OF E, of a L L'] by auto
  next
    case (Update_max_voter_weight_record a w)
    then show ?thesis
      using p d k r before update_max_reassigns [OF E, of L a _ w L']
        view_update_max [where L = L and c = a and w = w and L' = L', OF E ledger_soundD(1) [OF ok]]
      by (auto split: account_view.splits)
  next
    case (Update_voter_weight_record a)
    then show ?thesis using p d k r before view_update_voter [OF E, of clock a L L'] by auto
  next
    case (Update_voter_weight_record_for_action a x t)
    then show ?thesis
      using p d k r before view_update_voter_for_action [OF E, of clock a x t L L'] by auto
  next
    case (Close_voter_weight_record a)
    then show ?thesis using closing_effect [OF E p] k r before by (auto simp add: view_fresh)
  qed
qed

text \<open>
  A voter weight record appears, changes or disappears in a call that its owner has
  signed, and it is granted weight only to an owner who is eligible; or an update of
  the max voter weight record reassigns it.
\<close>

definition eligible_in_scope ::
    "runtime \<Rightarrow> clock \<Rightarrow> ledger \<Rightarrow> voter_weight_record \<Rightarrow> bool" where
  "eligible_in_scope E clock L v \<longleftrightarrow>
     (case view E (L (registrar_pda E (vwr_realm v) (vwr_governing_token_mint v))) of
        ViewRegistrar r \<Rightarrow>
          reg_realm r = vwr_realm v \<and>
          reg_governing_token_mint r = vwr_governing_token_mint v \<and>
          identity_eligible E clock L r (governing_token_owner v)
      | _ \<Rightarrow> False)"

lemma eligible_in_scope_granted [simp]:
  "eligible_in_scope E clock L (granted_record v c) = eligible_in_scope E clock L v"
  "eligible_in_scope E clock L (granted_record_for_action v c a t) = eligible_in_scope E clock L v"
  by (simp_all add: eligible_in_scope_def granted_record_def granted_record_for_action_def
      split: account_view.split)

lemma permitted_eligible:
  assumes "update_permitted E clock c L v"
  shows "is_signer (uv_voter_authority c) \<and> governing_token_owner v = key (uv_voter_authority c) \<and>
    eligible_in_scope E clock L v"
proof -
  obtain r where "acc_owner (L (key (uv_registrar c))) = PROGRAM_ID"
    "registrar_deserialize E (acc_data (L (key (uv_registrar c)))) = Inr r"
    and k: "key (uv_registrar c) = registrar_pda E (reg_realm r) (reg_governing_token_mint r)"
    and "vwr_realm v = reg_realm r" "vwr_governing_token_mint v = reg_governing_token_mint r"
      "identity_eligible E clock L r (key (uv_voter_authority c))"
    using assms by (auto simp add: update_permitted_def)
  moreover from this have "view E (L (key (uv_registrar c))) = ViewRegistrar r"
    unfolding view_registrar by blast
  ultimately show ?thesis using assms
    by (simp add: eligible_in_scope_def update_permitted_def)
qed

text \<open>The two ways in which a voter weight record changes, or comes and goes.\<close>

definition signed_change ::
    "runtime \<Rightarrow> clock \<Rightarrow> call \<Rightarrow> ledger \<Rightarrow> account_view \<Rightarrow> voter_weight_record \<Rightarrow> bool" where
  "signed_change E clock c L after v \<longleftrightarrow>
     (\<exists>m. call_voter c = Some m \<and> is_signer m \<and> key m = governing_token_owner v) \<and>
     (after = ViewVoter v \<and> voter_weight v \<noteq> 0 \<longrightarrow> eligible_in_scope E clock L v)"

definition reassigning_change ::
    "runtime \<Rightarrow> call \<Rightarrow> ledger \<Rightarrow> account_view \<Rightarrow> account_view \<Rightarrow> bool" where
  "reassigning_change E c L before after \<longleftrightarrow>
     (\<exists>a w u r.
        c = Update_max_voter_weight_record a w \<and> is_signer (um_realm_authority a) \<and>
        before = ViewVoter u \<and>
        after = ViewVoter
          (u\<lparr>governing_token_owner := reassigned_owner w (governing_token_owner u)\<rparr>) \<and>
        view E (L (registrar_pda E (vwr_realm u) (vwr_governing_token_mint u))) = ViewRegistrar r \<and>
        reg_realm r = vwr_realm u \<and> reg_governing_token_mint r = vwr_governing_token_mint u \<and>
        authorised_at E L (key (um_max_voter_weight_record a)) (governance_program_id r)
          (reg_realm r) (reg_governing_token_mint r) (key (um_realm_authority a)))"

lemma registrar_view_loads:
  assumes "acc_owner a = PROGRAM_ID" "registrar_deserialize E (acc_data a) = Inr r"
  shows "view E a = ViewRegistrar r"
  using assms by (simp add: view_registrar)

lemma update_max_reassigning:
  assumes E: "runtime_ok E" and p: "update_max_voter_weight_record_instruction E a w L = Inr L'"
    and u: "view E (L (key (um_max_voter_weight_record a))) = ViewVoter u"
  shows "reassigning_change E (Update_max_voter_weight_record a w) L (ViewVoter u)
    (view E (L' (key (um_max_voter_weight_record a))))"
proof -
  let ?k = "key (um_max_voter_weight_record a)"
  obtain r m where sig: "is_signer (um_realm_authority a)"
    and o: "acc_owner (L (key (um_registrar a))) = PROGRAM_ID"
    and d: "registrar_deserialize E (acc_data (L (key (um_registrar a)))) = Inr r"
    and k: "key (um_registrar a) = registrar_pda E (reg_realm r) (reg_governing_token_mint r)"
    and m: "max_voter_weight_record_deserialize_unchecked (acc_data (L ?k)) = Inr m"
    and scope: "max_realm m = reg_realm r" "max_governing_token_mint m = reg_governing_token_mint r"
    and realm: "key (um_realm a) = reg_realm r"
    and auth: "realm_authority_is E (governance_program_id r) (reg_realm r) (L (key (um_realm a)))
         (reg_governing_token_mint r) (key (um_realm_authority a))"
    using p unfolding update_max_voter_weight_record_ok by auto
  obtain rest where "acc_data (L ?k) = voter_weight_record_serialize u @ rest"
    using view_voterD [OF u] by (auto simp add: voter_weight_record_deserialize_Inr)
  then have "m = confused_record u" using m by (simp add: voter_read_as_max split: if_splits)
  then have "reg_realm r = vwr_realm u" "reg_governing_token_mint r = vwr_governing_token_mint u"
    using scope by (simp_all add: confused_record_def Let_def)
  then show ?thesis
    using sig k realm auth registrar_view_loads [OF o d] update_max_reassigns [OF E u p]
    by (auto simp add: reassigning_change_def intro!: authorised_at_now)
qed

lemma voter_change:
  assumes E: "runtime_ok E" and ok: "ledger_sound E progs clock L"
    and p: "process E (Inr clock) c L = Inr L'"
    and change: "view E (L' k) \<noteq> view E (L k)"
    and v: "view E (L' k) = ViewVoter v \<or> view E (L k) = ViewVoter v"
  shows "signed_change E clock c L (view E (L' k)) v \<or>
    reassigning_change E c L (view E (L k)) (view E (L' k))"
proof -
  note k = unchanged_elsewhere [OF E p change]
  note before = view_target_before [OF E ok p, folded k]
  note d = accepted_calls [OF E ok p]
  show ?thesis
  proof (cases c)
    case (Create_voter_weight_record a w)
    then show ?thesis using p k v before view_create_voter [OF E, of a w L L']
      by (auto simp add: signed_change_def create_voter_weight_record_ok [OF E] born_expired_fields)
  next
    case (Update_voter_weight_record a)
    then obtain u where "view E (L k) = ViewVoter u" "update_permitted E clock a L u"
      "view E (L' k) = ViewVoter (granted_record u clock)"
      using p d k view_update_voter [OF E, of clock a L L'] by auto
    then show ?thesis using v Update_voter_weight_record permitted_eligible [of E clock a L u]
      by (auto simp add: signed_change_def)
  next
    case (Update_voter_weight_record_for_action a x t)
    then obtain u where "view E (L k) = ViewVoter u" "update_permitted E clock a L u"
      "view E (L' k) = ViewVoter (granted_record_for_action u clock x t)"
      using p d k view_update_voter_for_action [OF E, of clock a x t L L'] by auto
    then show ?thesis
      using v Update_voter_weight_record_for_action permitted_eligible [of E clock a L u]
      by (auto simp add: signed_change_def)
  next
    case (Close_voter_weight_record a)
    then show ?thesis
      using E p d k v before closing_effect [OF E p] view_close_voter [OF E, of a L L']
      by (auto simp add: view_fresh signed_change_def)
  next
    case (Update_max_voter_weight_record a w)
    show ?thesis
    proof (cases "reassigns E c L")
      case True
      then obtain u where "view E (L k) = ViewVoter u"
        using k Update_max_voter_weight_record by (auto split: account_view.splits)
      then show ?thesis
        using update_max_reassigning [OF E, of a w L L' u] p k Update_max_voter_weight_record by simp
    next
      case False
      then show ?thesis
        using p d k v Update_max_voter_weight_record
          view_update_max [where L = L and c = a and w = w and L' = L', OF E ledger_soundD(1) [OF ok]]
        by auto
    qed
  next
    case (Create_registrar a s m)
    then show ?thesis using p k v before view_create_registrar [OF E] by auto
  next
    case (Update_registrar a s m)
    then show ?thesis using p k v view_update_registrar [of E a s m L L'] by auto
  next
    case (Close_registrar a)
    then show ?thesis using p k v before closing_effect [OF E p] by (auto simp add: view_fresh)
  next
    case (Create_max_voter_weight_record a)
    then show ?thesis using p k v before view_create_max [OF E, of a L L'] by auto
  qed
qed

section \<open>Records without a registrar\<close>

text \<open>The registrar that a call loads.\<close>

fun call_registrar :: "call \<Rightarrow> pubkey option" where
  "call_registrar (Create_registrar c s m) = None"
| "call_registrar (Update_registrar c s m) = Some (key (ur_registrar c))"
| "call_registrar (Close_registrar c) = Some (key (xr_registrar c))"
| "call_registrar (Create_voter_weight_record c w) = Some (key (cv_registrar c))"
| "call_registrar (Update_voter_weight_record c) = Some (key (uv_registrar c))"
| "call_registrar (Update_voter_weight_record_for_action c a t) = Some (key (uv_registrar c))"
| "call_registrar (Close_voter_weight_record c) = Some (key (xv_registrar c))"
| "call_registrar (Create_max_voter_weight_record c) = Some (key (cm_registrar c))"
| "call_registrar (Update_max_voter_weight_record c w) = Some (key (um_registrar c))"

lemma call_registrar_stands:
  assumes "runtime_ok E" "process E clk c L = Inr L'" "call_registrar c = Some k"
  shows "\<exists>r. view E (L k) = ViewRegistrar r"
proof (cases c)
  case (Create_max_voter_weight_record a)
  then show ?thesis using assms unfolding view_registrar
    by (auto simp add: create_max_voter_weight_record_ok)
qed (use assms in \<open>auto simp add: view_registrar update_registrar_ok close_registrar_ok
      create_voter_weight_record_ok update_voter_weight_record_ok update_permitted_def
      update_voter_weight_record_for_action_ok close_voter_weight_record_ok
      update_max_voter_weight_record_ok\<close>)

text \<open>A call that has a standing record as its target loads the registrar of the record's scope.\<close>

lemma call_on_record_registrar:
  assumes E: "runtime_ok E" and ok: "ledger_sound E progs clock L"
    and p: "process E (Inr clock) c L = Inr L'"
    and v: "view E (L (call_target c)) = ViewVoter v"
  shows "call_registrar c = Some (registrar_pda E (vwr_realm v) (vwr_governing_token_mint v))"
proof -
  note before = view_target_before [OF E ok p]
  note d = accepted_calls [OF E ok p]
  show ?thesis
  proof (cases c)
    case (Update_voter_weight_record a)
    then obtain u where "view E (L (call_target c)) = ViewVoter u" "update_permitted E clock a L u"
      using p d view_update_voter [OF E, of clock a L L'] by auto
    then show ?thesis using v Update_voter_weight_record by (auto simp add: update_permitted_def)
  next
    case (Update_voter_weight_record_for_action a x t)
    then obtain u where "view E (L (call_target c)) = ViewVoter u" "update_permitted E clock a L u"
      using p d view_update_voter_for_action [OF E, of clock a x t L L'] by auto
    then show ?thesis using v Update_voter_weight_record_for_action
      by (auto simp add: update_permitted_def)
  next
    case (Close_voter_weight_record a)
    then show ?thesis using p v by (auto simp add: close_voter_weight_record_ok dest!: view_voterD)
  next
    case (Update_max_voter_weight_record a w)
    then obtain rest where "acc_data (L (key (um_max_voter_weight_record a))) =
        voter_weight_record_serialize v @ rest"
      using view_voterD [OF v] by (auto simp add: voter_weight_record_deserialize_Inr)
    then show ?thesis using p Update_max_voter_weight_record
      by (auto simp add: update_max_voter_weight_record_ok voter_read_as_max confused_record_def
          Let_def split: if_splits)
  qed (use before v in auto)
qed

text \<open>Runs whose states, all but the last, satisfy a condition.\<close>

inductive run_while ::
    "runtime \<Rightarrow> (pubkey \<Rightarrow> bool) \<Rightarrow> (system \<Rightarrow> bool) \<Rightarrow> system \<Rightarrow> system \<Rightarrow> bool"
  for E progs P s where
  stay: "run_while E progs P s s"
| move: "run_while E progs P s t \<Longrightarrow> P t \<Longrightarrow> step E progs any_call t u \<Longrightarrow> run_while E progs P s u"

definition no_registrar_at :: "runtime \<Rightarrow> pubkey \<Rightarrow> system \<Rightarrow> bool" where
  "no_registrar_at E k s \<longleftrightarrow> (case view E (ledger_of s k) of ViewRegistrar r \<Rightarrow> False | _ \<Rightarrow> True)"

lemma run_while_reachable:
  "run_while E progs P s t \<Longrightarrow> reachable E progs s \<Longrightarrow> reachable E progs t"
  by (induction rule: run_while.induct) (blast intro: reachable_by.step)+

lemma no_registrar_no_call:
  assumes "runtime_ok E" "no_registrar_at E k s" "call_registrar c = Some k"
  shows "\<not> is_ok (process E clk c (ledger_of s))"
proof
  assume "is_ok (process E clk c (ledger_of s))"
  then obtain r where "view E (ledger_of s k) = ViewRegistrar r"
    using call_registrar_stands [OF assms(1) _ assms(3)] unfolding is_ok_iff by blast
  then show False using assms(2) by (simp add: no_registrar_at_def)
qed

lemma step_without_registrar:
  assumes E: "chain_ok E progs" and s: "reachable E progs s" and st: "step E progs any_call s s'"
    and v: "view E (ledger_of s k) = ViewVoter v"
    and none: "no_registrar_at E (registrar_pda E (vwr_realm v) (vwr_governing_token_mint v)) s"
  shows "view E (ledger_of s' k) = ViewVoter v"
  using st
proof (cases rule: step.cases)
  case (instruction_step c L')
  note R = chain_okD(1) [OF E]
  have "k \<noteq> call_target c"
    using call_on_record_registrar [OF R reachable_ledger_sound [OF E s] instruction_step(2)] v
      no_registrar_no_call [OF R none] instruction_step(2)
    by (auto simp add: is_ok_iff)
  then show ?thesis using unchanged_elsewhere [OF R instruction_step(2)] v instruction_step(1) by force
next
  case (environment_step L' c')
  then show ?thesis using foreign_step_view [OF chain_okD(1) [OF E]] v by simp
qed

lemma record_frozen:
  assumes E: "chain_ok E progs" and "reachable E progs s"
    and "run_while E progs
      (no_registrar_at E (registrar_pda E (vwr_realm v) (vwr_governing_token_mint v))) s t"
    and "view E (ledger_of s k) = ViewVoter v"
  shows "view E (ledger_of t k) = ViewVoter v"
  using assms(3,2,4)
proof (induction rule: run_while.induct)
  case stay
  then show ?case by simp
next
  case (move t u)
  then show ?case using step_without_registrar [OF E] run_while_reachable by blast
qed

end
