(* ===== verification/Reference_Runtime.thy ===== *)
theory Reference_Runtime
  imports Plugin_System
begin

text \<open>
  An instance of the environment, for the theorems that quantify over it: a system
  program that creates and closes accounts with rent, a realm lookup over a small
  account format, and an address derivation. \<open>reference_runtime_ok\<close> shows that the
  assumptions made of the environment can hold together. Then a chain with one
  realm, one registrar and one voter, run from a ledger without any account of the
  program; the witnesses of the properties are taken from it.
\<close>

section \<open>An environment\<close>

definition reference_find_program_address :: "byte list list \<Rightarrow> pubkey \<Rightarrow> pubkey \<times> byte" where
  "reference_find_program_address seeds program =
     (of_nat (length (concat seeds)) + 1000 * le_word (last seeds), 255)"

text \<open>The addresses of programs: the system program and one governance program.\<close>

definition reference_programs :: "pubkey \<Rightarrow> bool" where
  "reference_programs k \<longleftrightarrow> k = SYSTEM_PROGRAM_ID \<or> k = 5"

definition reference_realm_data :: "pubkey \<Rightarrow> pubkey \<times> account \<Rightarrow> pubkey \<Rightarrow> nat + realm_data" where
  "reference_realm_data gov realm mint =
     (let a = snd realm in
      if reference_programs (fst realm) then Inl 502
      else if acc_owner a \<noteq> gov then Inl 500
      else if take 32 (acc_data a) \<noteq> key_bytes mint then Inl 501
      else Inr \<lparr>authority = Some (le_word (drop 32 (acc_data a)))\<rparr>)"

definition reference_rent :: "nat \<Rightarrow> u64" where
  "reference_rent space = of_nat ((128 + space) * 6960)"

definition reference_init :: "pubkey \<Rightarrow> pubkey \<Rightarrow> nat \<Rightarrow> pubkey \<Rightarrow> ledger \<Rightarrow> nat + ledger" where
  "reference_init payer a space program L =
     (if \<not> fresh_account (L a) then Inl 0
      else if acc_lamports (L payer) < reference_rent space then Inl 1
      else Inr (L(payer := (L payer)\<lparr>acc_lamports := acc_lamports (L payer) - reference_rent space\<rparr>,
                  a := \<lparr>acc_lamports = acc_lamports (L a) + reference_rent space,
                        acc_data = replicate space 0, acc_owner = program,
                        acc_executable = False\<rparr>)))"

definition reference_close :: "pubkey \<Rightarrow> pubkey \<Rightarrow> ledger \<Rightarrow> nat + ledger" where
  "reference_close a destination L =
     (if a = destination then Inl 2011
      else if 2 ^ 64 \<le> unat (acc_lamports (L destination)) + unat (acc_lamports (L a)) then Inl 1
      else Inr (L(destination := (L destination)
                    \<lparr>acc_lamports := acc_lamports (L destination) + acc_lamports (L a)\<rparr>,
                  a := \<lparr>acc_lamports = 0, acc_data = [], acc_owner = SYSTEM_PROGRAM_ID,
                        acc_executable = acc_executable (L a)\<rparr>)))"

definition reference_runtime :: runtime where
  "reference_runtime =
     \<lparr>find_program_address = reference_find_program_address,
      get_realm_data_for_governing_token_mint = reference_realm_data,
      REGISTRAR_DISCRIMINATOR = 1, VOTER_WEIGHT_DISCRIMINATOR = 2,
      MAX_VOTER_WEIGHT_DISCRIMINATOR = 3,
      anchor_init = reference_init, anchor_close = reference_close\<rparr>"

lemma reference_init_ok: "init_ok reference_init"
  unfolding init_ok_def reference_init_def same_content_def by auto

lemma reference_close_ok: "close_ok reference_close"
proof -
  have "unat (x + y) = unat x + unat y" if "\<not> 2 ^ 64 \<le> unat x + unat y" for x y :: u64
    using that by (simp add: unat_word_ariths)
  then show ?thesis
    unfolding close_ok_def reference_close_def same_content_def fresh_account_def by auto
qed

lemma reference_runtime_ok: "runtime_ok reference_runtime"
  by (simp add: runtime_ok_def reference_runtime_def reference_init_ok reference_close_ok
      discriminators_ok_def)

lemma reference_chain_ok: "chain_ok reference_runtime reference_programs"
proof -
  have "realms_are_no_programs reference_runtime reference_programs"
    by (auto simp add: realms_are_no_programs_def realm_authority_is_def reference_runtime_def
        reference_realm_data_def Let_def reference_programs_def SYSTEM_PROGRAM_ID_def
        default_pubkey_def)
  moreover have "close_deploys_nothing reference_runtime"
    by (auto simp add: close_deploys_nothing_def reference_runtime_def reference_close_def
        split: if_splits)
  ultimately show ?thesis by (simp add: chain_ok_def reference_runtime_ok)
qed

lemma reference_pdas [simp]:
  "registrar_pda reference_runtime realm mint = 73 + 1000 * mint"
  "voter_weight_record_pda reference_runtime realm mint w = 115 + 1000 * w"
  "max_voter_weight_record_pda reference_runtime realm mint = 87 + 1000 * mint"
  "identity_pda reference_runtime w = 40 + 1000 * w"
  by (simp_all add: pda_defs pda_def identity_pda_def reference_runtime_def
      reference_find_program_address_def registrar_seeds_def voter_weight_record_seeds_def
      max_voter_weight_record_seeds_def identity_seeds_def)

section \<open>A chain\<close>

text \<open>
  The governance program is account 5, the realm 11 with mint 7 and authority 21; the
  voter is 31, the payer 41, and 40 is a rent destination.
\<close>

definition example_clock :: clock where
  "example_clock = \<lparr>slot = 42000, unix_timestamp = 1775573486\<rparr>"

definition example_identity :: "byte list" where
  "example_identity =
     IDENTITY_DISCRIMINATOR @ replicate 40 0 @ le_bytes 8 (1775500000 :: i64) @ replicate 4 0 @
     le_bytes 2 (200 :: u16)"

definition example_chain :: ledger where
  "example_chain = (\<lambda>k. empty_account)
     (SYSTEM_PROGRAM_ID := empty_account\<lparr>acc_executable := True\<rparr>,
      5 := \<lparr>acc_lamports = 1, acc_data = [], acc_owner = 4, acc_executable = True\<rparr>,
      11 := \<lparr>acc_lamports = 1, acc_data = key_bytes 7 @ key_bytes 21, acc_owner = 5,
             acc_executable = False\<rparr>,
      41 := empty_account\<lparr>acc_lamports := 10000000000\<rparr>,
      31040 := \<lparr>acc_lamports = 1, acc_data = example_identity,
                acc_owner = ENTROS_ANCHOR_PROGRAM_ID, acc_executable = False\<rparr>)"

abbreviation signer :: "pubkey \<Rightarrow> meta" where
  "signer k \<equiv> \<lparr>key = k, is_signer = True, is_writable = False\<rparr>"

abbreviation signer_mut :: "pubkey \<Rightarrow> meta" where
  "signer_mut k \<equiv> \<lparr>key = k, is_signer = True, is_writable = True\<rparr>"

abbreviation writable :: "pubkey \<Rightarrow> meta" where
  "writable k \<equiv> \<lparr>key = k, is_signer = False, is_writable = True\<rparr>"

abbreviation readonly :: "pubkey \<Rightarrow> meta" where
  "readonly k \<equiv> \<lparr>key = k, is_signer = False, is_writable = False\<rparr>"

definition example_create_registrar :: create_registrar_accounts where
  "example_create_registrar =
     \<lparr>cr_registrar = writable 7073, cr_governance_program_id = readonly 5, cr_realm = readonly 11,
      cr_governing_token_mint = readonly 7, cr_realm_authority = signer 21,
      cr_payer = signer_mut 41, cr_system_program = readonly SYSTEM_PROGRAM_ID\<rparr>"

definition example_registrar :: registrar where
  "example_registrar =
     \<lparr>governance_program_id = 5, reg_realm = 11, reg_governing_token_mint = 7,
      min_trust_score = 100, max_verification_age = 2592000, reg_reserved = 0\<rparr>"

definition example_with_registrar :: ledger where
  "example_with_registrar = example_chain
     (41 := empty_account\<lparr>acc_lamports := 10000000000 - reference_rent Registrar_LEN\<rparr>,
      7073 := \<lparr>acc_lamports = reference_rent Registrar_LEN,
               acc_data = registrar_serialize reference_runtime example_registrar,
               acc_owner = PROGRAM_ID, acc_executable = False\<rparr>)"

definition example_create_voter :: create_voter_weight_record_accounts where
  "example_create_voter =
     \<lparr>cv_registrar = readonly 7073, cv_voter_weight_record = writable 31115,
      cv_governing_token_owner_signer = signer 31, cv_payer = signer_mut 41,
      cv_system_program = readonly SYSTEM_PROGRAM_ID\<rparr>"

definition example_record :: voter_weight_record where
  "example_record = born_expired_record reference_runtime example_registrar 31"

definition example_record_account :: account where
  "example_record_account =
     \<lparr>acc_lamports = reference_rent VoterWeightRecord_get_space,
      acc_data = overwrite (voter_weight_record_serialize example_record)
                   (replicate VoterWeightRecord_get_space 0),
      acc_owner = PROGRAM_ID, acc_executable = False\<rparr>"

definition example_with_voter :: ledger where
  "example_with_voter = example_with_registrar
     (41 := empty_account\<lparr>acc_lamports :=
        10000000000 - reference_rent Registrar_LEN - reference_rent VoterWeightRecord_get_space\<rparr>,
      31115 := example_record_account)"

definition example_update :: update_voter_weight_record_accounts where
  "example_update =
     \<lparr>uv_registrar = readonly 7073, uv_voter_weight_record = writable 31115,
      uv_voter_authority = signer 31, uv_remaining_accounts = [readonly 31040]\<rparr>"

lemma example_rent [simp]:
  "\<not> 10000000000 < reference_rent Registrar_LEN"
  "\<not> 10000000000 - reference_rent Registrar_LEN < reference_rent VoterWeightRecord_get_space"
  by (simp_all add: reference_rent_def Registrar_LEN_def VoterWeightRecord_get_space_def)

text \<open>Facts about the concrete addresses and the fields of the environment.\<close>

lemma reference_fields [simp]:
  "anchor_init reference_runtime = reference_init"
  "anchor_close reference_runtime = reference_close"
  "get_realm_data_for_governing_token_mint reference_runtime = reference_realm_data"
  "REGISTRAR_DISCRIMINATOR reference_runtime = 1"
  "VOTER_WEIGHT_DISCRIMINATOR reference_runtime = 2"
  "MAX_VOTER_WEIGHT_DISCRIMINATOR reference_runtime = 3"
  by (simp_all add: reference_runtime_def)

lemma example_ids [simp]:
  "PROGRAM_ID \<noteq> 0" "PROGRAM_ID \<noteq> 4" "PROGRAM_ID \<noteq> 5"
  "0 \<noteq> PROGRAM_ID" "4 \<noteq> PROGRAM_ID" "5 \<noteq> PROGRAM_ID"
  "ENTROS_ANCHOR_PROGRAM_ID \<noteq> PROGRAM_ID" "ENTROS_ANCHOR_PROGRAM_ID \<noteq> 0"
  by (simp_all add: PROGRAM_ID_def ENTROS_ANCHOR_PROGRAM_ID_def)

named_theorems example_defs \<open>the concrete chain, evaluated address by address\<close>

lemmas example_unfold [example_defs] = SYSTEM_PROGRAM_ID_def empty_account_def fresh_account_def
  reference_init_def reference_close_def reference_realm_data_def realm_authority_is_def
  reference_programs_def
  example_chain_def configured_registrar_def

lemma example_create_registrar_runs:
  "create_registrar_instruction reference_runtime example_create_registrar 100 2592000 example_chain
     = Inr example_with_registrar"
  unfolding create_registrar_ok [OF reference_runtime_ok]
  by (simp add: example_defs example_create_registrar_def example_with_registrar_def
      example_registrar_def)

text \<open>What the accounts of the chain hold.\<close>

lemma example_registrar_fields [simp]:
  "governance_program_id example_registrar = 5" "reg_realm example_registrar = 11"
  "reg_governing_token_mint example_registrar = 7" "min_trust_score example_registrar = 100"
  "max_verification_age example_registrar = 2592000" "reg_reserved example_registrar = 0"
  by (simp_all add: example_registrar_def)

lemma example_with_registrar_accounts:
  "example_with_registrar 0 = \<lparr>acc_lamports = 0, acc_data = [], acc_owner = 0, acc_executable = True\<rparr>"
  "example_with_registrar 11 = example_chain 11"
  "example_with_registrar 31040 = example_chain 31040"
  "example_with_registrar 31115 = empty_account" "example_with_registrar 7087 = empty_account"
  "example_with_registrar 41 =
     empty_account\<lparr>acc_lamports := 10000000000 - reference_rent Registrar_LEN\<rparr>"
  by (simp_all add: example_with_registrar_def example_defs)

lemma example_registrar_loads:
  "acc_owner (example_with_registrar 7073) = PROGRAM_ID"
  "registrar_deserialize reference_runtime (acc_data (example_with_registrar 7073)) = Inr r \<longleftrightarrow>
     r = example_registrar"
  using reg.deser_ser [of reference_runtime example_registrar "[]"]
  by (auto simp add: example_with_registrar_def)

lemma example_create_voter_runs:
  "create_voter_weight_record_instruction reference_runtime example_create_voter 31
     example_with_registrar = Inr example_with_voter"
  unfolding create_voter_weight_record_ok [OF reference_runtime_ok]
  using example_registrar_loads example_with_registrar_accounts
  by (simp add: example_defs example_create_voter_def example_with_voter_def
      example_record_account_def example_record_def)

lemma example_with_voter_accounts:
  "example_with_voter 0 = example_with_registrar 0"
  "example_with_voter 11 = example_with_registrar 11"
  "example_with_voter 31040 = example_with_registrar 31040"
  "example_with_voter 7073 = example_with_registrar 7073"
  "example_with_voter 7087 = empty_account"
  "example_with_voter 31115 = example_record_account"
  by (simp_all add: example_with_voter_def example_with_registrar_accounts)

lemma example_record_loads:
  "acc_owner (example_with_voter 31115) = PROGRAM_ID"
  "voter_weight_record_deserialize_unchecked (acc_data (example_with_voter 31115)) = Inr v \<longleftrightarrow>
     v = example_record"
  "holds_discriminator 2 (example_with_voter 31115)"
  "length (acc_data (example_with_voter 31115)) = VoterWeightRecord_get_space"
  using voter.deser_ser [of example_record] voter.ser_fits [of example_record]
    first_bytes(2) [where v = example_record]
  by (auto simp add: example_with_voter_accounts example_record_account_def overwrite_def
      holds_discriminator_def example_record_def born_expired_record_def
      simp del: take_append)

lemma example_identity_reads:
  "length example_identity = 62" "take 8 example_identity = IDENTITY_DISCRIMINATOR"
  "last_verification_of example_identity = 1775500000" "trust_score_of example_identity = 200"
  by (simp_all add: example_identity_def IDENTITY_DISCRIMINATOR_def last_verification_of_def
      trust_score_of_def le_word_le_bytes)

lemma example_eligible:
  "identity_eligible reference_runtime example_clock example_with_voter example_registrar 31"
  by (simp add: identity_eligible_def identity_valid_def example_with_voter_accounts
      example_with_registrar_accounts example_chain_def example_identity_reads
      IDENTITY_MIN_DATA_LEN_def recent_def example_clock_def)

lemma example_update_fields:
  "uv_registrar example_update = readonly 7073"
  "uv_voter_weight_record example_update = writable 31115"
  "uv_voter_authority example_update = signer 31"
  "uv_remaining_accounts example_update = [readonly 31040]"
  by (simp_all add: example_update_def)

lemma example_record_fields:
  "vwr_realm example_record = 11" "vwr_governing_token_mint example_record = 7"
  "governing_token_owner example_record = 31" "voter_weight example_record = 0"
  "account_discriminator example_record = 2" "vwr_reserved example_record = 0"
  by (simp_all add: example_record_def born_expired_record_def)

lemma example_update_permitted:
  "update_permitted reference_runtime example_clock example_update example_with_voter v \<longleftrightarrow>
     v = example_record"
  using example_eligible
  by (auto simp add: update_permitted_def example_update_fields example_record_loads
      example_with_voter_accounts(4) example_registrar_loads example_record_fields)

definition example_granted :: ledger where
  "example_granted = store_record 31115 (granted_record example_record example_clock) example_with_voter"

definition example_bound :: ledger where
  "example_bound = store_record 31115
     (granted_record_for_action example_record example_clock CastVote 77) example_with_voter"

lemma example_update_runs:
  "update_voter_weight_record_instruction reference_runtime (Inr example_clock) example_update
     example_with_voter = Inr example_granted"
  unfolding update_voter_weight_record_ok
  using example_record_loads(4) voter.ser_fits
  by (simp add: example_update_permitted example_granted_def example_update_fields)

lemma example_update_for_action_runs:
  "update_voter_weight_record_for_action_instruction reference_runtime (Inr example_clock)
     example_update CastVote 77 example_with_voter = Inr example_bound"
  unfolding update_voter_weight_record_for_action_ok
  using example_record_loads(4) voter.ser_fits
  by (simp add: example_update_permitted example_bound_def default_pubkey_def
      example_update_fields)

section \<open>The chain's states are reachable\<close>

definition example_system :: "ledger \<Rightarrow> system" where
  "example_system L = \<lparr>ledger_of = L, clock_of = example_clock\<rparr>"

lemma example_system_fields [simp]:
  "ledger_of (example_system L) = L" "clock_of (example_system L) = example_clock"
  by (simp_all add: example_system_def)

lemma example_system_step:
  assumes "reachable_by reference_runtime reference_programs allowed (example_system L)"
    and "process reference_runtime (Inr example_clock) c L = Inr L'" "allowed c L"
  shows "reachable_by reference_runtime reference_programs allowed (example_system L')"
proof (rule reachable_by.step [OF assms(1)])
  show "step reference_runtime reference_programs allowed (example_system L) (example_system L')"
    using instruction_step [of reference_runtime "example_system L" c L' allowed] assms(2,3)
    by (simp add: example_system_def)
qed

abbreviation careful_example :: "ledger \<Rightarrow> bool" where
  "careful_example L \<equiv> reachable_by reference_runtime reference_programs
     (careful_call reference_runtime) (example_system L)"

lemma example_chain_careful: "careful_example example_chain"
  by (rule reachable_by.initial)
    (auto simp add: example_chain_def empty_account_def SYSTEM_PROGRAM_ID_def
      reference_programs_def split: if_splits)

lemma example_with_registrar_careful: "careful_example example_with_registrar"
  by (rule example_system_step [OF example_chain_careful,
        where c = "Create_registrar example_create_registrar 100 2592000"])
    (simp_all add: example_create_registrar_runs careful_call_def)

lemma example_with_voter_careful: "careful_example example_with_voter"
  by (rule example_system_step [OF example_with_registrar_careful,
        where c = "Create_voter_weight_record example_create_voter 31"])
    (simp_all add: example_create_voter_runs careful_call_def)

lemma example_granted_careful: "careful_example example_granted"
  by (rule example_system_step [OF example_with_voter_careful,
        where c = "Update_voter_weight_record example_update"])
    (simp_all add: example_update_runs careful_call_def)

lemma example_bound_careful: "careful_example example_bound"
  by (rule example_system_step [OF example_with_voter_careful,
        where c = "Update_voter_weight_record_for_action example_update CastVote 77"])
    (simp_all add: example_update_for_action_runs careful_call_def)

lemmas example_chain_reachable = reachable_by_any [OF example_chain_careful]
lemmas example_with_registrar_reachable = reachable_by_any [OF example_with_registrar_careful]
lemmas example_with_voter_reachable = reachable_by_any [OF example_with_voter_careful]
lemmas example_granted_reachable = reachable_by_any [OF example_granted_careful]
lemmas example_bound_reachable = reachable_by_any [OF example_bound_careful]

lemma example_views:
  "view reference_runtime (example_with_voter 7073) = ViewRegistrar example_registrar"
  "view reference_runtime (example_with_voter 31115) = ViewVoter example_record"
  "view reference_runtime (example_granted 31115) =
     ViewVoter (granted_record example_record example_clock)"
  "view reference_runtime (example_bound 31115) =
     ViewVoter (granted_record_for_action example_record example_clock CastVote 77)"
proof -
  show "view reference_runtime (example_with_voter 7073) = ViewRegistrar example_registrar"
    by (simp add: view_registrar example_with_voter_accounts(4) example_registrar_loads)
  show v: "view reference_runtime (example_with_voter 31115) = ViewVoter example_record"
    by (simp add: view_voter [OF reference_runtime_ok] example_record_loads example_record_fields)
  show "view reference_runtime (example_granted 31115) =
     ViewVoter (granted_record example_record example_clock)"
    unfolding example_granted_def
    by (rule view_store_record [OF reference_runtime_ok, where L = example_with_voter and k = 31115,
          OF v]) (simp add: granted_record_def)
  show "view reference_runtime (example_bound 31115) =
     ViewVoter (granted_record_for_action example_record example_clock CastVote 77)"
    unfolding example_bound_def
    by (rule view_store_record [OF reference_runtime_ok, where L = example_with_voter and k = 31115,
          OF v]) (simp add: granted_record_for_action_def)
qed

section \<open>Administration and closing\<close>

definition example_update_registrar :: update_registrar_accounts where
  "example_update_registrar =
     \<lparr>ur_registrar = writable 7073, ur_realm = readonly 11, ur_realm_authority = signer 21\<rparr>"

definition example_close_registrar :: close_registrar_accounts where
  "example_close_registrar =
     \<lparr>xr_registrar = writable 7073, xr_realm = readonly 11, xr_realm_authority = signer 21,
      xr_sol_destination = writable 40\<rparr>"

definition example_close_voter :: close_voter_weight_record_accounts where
  "example_close_voter =
     \<lparr>xv_registrar = readonly 7073, xv_voter_weight_record = writable 31115,
      xv_voter_authority = signer 31, xv_sol_destination = writable 40\<rparr>"

definition example_create_max :: create_max_voter_weight_record_accounts where
  "example_create_max =
     \<lparr>cm_registrar = readonly 7073, cm_max_voter_weight_record = writable 7087,
      cm_realm = readonly 11, cm_realm_authority = signer 21, cm_payer = signer_mut 41,
      cm_system_program = readonly SYSTEM_PROGRAM_ID\<rparr>"

definition example_update_max :: "pubkey \<Rightarrow> update_max_voter_weight_record_accounts" where
  "example_update_max k =
     \<lparr>um_registrar = readonly 7073, um_max_voter_weight_record = writable k,
      um_realm = readonly 11, um_realm_authority = signer 21\<rparr>"

lemma example_authority:
  "realm_authority_is reference_runtime 5 11 (example_chain 11) 7 k \<longleftrightarrow> k = 21"
  by (auto simp add: example_defs)

definition example_retuned :: ledger where
  "example_retuned = example_with_voter(7073 := (example_with_voter 7073)
     \<lparr>acc_data := registrar_serialize reference_runtime
        (example_registrar\<lparr>min_trust_score := 150, max_verification_age := 86400\<rparr>)\<rparr>)"

lemma example_update_registrar_runs:
  "update_registrar_instruction reference_runtime example_update_registrar 150 86400
     example_with_voter = Inr example_retuned"
  unfolding update_registrar_ok
  by (simp add: example_update_registrar_def example_with_voter_accounts(2,4)
      example_registrar_loads example_with_registrar_accounts(2) example_authority
      example_retuned_def overwrite_registrar)
    (simp add: example_with_registrar_def overwrite_registrar length_registrar_serialize)

lemma example_close_registrar_runs:
  "is_ok (close_registrar_instruction reference_runtime example_close_registrar example_with_voter)"
  unfolding is_ok_iff close_registrar_ok
  by (simp add: example_close_registrar_def example_with_voter_accounts(2,4)
      example_registrar_loads example_with_registrar_accounts(2) example_authority
      reference_close_def)
    (simp add: example_with_voter_def example_with_registrar_def example_chain_def
      empty_account_def reference_rent_def Registrar_LEN_def)

lemma example_close_voter_runs:
  "is_ok (close_voter_weight_record_instruction reference_runtime example_close_voter
     example_with_voter)"
  unfolding is_ok_iff close_voter_weight_record_ok
  by (simp add: example_close_voter_def example_with_voter_accounts(4) example_registrar_loads
      example_record_loads example_record_fields reference_close_def)
    (simp add: example_with_voter_def example_with_registrar_def example_chain_def
      example_record_account_def empty_account_def reference_rent_def VoterWeightRecord_get_space_def)

definition example_max_record :: max_voter_weight_record where
  "example_max_record = born_expired_max_record reference_runtime example_registrar"

definition example_with_max :: ledger where
  "example_with_max = example_with_registrar
     (41 := empty_account\<lparr>acc_lamports :=
        10000000000 - reference_rent Registrar_LEN - reference_rent MaxVoterWeightRecord_get_space\<rparr>,
      7087 := \<lparr>acc_lamports = reference_rent MaxVoterWeightRecord_get_space,
               acc_data = overwrite (max_voter_weight_record_serialize example_max_record)
                            (replicate MaxVoterWeightRecord_get_space 0),
               acc_owner = PROGRAM_ID, acc_executable = False\<rparr>)"

lemma example_max_rent [simp]:
  "\<not> 10000000000 - reference_rent Registrar_LEN < reference_rent MaxVoterWeightRecord_get_space"
  by (simp add: reference_rent_def Registrar_LEN_def MaxVoterWeightRecord_get_space_def)

lemma example_create_max_runs:
  "create_max_voter_weight_record_instruction reference_runtime example_create_max
     example_with_registrar = Inr example_with_max"
  unfolding create_max_voter_weight_record_ok [OF reference_runtime_ok]
  by (simp add: example_create_max_def example_with_registrar_accounts example_registrar_loads
      reference_init_def fresh_account_def empty_account_def SYSTEM_PROGRAM_ID_def
      example_with_max_def example_max_record_def example_authority)

lemma example_max_record_fields:
  "max_realm example_max_record = 11" "max_governing_token_mint example_max_record = 7"
  "max_account_discriminator example_max_record = 3"
  "max_voter_weight_expiry example_max_record = Some 0" "max_voter_weight example_max_record = 0"
  by (simp_all add: example_max_record_def born_expired_max_record_def)

lemma example_max_loads:
  "acc_owner (example_with_max 7087) = PROGRAM_ID"
  "max_voter_weight_record_deserialize_unchecked (acc_data (example_with_max 7087)) = Inr m \<longleftrightarrow>
     m = example_max_record"
  "holds_discriminator 3 (example_with_max 7087)"
  "length (acc_data (example_with_max 7087)) = MaxVoterWeightRecord_get_space"
  using maxw.deser_ser [of example_max_record] maxw.ser_fits [of example_max_record]
    first_bytes(3) [where m = example_max_record]
  by (auto simp add: example_with_max_def overwrite_def holds_discriminator_def
      example_max_record_fields simp del: take_append)

lemma example_with_max_accounts:
  "example_with_max 7073 = example_with_registrar 7073"
  "example_with_max 11 = example_chain 11"
  by (simp_all add: example_with_max_def example_with_registrar_accounts)

lemma example_with_max_reachable:
  "reachable reference_runtime reference_programs (example_system example_with_max)"
  by (rule example_system_step [OF example_with_registrar_reachable,
        where c = "Create_max_voter_weight_record example_create_max"])
    (simp_all add: example_create_max_runs)

definition example_max_set :: ledger where
  "example_max_set = example_with_max(7087 := (example_with_max 7087)
     \<lparr>acc_data := overwrite (max_voter_weight_record_serialize
        (example_max_record\<lparr>max_voter_weight := 500, max_voter_weight_expiry := None\<rparr>))
        (acc_data (example_with_max 7087))\<rparr>)"

lemma example_update_max_runs:
  "update_max_voter_weight_record_instruction reference_runtime (example_update_max 7087) 500
     example_with_max = Inr example_max_set"
  unfolding update_max_voter_weight_record_ok
  using maxw.ser_fits
  by (simp add: example_update_max_def example_with_max_accounts example_registrar_loads
      example_max_loads example_max_record_fields example_authority example_max_set_def)

lemma example_max_set_reachable:
  "reachable reference_runtime reference_programs (example_system example_max_set)"
  by (rule example_system_step [OF example_with_max_reachable,
        where c = "Update_max_voter_weight_record (example_update_max 7087) 500"])
    (simp_all add: example_update_max_runs)

section \<open>An update of the max voter weight record that is given a voter weight record\<close>

text \<open>The voter's key is 31, whose byte 8 is 0; the new weight is 99.\<close>

lemma example_key_tag: "key_tag (governing_token_owner example_record) = 0"
  by (simp add: example_record_fields key_tag_def)

lemma example_record_read_as_max:
  "max_voter_weight_record_deserialize_unchecked (acc_data (example_with_voter 31115)) = Inr m
     \<longleftrightarrow> m = confused_record example_record"
  by (auto simp add: voter_read_as_max example_key_tag example_with_voter_accounts(6)
      example_record_account_def overwrite_def)

lemma example_hijack_runs:
  "is_ok (update_max_voter_weight_record_instruction reference_runtime (example_update_max 31115) 99
     example_with_voter)"
proof -
  have "length (max_voter_weight_record_serialize m) \<le> VoterWeightRecord_get_space" for m
    using maxw.ser_fits [of m]
    by (simp add: MaxVoterWeightRecord_get_space_def VoterWeightRecord_get_space_def)
  then show ?thesis
    unfolding is_ok_iff update_max_voter_weight_record_ok
    by (simp add: example_update_max_def example_with_voter_accounts(2,4) example_registrar_loads
        example_record_loads(1,4) example_record_read_as_max confused_record_def
        example_record_fields example_with_registrar_accounts(2) example_authority Let_def)
qed

text \<open>
  The record of 31 now belongs to 99, who creates a record of its own besides: without
  careful runs a key comes to own two records of one realm and mint.
\<close>

lemma example_reassigned_owner: "reassigned_owner 99 31 = 99"
proof -
  have "le_bytes 32 (reassigned_owner 99 31) = le_bytes 32 (99 :: pubkey)"
    by (simp only: bytes_reassigned_owner key_parts [of 99])
      (simp add: reassigned_bytes_def key_front_def key_tag_def key_tail_def)
  then show ?thesis by (subst (asm) le_bytes_inject) simp_all
qed

definition example_create_second :: create_voter_weight_record_accounts where
  "example_create_second =
     \<lparr>cv_registrar = readonly 7073, cv_voter_weight_record = writable 99115,
      cv_governing_token_owner_signer = signer 99, cv_payer = signer_mut 41,
      cv_system_program = readonly SYSTEM_PROGRAM_ID\<rparr>"

lemma example_second_rent [simp]:
  "\<not> 10000000000 - reference_rent Registrar_LEN - reference_rent VoterWeightRecord_get_space
     < reference_rent VoterWeightRecord_get_space"
  by (simp add: reference_rent_def Registrar_LEN_def VoterWeightRecord_get_space_def)

lemma example_create_second_runs:
  assumes "\<And>k. k \<noteq> 31115 \<Longrightarrow> L k = example_with_voter k"
  shows "is_ok (create_voter_weight_record_instruction reference_runtime example_create_second 99 L)"
proof -
  have "example_with_voter 99115 = empty_account"
    "example_with_voter 41 = empty_account\<lparr>acc_lamports :=
        10000000000 - reference_rent Registrar_LEN - reference_rent VoterWeightRecord_get_space\<rparr>"
    by (simp_all add: example_with_voter_def example_with_registrar_def example_chain_def
        SYSTEM_PROGRAM_ID_def)
  then show ?thesis
    unfolding is_ok_iff create_voter_weight_record_ok [OF reference_runtime_ok]
    by (simp add: assms example_create_second_def example_with_voter_accounts(1,4)
        example_registrar_loads example_with_registrar_accounts(1) reference_init_def
        fresh_account_def empty_account_def SYSTEM_PROGRAM_ID_def)
qed

lemma careless_run_gives_two_records:
  "\<exists>L. reachable reference_runtime reference_programs (example_system L) \<and>
     \<not> distinct (map governing_token_owner
         (voter_records reference_runtime L 11 7 [31115, 99115]))"
proof -
  let ?c1 = "Update_max_voter_weight_record (example_update_max 31115) 99"
    and ?c2 = "Create_voter_weight_record example_create_second 99"
  have k1: "call_target ?c1 = 31115" by (simp add: example_update_max_def)
  have k2: "call_target ?c2 = 99115" by (simp add: example_create_second_def)
  obtain L1 where p1: "process reference_runtime (Inr example_clock) ?c1 example_with_voter = Inr L1"
    using example_hijack_runs by (auto simp add: is_ok_iff)
  have u: "update_max_voter_weight_record_instruction reference_runtime (example_update_max 31115) 99
      example_with_voter = Inr L1"
    using p1 by simp
  have same: "L1 k = example_with_voter k" if "k \<noteq> 31115" for k
    using update_max.only_target_changes [where c = "(example_update_max 31115, 99)" and L = example_with_voter
        and L' = L1, OF reference_runtime_ok] u that by (auto simp add: example_update_max_def)
  obtain L2 where p2: "process reference_runtime (Inr example_clock) ?c2 L1 = Inr L2"
    using example_create_second_runs [OF same] by (auto simp add: is_ok_iff)
  have "reachable reference_runtime reference_programs (example_system L1)"
    by (rule example_system_step [OF example_with_voter_reachable p1]) simp
  then have reach: "reachable reference_runtime reference_programs (example_system L2)"
    by (rule example_system_step [OF _ p2]) simp
  have "view reference_runtime (L1 31115) = ViewVoter (example_record\<lparr>governing_token_owner := 99\<rparr>)"
    using update_max_reassigns [where L = example_with_voter and v = example_record and w = 99
        and L' = L1, OF reference_runtime_ok _ u]
    by (simp add: example_update_max_def example_views example_record_fields example_reassigned_owner)
  then have v1: "view reference_runtime (L2 31115) = ViewVoter (example_record\<lparr>governing_token_owner := 99\<rparr>)"
    using unchanged_elsewhere [OF reference_runtime_ok p2, of 31115] k2 by fastforce
  have "view reference_runtime (L1 7073) = ViewRegistrar example_registrar"
    using same [of 7073] example_views(1) by simp
  then have v2: "view reference_runtime (L2 99115) =
      ViewVoter (born_expired_record reference_runtime example_registrar 99)"
    using view_create_voter [OF reference_runtime_ok, of example_create_second 99 L1 L2] p2
    by (simp add: example_create_second_def)
  have "\<not> distinct (map governing_token_owner (voter_records reference_runtime L2 11 7 [31115, 99115]))"
    using v1 v2 by (simp add: voter_records_simps voter_record_at_def example_record_fields
        born_expired_fields)
  with reach show ?thesis by blast
qed

section \<open>A ledger in which an update is given a zeroed account\<close>

text \<open>
  A registrar for realm and mint 0, which no run produces where realms are not at the
  default address; a zeroed account that somebody has given to the program; and the
  identity account of key 0.
\<close>

definition zero_registrar :: registrar where
  "zero_registrar = zeroed_registrar\<lparr>max_verification_age := 2592000\<rparr>"

definition zero_ledger :: ledger where
  "zero_ledger = (\<lambda>k. empty_account)
     (73 := \<lparr>acc_lamports = 1, acc_data = registrar_serialize reference_runtime zero_registrar,
             acc_owner = PROGRAM_ID, acc_executable = False\<rparr>,
      999 := \<lparr>acc_lamports = 1, acc_data = replicate VoterWeightRecord_get_space 0,
              acc_owner = PROGRAM_ID, acc_executable = False\<rparr>,
      40 := \<lparr>acc_lamports = 1, acc_data = example_identity,
             acc_owner = ENTROS_ANCHOR_PROGRAM_ID, acc_executable = False\<rparr>)"

definition zero_update :: update_voter_weight_record_accounts where
  "zero_update =
     \<lparr>uv_registrar = readonly 73, uv_voter_weight_record = writable 999,
      uv_voter_authority = signer 0, uv_remaining_accounts = [readonly 40]\<rparr>"

lemma zero_registrar_loads:
  "load_registrar reference_runtime zero_ledger (readonly 73) = Inr zero_registrar"
  using reg.deser_ser [of reference_runtime zero_registrar "[]"]
  by (simp add: load_registrar_def load_account_Inr zero_ledger_def)

lemma zero_ledger_ok: "ledger_ok reference_runtime example_clock zero_ledger"
  unfolding ledger_ok_def
proof
  fix k :: pubkey
  consider "k = 73" | "k = 999" | "k \<noteq> 73" "k \<noteq> 999" by blast
  then show "account_ok reference_runtime example_clock k (zero_ledger k)"
  proof cases
    case 1
    have "view reference_runtime (zero_ledger 73) = ViewRegistrar zero_registrar"
      using zero_registrar_loads
      by (simp add: view_registrar load_registrar_def load_account_Inr)
    then show ?thesis
      using 1 by (simp add: account_ok_def space_ok_def zero_registrar_def zeroed_registrar_def)
        (simp add: zero_ledger_def length_registrar_serialize)
  next
    case 2
    have z: "zeroed (zero_ledger 999)" by (simp add: zero_ledger_def zeroed_def)
    then show ?thesis using 2 view_zeroed [OF reference_runtime_ok z]
      by (simp add: account_ok_def space_ok_def)
  next
    case 3
    then show ?thesis
      by (intro account_ok_foreign) (simp add: zero_ledger_def empty_account_def)
  qed
qed

lemma zero_update_runs:
  "is_ok (process reference_runtime (Inr example_clock) (Update_voter_weight_record zero_update)
     zero_ledger)"
proof -
  have "registrar_deserialize reference_runtime (acc_data (zero_ledger 73)) = Inr r \<longleftrightarrow> r = zero_registrar" for r
    using zero_registrar_loads by (auto simp add: load_registrar_def load_account_Inr)
  moreover have "identity_eligible reference_runtime example_clock zero_ledger zero_registrar 0"
    by (simp add: identity_eligible_def identity_valid_def zero_ledger_def example_identity_reads
        IDENTITY_MIN_DATA_LEN_def recent_def example_clock_def zero_registrar_def zeroed_registrar_def)
  moreover have "voter_weight_record_deserialize_unchecked (acc_data (zero_ledger 999)) =
      Inr zeroed_voter_weight_record"
    using voter.raw_zeros by (simp add: zero_ledger_def)
  ultimately have "update_permitted reference_runtime example_clock zero_update zero_ledger
      zeroed_voter_weight_record"
    by (simp add: update_permitted_def zero_update_def zeroed_voter_weight_record_def
        zero_registrar_def zeroed_registrar_def) (simp add: zero_ledger_def)
  moreover have "length (acc_data (zero_ledger 999)) = VoterWeightRecord_get_space"
    by (simp add: zero_ledger_def)
  ultimately show ?thesis
    using voter.ser_fits by (simp add: is_ok_iff update_voter_weight_record_ok zero_update_def) blast
qed

lemma zero_update_undiscriminated:
  "\<not> discriminated reference_runtime (Update_voter_weight_record zero_update) zero_ledger"
proof -
  have "zeroed (zero_ledger 999)" by (simp add: zero_ledger_def zeroed_def)
  then show ?thesis using zeroed_disc [of "zero_ledger 999" 2]
    by (auto simp add: zero_update_def holds_discriminator_def)
qed

end
