(* ===== verification/Weight_Properties.thy ===== *)
theory Weight_Properties
  imports Reference_Runtime
begin

text \<open>
  The properties of the identity check and of the voter weight instructions, each
  with a witness on the example chain.
\<close>

section \<open>The identity check\<close>

lemma bind_require: "bind_result (require c e) f = (if c then f () else Inl e)"
  by (simp add: require_def)

text \<open>C9: The identity check succeeds exactly when the record belongs to the voter, the first
  remaining account is the voter's identity address and the identity account there is eligible;
  it returns the clock it has read.\<close>

theorem verify_succeeds_iff_eligible:
  "verify_voter_identity_and_recency E clk L reg v voter remaining = Inr c \<longleftrightarrow>
     clk = Inr c \<and> governing_token_owner v = voter \<and>
     (\<exists>m ms. remaining = m # ms \<and> key m = identity_pda E voter) \<and>
     identity_eligible E c L reg voter"
  by (rule verify_Inr_iff)

text \<open>C8: Every outcome of the identity check, with the first failing condition deciding the
  error; no input makes it panic, although it slices the account data.\<close>

theorem verify_outcomes:
  "verify_voter_identity_and_recency E (Inr c) L reg v voter remaining =
     (if governing_token_owner v \<noteq> voter then Inl (Entros VoterWeightRecordOwnerMismatch)
      else case remaining of
        [] \<Rightarrow> Inl (Entros MissingIdentityAccount)
      | m # _ \<Rightarrow>
          (let a = L (key m); bs = acc_data a in
           if acc_owner a \<noteq> ENTROS_ANCHOR_PROGRAM_ID then Inl (Entros InvalidIdentityOwner)
           else if key m \<noteq> identity_pda E voter then Inl (Entros InvalidIdentityPda)
           else if \<not> (62 \<le> length bs \<and> take 8 bs = IDENTITY_DISCRIMINATOR)
             then Inl (Entros InvalidIdentityData)
           else if trust_score_of bs < min_trust_score reg then Inl (Entros InsufficientTrustScore)
           else if \<not> recent c (last_verification_of bs) (max_verification_age reg)
             then Inl (Entros VerificationExpired)
           else Inr c))"
proof (cases remaining)
  case Nil
  then show ?thesis by (simp add: verify_voter_identity_and_recency_def require_def)
next
  case (Cons m ms)
  obtain a where a: "L (key m) = a" by simp
  show ?thesis
  proof (cases "62 \<le> length (acc_data a)")
    case True
    then show ?thesis
      unfolding verify_voter_identity_and_recency_def Cons Let_def list.case ok_or_simps
        bind_result_simps a bind_require
      by (auto simp add: bind_require identity_reads IDENTITY_MIN_DATA_LEN_def age_check_iff_recent
          not_less not_le)
  next
    case False
    then show ?thesis
      unfolding verify_voter_identity_and_recency_def Cons Let_def list.case ok_or_simps
        bind_result_simps a bind_require
      by (simp add: IDENTITY_MIN_DATA_LEN_def)
  qed
qed

text \<open>C15: The age test on 64-bit integers is the test on mathematical integers: the difference
  of the timestamps is below the limit. Only a difference that \<open>i64\<close> cannot hold is treated
  as too old, on either side.\<close>

theorem age_test_on_integers:
  "sint (verification_age c last_ts) < sint (limit :: i64) \<longleftrightarrow>
     - (2 ^ 63) \<le> sint (unix_timestamp c) - sint last_ts \<and>
     sint (unix_timestamp c) - sint last_ts < sint limit"
  by (simp only: age_check_iff_recent recent_def)

text \<open>C16: A verification lapses: once the configured age has passed since the timestamp of the
  identity account, the check of its voter fails.\<close>

theorem verification_lapses:
  assumes "sint (last_verification_of (acc_data (L (identity_pda E voter)))) +
             sint (max_verification_age reg) \<le> sint (unix_timestamp c)"
  shows "\<not> is_ok (verify_voter_identity_and_recency E (Inr c) L reg v voter remaining)"
  using assms by (auto simp add: is_ok_iff verify_Inr_iff identity_eligible_def recent_def Let_def)

text \<open>The example voter, thirty days and two seconds after the verification.\<close>

theorem verification_lapses_witness:
  "\<not> is_ok (verify_voter_identity_and_recency reference_runtime
      (Inr \<lparr>slot = 42000, unix_timestamp = 1778092002\<rparr>) example_with_voter example_registrar
      example_record 31 [readonly 31040])"
  by (rule verification_lapses)
    (simp add: example_with_voter_accounts example_with_registrar_accounts example_chain_def
      example_identity_reads)

text \<open>C17: A verification dated in the future passes the recency check, whatever the positive
  limit (registrars have no other), as long as the (negative) age fits in \<open>i64\<close>.\<close>

theorem future_verification_accepted:
  assumes "identity_valid E L voter" "governing_token_owner v = voter"
    and "key m = identity_pda E voter"
    and "min_trust_score reg \<le> trust_score_of (acc_data (L (identity_pda E voter)))"
    and "sint (unix_timestamp c) < sint (last_verification_of (acc_data (L (identity_pda E voter))))"
    and "sint (last_verification_of (acc_data (L (identity_pda E voter)))) - sint (unix_timestamp c)
           \<le> 2 ^ 63"
    and "0 < sint (max_verification_age reg)"
  shows "verify_voter_identity_and_recency E (Inr c) L reg v voter (m # ms) = Inr c"
  using assms by (auto simp add: verify_Inr_iff identity_eligible_def recent_def Let_def)

text \<open>The example voter, with the clock before the verification.\<close>

theorem future_verification_accepted_witness:
  "verify_voter_identity_and_recency reference_runtime
     (Inr \<lparr>slot = 42000, unix_timestamp = 1700000000\<rparr>) example_with_voter example_registrar
     example_record 31 [readonly 31040] = Inr \<lparr>slot = 42000, unix_timestamp = 1700000000\<rparr>"
  by (rule future_verification_accepted)
    (simp_all add: identity_valid_def example_with_voter_accounts example_with_registrar_accounts
      example_chain_def example_identity_reads example_record_fields IDENTITY_MIN_DATA_LEN_def)

section \<open>Creating a record\<close>

text \<open>C25: A created voter weight record carries the realm and mint of the registrar it was
  created under, belongs to the key that signed, and is born without weight and expired.\<close>

theorem created_record_is_born_expired:
  assumes "runtime_ok E" "create_voter_weight_record_instruction E c token_owner L = Inr L'"
  shows "\<exists>r v. load_registrar E L (cv_registrar c) = Inr r \<and>
    load_voter_weight_record L' (cv_voter_weight_record c) = Inr v \<and>
    vwr_realm v = reg_realm r \<and> vwr_governing_token_mint v = reg_governing_token_mint r \<and>
    governing_token_owner v = token_owner \<and>
    key (cv_governing_token_owner_signer c) = token_owner \<and>
    is_signer (cv_governing_token_owner_signer c) \<and>
    key (cv_voter_weight_record c) =
      voter_weight_record_pda E (reg_realm r) (reg_governing_token_mint r) token_owner \<and>
    account_discriminator v = VOTER_WEIGHT_DISCRIMINATOR E \<and>
    voter_weight v = 0 \<and> voter_weight_expiry v = Some 0 \<and>
    weight_action v = None \<and> weight_action_target v = None"
  using assms
  by (auto simp add: create_voter_weight_record_ok load_defs load_account_Inr overwrite_def
      voter.deser_ser born_expired_record_def dest!: runtime_initD)

theorem created_record_is_born_expired_witness:
  "\<exists>r v. load_registrar reference_runtime example_with_registrar (cv_registrar example_create_voter) = Inr r \<and>
    load_voter_weight_record example_with_voter (cv_voter_weight_record example_create_voter) = Inr v \<and>
    vwr_realm v = reg_realm r \<and> governing_token_owner v = 31 \<and> voter_weight v = 0"
  using created_record_is_born_expired [OF reference_runtime_ok example_create_voter_runs] by blast

section \<open>Granting weight\<close>

text \<open>C12: After an update the record reads back as the record before it with weight 1, an
  expiry ten slots ahead (or the greatest slot), and no binding to an action or target, also
  when the record was bound before and its encoding has become shorter.\<close>

theorem update_grants_one_vote:
  assumes "update_voter_weight_record_instruction E (Inr clock) c L = Inr L'"
  shows "\<exists>v e. load_voter_weight_record L (uv_voter_weight_record c) = Inr v \<and>
    load_voter_weight_record L' (uv_voter_weight_record c) =
      Inr (v\<lparr>voter_weight := 1, voter_weight_expiry := Some e, weight_action := None,
             weight_action_target := None\<rparr>) \<and>
    unat e = min (unat (slot clock) + 10) (2 ^ 64 - 1)"
proof -
  have e: "unat (saturating_add_u64 (slot clock) VOTER_WEIGHT_EXPIRY_SLOT_WINDOW) =
      min (unat (slot clock) + 10) (2 ^ 64 - 1)"
    by (simp add: unat_saturating_add_u64 VOTER_WEIGHT_EXPIRY_SLOT_WINDOW_def)
  obtain v where "update_permitted E clock c L v"
    and "L' = store_record (key (uv_voter_weight_record c)) (granted_record v clock) L"
    using assms unfolding update_voter_weight_record_ok by blast
  then show ?thesis using e
    by (auto simp add: update_permitted_def load_defs load_account_Inr overwrite_def
        voter.deser_ser granted_record_def)
qed

theorem update_grants_one_vote_witness:
  "\<exists>v e. load_voter_weight_record example_with_voter (uv_voter_weight_record example_update) = Inr v \<and>
    load_voter_weight_record example_granted (uv_voter_weight_record example_update) =
      Inr (v\<lparr>voter_weight := 1, voter_weight_expiry := Some e, weight_action := None,
             weight_action_target := None\<rparr>) \<and>
    unat e = min (unat (slot example_clock) + 10) (2 ^ 64 - 1)"
  by (rule update_grants_one_vote [OF example_update_runs])

text \<open>C13: After an update for an action the record reads back bound to that action and target,
  valid in the current slot only.\<close>

theorem update_for_action_binds_vote:
  assumes "update_voter_weight_record_for_action_instruction E (Inr clock) c a t L = Inr L'"
  shows "t \<noteq> default_pubkey \<and>
    (\<exists>v. load_voter_weight_record L (uv_voter_weight_record c) = Inr v \<and>
       load_voter_weight_record L' (uv_voter_weight_record c) =
         Inr (v\<lparr>voter_weight := 1, voter_weight_expiry := Some (slot clock),
                weight_action := Some (into_addin a), weight_action_target := Some t\<rparr>))"
proof -
  obtain v where "update_permitted E clock c L v" "t \<noteq> default_pubkey"
    and "L' = store_record (key (uv_voter_weight_record c)) (granted_record_for_action v clock a t) L"
    using assms unfolding update_voter_weight_record_for_action_ok by blast
  then show ?thesis
    by (auto simp add: update_permitted_def load_defs load_account_Inr overwrite_def
        voter.deser_ser granted_record_for_action_def)
qed

theorem update_for_action_binds_vote_witness:
  "77 \<noteq> default_pubkey \<and>
    (\<exists>v. load_voter_weight_record example_with_voter (uv_voter_weight_record example_update) = Inr v \<and>
       load_voter_weight_record example_bound (uv_voter_weight_record example_update) =
         Inr (v\<lparr>voter_weight := 1, voter_weight_expiry := Some (slot example_clock),
                weight_action := Some (into_addin CastVote), weight_action_target := Some 77\<rparr>))"
  by (rule update_for_action_binds_vote [OF example_update_for_action_runs])

text \<open>C14: The two updates accept the same voters: the one for an action fails on the default
  target, and otherwise with the error of the other one.\<close>

theorem updates_agree:
  "update_voter_weight_record_for_action E clk c L r v a t =
     (if t = default_pubkey then Inl (Entros InvalidWeightActionTarget)
      else bind_result (update_voter_weight_record E clk c L r v)
        (\<lambda>v'. case clk of
           Inl e \<Rightarrow> Inl (External e)
         | Inr clock \<Rightarrow> Inr (v'\<lparr>voter_weight_expiry := Some (slot clock),
             weight_action := Some (into_addin a), weight_action_target := Some t\<rparr>)))"
proof (cases "verify_voter_identity_and_recency E clk L r v (key (uv_voter_authority c))
                (uv_remaining_accounts c)")
  case (Inl e)
  then show ?thesis
    by (simp add: update_voter_weight_record_for_action_def update_voter_weight_record_def require_def)
next
  case (Inr clock)
  then have "clk = Inr clock" by (simp add: verify_Inr_iff)
  then show ?thesis using Inr
    by (simp add: update_voter_weight_record_for_action_def update_voter_weight_record_def require_def)
qed

text \<open>
  What an update of the vote takes besides eligibility: the record and the registrar of
  its realm and mint, the owner's signature and the identity account.
\<close>

definition presents_record ::
    "runtime \<Rightarrow> ledger \<Rightarrow> update_voter_weight_record_accounts \<Rightarrow> registrar \<Rightarrow> voter_weight_record \<Rightarrow> bool"
where
  "presents_record E L c r v \<longleftrightarrow>
     view E (L (key (uv_registrar c))) = ViewRegistrar r \<and>
     view E (L (key (uv_voter_weight_record c))) = ViewVoter v \<and>
     vwr_realm v = reg_realm r \<and> vwr_governing_token_mint v = reg_governing_token_mint r \<and>
     governing_token_owner v = key (uv_voter_authority c) \<and>
     is_signer (uv_voter_authority c) \<and> is_writable (uv_voter_weight_record c) \<and>
     (case uv_remaining_accounts c of [] \<Rightarrow> False
      | m # ms \<Rightarrow> key m = identity_pda E (key (uv_voter_authority c)))"

lemma presented_record_permitted:
  assumes E: "runtime_ok E" and ok: "ledger_sound E progs clock L"
    and c: "presents_record E L c r v"
    and eligible: "identity_eligible E clock L r (key (uv_voter_authority c))"
  shows "update_permitted E clock c L v"
proof -
  have r: "view E (L (key (uv_registrar c))) = ViewRegistrar r"
    and v: "view E (L (key (uv_voter_weight_record c))) = ViewVoter v"
    using c by (simp_all add: presents_record_def)
  show ?thesis
    using c eligible view_voterD [OF v] sound_view_registrar(1) [OF ok r] r
    by (auto simp add: presents_record_def update_permitted_def view_registrar split: list.splits)
qed

lemma presented_record_stored:
  assumes E: "runtime_ok E" and ok: "ledger_sound E progs clock L"
    and c: "presents_record E L c r v"
    and w: "account_discriminator w = account_discriminator v"
  shows "length (voter_weight_record_serialize w) \<le> length (acc_data (L (key (uv_voter_weight_record c))))"
    and "view E (store_record (key (uv_voter_weight_record c)) w L (key (uv_voter_weight_record c))) =
      ViewVoter w"
proof -
  let ?k = "key (uv_voter_weight_record c)"
  have v: "view E (L ?k) = ViewVoter v" using c by (simp add: presents_record_def)
  show "length (voter_weight_record_serialize w) \<le> length (acc_data (L ?k))"
    using space_okD(2) [OF ledger_soundD(1) [OF ok] v] voter.ser_fits by simp
  show "view E (store_record ?k w L ?k) = ViewVoter w"
    by (rule view_store_record [where L = L and k = ?k, OF E v w])
qed

text \<open>C5: An eligible voter obtains the vote: in every reachable state of a chain on which no realm
  stands at a program's or the default address (whatever calls were accepted before), an update
  signed by the owner of a record, with the registrar of its realm and mint and the owner's
  identity account, succeeds and grants the weight.\<close>

theorem eligible_voter_is_granted:
  assumes "chain_ok E progs" "reachable E progs s" "presents_record E (ledger_of s) c r v"
    and "identity_eligible E (clock_of s) (ledger_of s) r (key (uv_voter_authority c))"
  shows "\<exists>L'. process E (Inr (clock_of s)) (Update_voter_weight_record c) (ledger_of s) = Inr L' \<and>
    view E (L' (key (uv_voter_weight_record c))) = ViewVoter (granted_record v (clock_of s))"
proof -
  note E = chain_okD(1) [OF assms(1)] and ok = reachable_ledger_sound [OF assms(1,2)]
  have "account_discriminator (granted_record v (clock_of s)) = account_discriminator v"
    by (simp add: granted_record_def)
  note stored = presented_record_stored [OF E ok assms(3) this]
  have "process E (Inr (clock_of s)) (Update_voter_weight_record c) (ledger_of s) =
      Inr (store_record (key (uv_voter_weight_record c)) (granted_record v (clock_of s)) (ledger_of s))"
    unfolding process.simps update_voter_weight_record_ok
    using presented_record_permitted [OF E ok assms(3,4)] stored(1) by blast
  with stored(2) show ?thesis by blast
qed

lemma example_presents_record:
  "presents_record reference_runtime example_with_voter example_update example_registrar example_record"
  by (simp add: presents_record_def example_update_fields example_views example_record_fields)

theorem eligible_voter_is_granted_witness:
  "\<exists>L'. process reference_runtime (Inr (clock_of (example_system example_with_voter)))
      (Update_voter_weight_record example_update) (ledger_of (example_system example_with_voter)) = Inr L' \<and>
    view reference_runtime (L' (key (uv_voter_weight_record example_update))) =
      ViewVoter (granted_record example_record (clock_of (example_system example_with_voter)))"
  by (rule eligible_voter_is_granted [OF reference_chain_ok example_with_voter_reachable,
        where r = example_registrar])
    (simp_all add: example_presents_record example_update_fields example_eligible)

text \<open>C40: An eligible voter obtains the vote for an action: under the same conditions the update
  for an action succeeds for every action and every target but the default address, and grants
  the weight bound to them.\<close>

theorem eligible_voter_is_granted_for_action:
  assumes "chain_ok E progs" "reachable E progs s" "presents_record E (ledger_of s) c r v"
    and "identity_eligible E (clock_of s) (ledger_of s) r (key (uv_voter_authority c))"
    and "t \<noteq> default_pubkey"
  shows "\<exists>L'. process E (Inr (clock_of s)) (Update_voter_weight_record_for_action c a t)
      (ledger_of s) = Inr L' \<and>
    view E (L' (key (uv_voter_weight_record c))) =
      ViewVoter (granted_record_for_action v (clock_of s) a t)"
proof -
  note E = chain_okD(1) [OF assms(1)] and ok = reachable_ledger_sound [OF assms(1,2)]
  have "account_discriminator (granted_record_for_action v (clock_of s) a t) = account_discriminator v"
    by (simp add: granted_record_for_action_def)
  note stored = presented_record_stored [OF E ok assms(3) this]
  have "process E (Inr (clock_of s)) (Update_voter_weight_record_for_action c a t) (ledger_of s) =
      Inr (store_record (key (uv_voter_weight_record c))
             (granted_record_for_action v (clock_of s) a t) (ledger_of s))"
    unfolding process.simps update_voter_weight_record_for_action_ok
    using presented_record_permitted [OF E ok assms(3,4)] assms(5) stored(1) by blast
  with stored(2) show ?thesis by blast
qed

theorem eligible_voter_is_granted_for_action_witness:
  "\<exists>L'. process reference_runtime (Inr (clock_of (example_system example_with_voter)))
      (Update_voter_weight_record_for_action example_update CreateProposal 77)
      (ledger_of (example_system example_with_voter)) = Inr L' \<and>
    view reference_runtime (L' (key (uv_voter_weight_record example_update))) =
      ViewVoter (granted_record_for_action example_record
        (clock_of (example_system example_with_voter)) CreateProposal 77)"
  by (rule eligible_voter_is_granted_for_action [OF reference_chain_ok example_with_voter_reachable,
        where r = example_registrar])
    (simp_all add: example_presents_record example_update_fields example_eligible default_pubkey_def)

section \<open>Closing\<close>

text \<open>C26: A voter weight record is closed only by its owner's signature; its lamports go to the
  named destination, its address is free again, and no other account changes.\<close>

theorem close_record_pays_out:
  assumes "runtime_ok E" "close_voter_weight_record_instruction E c L = Inr L'"
  shows "\<exists>v. load_voter_weight_record L (xv_voter_weight_record c) = Inr v \<and>
    governing_token_owner v = key (xv_voter_authority c) \<and> is_signer (xv_voter_authority c) \<and>
    fresh_account (L' (key (xv_voter_weight_record c))) \<and>
    unat (acc_lamports (L' (key (xv_sol_destination c)))) =
      unat (acc_lamports (L (key (xv_sol_destination c)))) +
      unat (acc_lamports (L (key (xv_voter_weight_record c)))) \<and>
    {k. L' k \<noteq> L k} \<subseteq> {key (xv_voter_weight_record c), key (xv_sol_destination c)}"
proof -
  have "{k. L' k \<noteq> L k} \<subseteq> {key (xv_voter_weight_record c), key (xv_sol_destination c)}"
    using assms by (auto simp add: close_voter_weight_record_ok dest!: runtime_closeD)
  then show ?thesis using assms close_voter.closes [OF assms]
    by (auto simp add: close_voter_weight_record_ok load_defs load_account_Inr)
qed

theorem close_record_pays_out_witness:
  "\<exists>L' v. close_voter_weight_record_instruction reference_runtime example_close_voter
       example_with_voter = Inr L' \<and>
    load_voter_weight_record example_with_voter (xv_voter_weight_record example_close_voter) = Inr v \<and>
    governing_token_owner v = 31 \<and> fresh_account (L' 31115)"
proof -
  obtain L' where L': "close_voter_weight_record_instruction reference_runtime example_close_voter
      example_with_voter = Inr L'"
    using example_close_voter_runs by (auto simp add: is_ok_iff)
  show ?thesis
    using close_record_pays_out [OF reference_runtime_ok L'] L'
    by (auto simp add: example_close_voter_def)
qed

text \<open>C27: Closing a registrar strands its voters' records: from a reachable state of a chain on
  which no realm stands at a program's or the default address, after the close and in every
  continuation of the run up to the point where a registrar stands at the address again, every
  record of the registrar's realm and mint is still there, unchanged, and while there is no
  registrar at the address no call that has the record as its target or loads the registrar is
  accepted, so no such record can be created, updated, closed or reassigned.\<close>

theorem closed_registrar_strands_records:
  assumes "chain_ok E progs" "reachable E progs s"
    and "process E (Inr (clock_of s)) (Close_registrar x) (ledger_of s) = Inr L1"
    and "view E (ledger_of s (key (xr_registrar x))) = ViewRegistrar r"
    and "view E (ledger_of s k) = ViewVoter v"
    and "vwr_realm v = reg_realm r" "vwr_governing_token_mint v = reg_governing_token_mint r"
    and "run_while E progs (no_registrar_at E (key (xr_registrar x))) (s\<lparr>ledger_of := L1\<rparr>) t"
  shows "view E (ledger_of t k) = ViewVoter v \<and>
    (no_registrar_at E (key (xr_registrar x)) t \<longrightarrow>
       (\<forall>c. call_target c = k \<or> call_registrar c = Some (key (xr_registrar x)) \<longrightarrow>
          \<not> is_ok (process E (Inr (clock_of t)) c (ledger_of t))))"
proof -
  note E = chain_okD(1) [OF assms(1)]
  let ?a = "key (xr_registrar x)"
  have a: "?a = registrar_pda E (vwr_realm v) (vwr_governing_token_mint v)"
    using sound_view_registrar(1) [OF reachable_ledger_sound [OF assms(1,2)] assms(4)] assms(6,7) by simp
  have s1: "reachable E progs (s\<lparr>ledger_of := L1\<rparr>)"
    using reachable_by.step [OF assms(2) instruction_step [OF assms(3)]] by simp
  have "k \<noteq> ?a" using assms(4,5) by auto
  then have "view E (L1 k) = ViewVoter v" using unchanged_elsewhere [OF E assms(3)] assms(5) by force
  then have v: "view E (ledger_of t k) = ViewVoter v"
    using record_frozen [OF assms(1) s1] assms(8) a by simp
  have ok: "ledger_sound E progs (clock_of t) (ledger_of t)"
    by (rule reachable_ledger_sound [OF assms(1) run_while_reachable [OF assms(8) s1]])
  show ?thesis
    using v no_registrar_no_call [OF E] call_on_record_registrar [OF E ok] a
    by (metis is_ok_iff)
qed

text \<open>The example registrar is closed, and a day later the voter's record still cannot be closed.\<close>

theorem closed_registrar_strands_records_witness:
  "\<exists>L'. close_registrar_instruction reference_runtime example_close_registrar example_with_voter = Inr L' \<and>
    view reference_runtime (L' 31115) = ViewVoter example_record \<and>
    \<not> is_ok (process reference_runtime (Inr (example_clock\<lparr>slot := 258000\<rparr>))
      (Close_voter_weight_record example_close_voter) L')"
proof -
  obtain L' where L': "close_registrar_instruction reference_runtime example_close_registrar
      example_with_voter = Inr L'"
    using example_close_registrar_runs by (auto simp add: is_ok_iff)
  let ?s = "example_system example_with_voter" and ?x = example_close_registrar
  let ?t = "\<lparr>ledger_of = L', clock_of = example_clock\<lparr>slot := 258000\<rparr>\<rparr>"
  have p: "process reference_runtime (Inr (clock_of ?s)) (Close_registrar ?x) (ledger_of ?s) = Inr L'"
    using L' by simp
  have a: "key (xr_registrar ?x) = 7073" by (simp add: example_close_registrar_def)
  have "view reference_runtime (L' 7073) = ViewNone"
    using closing_effect [OF reference_runtime_ok p] a by (simp add: view_fresh)
  then have none: "no_registrar_at reference_runtime 7073 (?s\<lparr>ledger_of := L'\<rparr>)"
      "no_registrar_at reference_runtime 7073 ?t"
    by (simp_all add: no_registrar_at_def)
  have "ledger_sound reference_runtime reference_programs example_clock L'"
    using process_keeps_ledger_sound [OF reference_chain_ok reachable_ledger_sound
        [OF reference_chain_ok example_with_voter_reachable] p] by simp
  then have "step reference_runtime reference_programs any_call (?s\<lparr>ledger_of := L'\<rparr>) ?t"
    using clock_step [where c = example_clock and c' = "clock_of ?t"]
    by (simp add: example_system_def example_clock_def)
  then have "run_while reference_runtime reference_programs (no_registrar_at reference_runtime 7073)
      (?s\<lparr>ledger_of := L'\<rparr>) ?t"
    using none by (blast intro: run_while.intros)
  then have "view reference_runtime (L' 31115) = ViewVoter example_record \<and>
      (\<forall>c. call_target c = 31115 \<or> call_registrar c = Some 7073 \<longrightarrow>
         \<not> is_ok (process reference_runtime (Inr (clock_of ?t)) c L'))"
    using closed_registrar_strands_records [OF reference_chain_ok example_with_voter_reachable p,
        of example_registrar 31115 example_record ?t] none
    by (simp add: a example_views example_record_fields)
  moreover have "call_target (Close_voter_weight_record example_close_voter) = 31115"
    by (simp add: example_close_voter_def)
  ultimately show ?thesis using L' by (metis system.select_convs(2))
qed

end
