(* ===== verification/Admin_Properties.thy ===== *)
theory Admin_Properties
  imports Reference_Runtime
begin

text \<open>
  The properties of the registrar and max voter weight instructions and of the
  contracts that all instructions share, with their witnesses on the example chain.
\<close>

section \<open>Registrars\<close>

text \<open>A verification age of zero or less is reported by both handlers before anything else.\<close>

lemma age_limit_must_be_positive:
  assumes "sint max_age \<le> 0"
  shows "create_registrar E c L r min_score max_age = Inl (Entros InvalidMaxVerificationAge)"
    and "update_registrar E c' L r min_score max_age = Inl (Entros InvalidMaxVerificationAge)"
  using assms by (simp_all add: create_registrar_def update_registrar_def require_def)

text \<open>C31: Creating a registrar stores the configuration it is given at the address derived
  from the realm and the mint; the realm belongs to the (executable) governance program.\<close>

theorem created_registrar_is_as_configured:
  assumes "runtime_ok E" "create_registrar_instruction E c min_score max_age L = Inr L'"
  shows "load_registrar E L' (cr_registrar c) = Inr
      \<lparr>governance_program_id = key (cr_governance_program_id c), reg_realm = key (cr_realm c),
       reg_governing_token_mint = key (cr_governing_token_mint c),
       min_trust_score = min_score, max_verification_age = max_age, reg_reserved = 0\<rparr> \<and>
    key (cr_registrar c) = registrar_pda E (key (cr_realm c)) (key (cr_governing_token_mint c)) \<and>
    0 < sint max_age \<and>
    (key (cr_realm c) \<noteq> key (cr_registrar c) \<longrightarrow>
       acc_owner (L (key (cr_realm c))) = key (cr_governance_program_id c)) \<and>
    (key (cr_governance_program_id c) \<noteq> key (cr_registrar c) \<longrightarrow>
       acc_executable (L (key (cr_governance_program_id c))))"
proof -
  obtain L1 where i: "anchor_init E (key (cr_payer c)) (key (cr_registrar c)) Registrar_LEN PROGRAM_ID L = Inr L1"
    and x: "acc_executable (L1 (key (cr_governance_program_id c)))"
    and o: "acc_owner (L1 (key (cr_realm c))) = key (cr_governance_program_id c)"
    and rest: "0 < sint max_age"
      "key (cr_registrar c) = registrar_pda E (key (cr_realm c)) (key (cr_governing_token_mint c))"
      "L' = L1(key (cr_registrar c) := (L1 (key (cr_registrar c)))
              \<lparr>acc_data := registrar_serialize E (configured_registrar c min_score max_age)\<rparr>)"
    using assms(2) unfolding create_registrar_ok [OF assms(1)] by blast
  have "load_registrar E L' (cr_registrar c) = Inr (configured_registrar c min_score max_age)"
    using rest(3) runtime_init(3) [OF assms(1) i]
      reg.deser_ser [of E "configured_registrar c min_score max_age" "[]"]
    by (simp add: load_registrar_def load_account_Inr)
  moreover have "acc_owner (L k) = acc_owner (L1 k) \<and> acc_executable (L k) = acc_executable (L1 k)"
    if "k \<noteq> key (cr_registrar c)" for k
    using same_contentD [OF runtime_init(5) [OF assms(1) i that]] by simp
  ultimately show ?thesis using rest(1,2) x o by (simp add: configured_registrar_def)
qed

theorem created_registrar_is_as_configured_witness:
  "load_registrar reference_runtime example_with_registrar (cr_registrar example_create_registrar) =
     Inr example_registrar"
  using created_registrar_is_as_configured [OF reference_runtime_ok example_create_registrar_runs]
  by (simp add: example_create_registrar_def example_registrar_def)

text \<open>C32: Updating a registrar changes its two thresholds and nothing else: the governance
  program, realm, mint and reserved bytes stay, and so does every other account.\<close>

theorem update_registrar_changes_thresholds_only:
  assumes "runtime_ok E" "update_registrar_instruction E c min_score max_age L = Inr L'"
  shows "\<exists>r. load_registrar E L (ur_registrar c) = Inr r \<and>
    load_registrar E L' (ur_registrar c) =
      Inr (r\<lparr>min_trust_score := min_score, max_verification_age := max_age\<rparr>) \<and>
    acc_lamports (L' (key (ur_registrar c))) = acc_lamports (L (key (ur_registrar c))) \<and>
    {k. L' k \<noteq> L k} \<subseteq> {key (ur_registrar c)}"
proof -
  have "{k. L' k \<noteq> L k} \<subseteq> {key (ur_registrar c)}"
    using update_registrar.only_target_changes [where c = "(c, min_score, max_age)"] assms by simp
  then show ?thesis using assms
    by (auto simp add: update_registrar_ok load_registrar_def load_account_Inr overwrite_def
        reg.deser_ser)
qed

theorem update_registrar_changes_thresholds_only_witness:
  "\<exists>r. load_registrar reference_runtime example_with_voter (ur_registrar example_update_registrar) = Inr r \<and>
    load_registrar reference_runtime example_retuned (ur_registrar example_update_registrar) =
      Inr (r\<lparr>min_trust_score := 150, max_verification_age := 86400\<rparr>)"
  using update_registrar_changes_thresholds_only [OF reference_runtime_ok example_update_registrar_runs] by blast

section \<open>Who administers a realm\<close>

text \<open>The realm account of a call, and the governance program and mint it is looked up with.\<close>

fun call_realm :: "call \<Rightarrow> pubkey" where
  "call_realm (Create_registrar c s m) = key (cr_realm c)"
| "call_realm (Update_registrar c s m) = key (ur_realm c)"
| "call_realm (Close_registrar c) = key (xr_realm c)"
| "call_realm (Create_max_voter_weight_record c) = key (cm_realm c)"
| "call_realm (Update_max_voter_weight_record c w) = key (um_realm c)"
| "call_realm c = default_pubkey"

fun call_scope :: "runtime \<Rightarrow> call \<Rightarrow> ledger \<Rightarrow> (pubkey \<times> pubkey) option" where
  "call_scope E (Create_registrar c s m) L =
     Some (key (cr_governance_program_id c), key (cr_governing_token_mint c))"
| "call_scope E (Update_registrar c s m) L = registrar_scope E L (ur_registrar c)"
| "call_scope E (Close_registrar c) L = registrar_scope E L (xr_registrar c)"
| "call_scope E (Create_max_voter_weight_record c) L = registrar_scope E L (cm_registrar c)"
| "call_scope E (Update_max_voter_weight_record c w) L = registrar_scope E L (um_registrar c)"
| "call_scope E c L = None"

text \<open>C11: The five administrative instructions succeed only with the signature of the authority
  that spl-governance returns for the realm account, under the governance program and mint of
  the registrar.\<close>

theorem administration_needs_authority:
  assumes "runtime_ok E" "process E clk c L = Inr L'" "call_authority c = Some m"
  shows "is_signer m \<and> (\<exists>gov mint. call_scope E c L = Some (gov, mint) \<and>
    authorised_at E L (call_target c) gov (call_realm c) mint (key m))"
proof (cases c)
  case (Create_registrar a s x)
  then show ?thesis using assms create_registrar_admin.authorised [where c = "(a, s, x)"] by fastforce
next
  case (Update_registrar a s x)
  then show ?thesis using assms update_registrar_admin.authorised [where c = "(a, s, x)"] by fastforce
next
  case (Close_registrar a)
  then show ?thesis using assms close_registrar_admin.authorised [where c = a] by fastforce
next
  case (Create_max_voter_weight_record a)
  then show ?thesis using assms create_max_admin.authorised [where c = a] by fastforce
next
  case (Update_max_voter_weight_record a w)
  then show ?thesis using assms update_max_admin.authorised [where c = "(a, w)"] by fastforce
qed (use assms(3) in simp_all)

theorem administration_needs_authority_witness:
  "\<exists>gov mint. call_scope reference_runtime
      (Update_registrar example_update_registrar 150 86400) example_with_voter = Some (gov, mint) \<and>
    authorised_at reference_runtime example_with_voter 7073 gov 11 mint 21"
  using administration_needs_authority [OF reference_runtime_ok,
      of undefined "Update_registrar example_update_registrar 150 86400" example_with_voter
        example_retuned "signer 21"]
  by (simp add: example_update_registrar_runs) (simp add: example_update_registrar_def)

section \<open>The max voter weight record\<close>

text \<open>C34: Updating the max voter weight record needs a positive weight and stores it without an
  expiry; no other field of the record changes.\<close>

theorem update_max_stores_weight:
  assumes "update_max_voter_weight_record_instruction E c w L = Inr L'"
  shows "0 < w \<and>
    (\<exists>m. load_max_voter_weight_record L (um_max_voter_weight_record c) = Inr m \<and>
       load_max_voter_weight_record L' (um_max_voter_weight_record c) =
         Inr (m\<lparr>max_voter_weight := w, max_voter_weight_expiry := None\<rparr>))"
  using assms
  by (auto simp add: update_max_voter_weight_record_ok load_max_voter_weight_record_def
      load_account_Inr overwrite_def maxw.deser_ser)

theorem update_max_stores_weight_witness:
  "\<exists>m. load_max_voter_weight_record example_max_set
      (um_max_voter_weight_record (example_update_max 7087)) =
        Inr (m\<lparr>max_voter_weight := 500, max_voter_weight_expiry := None\<rparr>)"
  using update_max_stores_weight [OF example_update_max_runs] by blast

text \<open>C35: A max voter weight record is created by the signature of the authority that
  spl-governance returns for the registrar's realm, under the registrar's governance program
  and mint; it is for that realm and mint, at the address derived from them, and is born with
  weight 0 and expired, so that it cannot be used before an update.\<close>

theorem created_max_record_is_born_expired:
  assumes "runtime_ok E" "create_max_voter_weight_record_instruction E c L = Inr L'"
  shows "\<exists>r m. load_registrar E L (cm_registrar c) = Inr r \<and>
    is_signer (cm_realm_authority c) \<and> key (cm_realm c) = reg_realm r \<and>
    authorised_at E L (key (cm_max_voter_weight_record c)) (governance_program_id r) (reg_realm r)
      (reg_governing_token_mint r) (key (cm_realm_authority c)) \<and>
    load_max_voter_weight_record L' (cm_max_voter_weight_record c) = Inr m \<and>
    max_realm m = reg_realm r \<and> max_governing_token_mint m = reg_governing_token_mint r \<and>
    key (cm_max_voter_weight_record c) =
      max_voter_weight_record_pda E (max_realm m) (max_governing_token_mint m) \<and>
    max_account_discriminator m = MAX_VOTER_WEIGHT_DISCRIMINATOR E \<and>
    max_voter_weight m = 0 \<and> max_voter_weight_expiry m = Some 0"
  using assms create_max_admin.authorised [OF assms]
  by (auto simp add: create_max_voter_weight_record_ok load_defs load_account_Inr overwrite_def
      maxw.deser_ser born_expired_max_record_def registrar_scope_Some dest!: runtime_initD)

theorem created_max_record_is_born_expired_witness:
  "\<exists>r m. load_registrar reference_runtime example_with_registrar (cm_registrar example_create_max) = Inr r \<and>
    authorised_at reference_runtime example_with_registrar 7087 5 (reg_realm r) 7 21 \<and>
    load_max_voter_weight_record example_with_max (cm_max_voter_weight_record example_create_max) = Inr m \<and>
    max_realm m = reg_realm r \<and> max_voter_weight m = 0 \<and> max_voter_weight_expiry m = Some 0"
  using created_max_record_is_born_expired [OF reference_runtime_ok example_create_max_runs]
    example_registrar_loads
  by (auto simp add: example_create_max_def load_registrar_def load_account_Inr)

section \<open>Contracts of all instructions\<close>

text \<open>C30: No instruction touches the content of an account that another program owns and uses.\<close>

theorem foreign_accounts_untouched:
  assumes "runtime_ok E" "process E clk c L = Inr L'"
    and "acc_owner (L k) \<noteq> PROGRAM_ID" "\<not> fresh_account (L k)"
  shows "same_content (L' k) (L k)"
  using program.others_untouched [where c = "(clk, c)"] assms by simp

theorem foreign_accounts_untouched_witness:
  "same_content (example_with_registrar 11) (example_chain 11)"
proof (rule foreign_accounts_untouched [OF reference_runtime_ok, where clk = "Inr example_clock"
      and c = "Create_registrar example_create_registrar 100 2592000"])
  show "process reference_runtime (Inr example_clock)
      (Create_registrar example_create_registrar 100 2592000) example_chain = Inr example_with_registrar"
    by (simp add: example_create_registrar_runs)
qed (simp_all add: example_chain_def fresh_account_def SYSTEM_PROGRAM_ID_def)

text \<open>C28: An account is created once: after a creation, no creation of the same address succeeds,
  of whatever kind, so an existing record cannot be reset by creating it again.\<close>

theorem no_account_is_created_twice:
  assumes "runtime_ok E" "process E clk c L = Inr L'" "is_creation c"
    and "is_creation d" "call_target d = call_target c"
  shows "\<not> is_ok (process E clk' d L')"
proof
  assume "is_ok (process E clk' d L')"
  then obtain L'' where "process E clk' d L' = Inr L''" by (auto simp add: is_ok_iff)
  then have "fresh_account (L' (call_target c))"
    using creation_effect [OF assms(1) _ assms(4)] assms(5) by metis
  then show False
    using creation_effect [OF assms(1-3)] by (simp add: fresh_account_def)
qed

theorem no_account_is_created_twice_witness:
  "\<not> is_ok (process reference_runtime (Inr example_clock)
      (Create_voter_weight_record example_create_voter 31) example_with_voter)"
proof (rule no_account_is_created_twice [OF reference_runtime_ok,
      where clk = "Inr example_clock" and c = "Create_voter_weight_record example_create_voter 31"])
  show "process reference_runtime (Inr example_clock)
      (Create_voter_weight_record example_create_voter 31) example_with_registrar = Inr example_with_voter"
    by (simp add: example_create_voter_runs)
qed simp_all

text \<open>C29: The four update instructions change the data of one account and keep its size, its owner
  and everybody's lamports.\<close>

theorem updates_change_data_only:
  assumes "runtime_ok E" "process E clk c L = Inr L'" "is_update c"
  shows "acc_owner (L (call_target c)) = PROGRAM_ID \<and>
    length (acc_data (L' (call_target c))) = length (acc_data (L (call_target c))) \<and>
    L' = L(call_target c := (L (call_target c))\<lparr>acc_data := acc_data (L' (call_target c))\<rparr>)"
  by (rule update_effect [OF assms])

theorem updates_change_data_only_witness:
  "example_granted = example_with_voter(31115 := (example_with_voter 31115)
     \<lparr>acc_data := acc_data (example_granted 31115)\<rparr>)"
  using updates_change_data_only [OF reference_runtime_ok,
      where c = "Update_voter_weight_record example_update" and clk = "Inr example_clock"
        and L = example_with_voter and L' = example_granted]
  by (simp add: example_update_runs) (simp add: example_update_fields)

end
