(* ===== verification/Format_Properties.thy ===== *)
theory Format_Properties
  imports Reference_Runtime
begin

text \<open>
  The properties of the stored formats: what is written is what is read, over any
  older bytes, in the space that the accounts are created with; and what the reads
  accept that was not written for them.
\<close>

section \<open>Round trips\<close>

text \<open>C18: A voter weight record written over any buffer, shorter or longer encodings before it
  included, reads back as itself, and nothing but such bytes reads as it.\<close>

theorem voter_record_round_trip:
  "voter_weight_record_deserialize_unchecked (overwrite (voter_weight_record_serialize v) buffer) = Inr v \<and>
   (voter_weight_record_deserialize_unchecked bs = Inr v \<longleftrightarrow>
      (\<exists>rest. bs = voter_weight_record_serialize v @ rest))"
  by (simp add: overwrite_def voter.deser_ser voter_weight_record_deserialize_Inr)

text \<open>C36: A registrar written to its account reads back as itself, and a registrar is read only
  from bytes that start with the registrar discriminator and its encoding.\<close>

theorem registrar_round_trip:
  "registrar_deserialize E (overwrite (registrar_serialize E r) buffer) = Inr r \<and>
   (registrar_deserialize E bs = Inr r \<longleftrightarrow>
      (\<exists>rest. bs = le_bytes 8 (REGISTRAR_DISCRIMINATOR E) @ enc_registrar r @ rest))"
  by (simp add: overwrite_def reg.deser_ser registrar_deserialize_Inr registrar_serialize_def)

text \<open>C37: The same for the max voter weight record.\<close>

theorem max_record_round_trip:
  "max_voter_weight_record_deserialize_unchecked
     (overwrite (max_voter_weight_record_serialize m) buffer) = Inr m \<and>
   (max_voter_weight_record_deserialize_unchecked bs = Inr m \<longleftrightarrow>
      (\<exists>rest. bs = max_voter_weight_record_serialize m @ rest))"
  by (simp add: overwrite_def maxw.deser_ser max_voter_weight_record_deserialize_Inr)

text \<open>C19: The space the accounts are created with is the length of the longest encoding: enough
  for every value, and reached.\<close>

theorem account_space_is_exact:
  "Max (range (\<lambda>v. length (voter_weight_record_serialize v))) = VoterWeightRecord_get_space \<and>
   Max (range (\<lambda>m. length (max_voter_weight_record_serialize m))) = MaxVoterWeightRecord_get_space \<and>
   length (registrar_serialize E r) = Registrar_LEN"
proof -
  let ?v = "zeroed_voter_weight_record\<lparr>voter_weight_expiry := Some 0,
     weight_action := Some AddinCastVote, weight_action_target := Some 0\<rparr>"
  let ?m = "zeroed_max_voter_weight_record\<lparr>max_voter_weight_expiry := Some 0\<rparr>"
  have "finite (range (\<lambda>v. length (voter_weight_record_serialize v)))"
    by (rule finite_subset [of _ "{..VoterWeightRecord_get_space}"]) (auto intro: voter.ser_fits)
  moreover have "length (voter_weight_record_serialize ?v) = VoterWeightRecord_get_space"
    by (simp add: voter_weight_record_serialize_def enc_action_def VoterWeightRecord_get_space_def)
  ultimately have v: "Max (range (\<lambda>v. length (voter_weight_record_serialize v))) =
      VoterWeightRecord_get_space"
    by (intro Max_eqI) (auto intro: voter.ser_fits image_eqI [of _ _ ?v])
  have "finite (range (\<lambda>m. length (max_voter_weight_record_serialize m)))"
    by (rule finite_subset [of _ "{..MaxVoterWeightRecord_get_space}"]) (auto intro: maxw.ser_fits)
  moreover have "length (max_voter_weight_record_serialize ?m) = MaxVoterWeightRecord_get_space"
    by (simp add: max_voter_weight_record_serialize_def MaxVoterWeightRecord_get_space_def)
  ultimately have "Max (range (\<lambda>m. length (max_voter_weight_record_serialize m))) =
      MaxVoterWeightRecord_get_space"
    by (intro Max_eqI) (auto intro: maxw.ser_fits image_eqI [of _ _ ?m])
  with v show ?thesis by (simp add: length_registrar_serialize)
qed

text \<open>C20: The layout of an action-bound record, at the offsets the governance program reads: the
  weight at 104, the expiry slot behind its tag at 112, the action at 122, the target at 124.\<close>

theorem action_bound_layout:
  "take 8 (drop 104 (voter_weight_record_serialize (granted_record_for_action v c a t))) = le_bytes 8 (1 :: u64) \<and>
   take 9 (drop 112 (voter_weight_record_serialize (granted_record_for_action v c a t))) = 1 # le_bytes 8 (slot c) \<and>
   take 2 (drop 121 (voter_weight_record_serialize (granted_record_for_action v c a t))) =
     [1, plugin_action_byte a] \<and>
   take 33 (drop 123 (voter_weight_record_serialize (granted_record_for_action v c a t))) = 1 # key_bytes t \<and>
   length (voter_weight_record_serialize (granted_record_for_action v c a t)) = VoterWeightRecord_get_space"
  by (cases a) (simp_all add: voter_weight_record_serialize_def granted_record_for_action_def
      enc_action_def key_bytes_def VoterWeightRecord_get_space_def)

section \<open>The action enum\<close>

text \<open>C39: The conversion of the plugin's action enum to the addin's is one to one and keeps the
  serialised byte.\<close>

theorem action_conversion:
  "bij into_addin \<and> addin_action_byte (into_addin a) = plugin_action_byte a \<and>
   addin_action_of (plugin_action_byte a) = Some (into_addin a)"
proof -
  have "surj into_addin"
  proof (rule surjI)
    fix b
    show "into_addin (case b of AddinCastVote \<Rightarrow> CastVote | AddinCommentProposal \<Rightarrow> CommentProposal
        | AddinCreateGovernance \<Rightarrow> CreateGovernance | AddinCreateProposal \<Rightarrow> CreateProposal
        | AddinSignOffProposal \<Rightarrow> SignOffProposal) = b"
      by (cases b) simp_all
  qed
  moreover have "inj into_addin"
  proof (rule injI)
    fix x y assume "into_addin x = into_addin y"
    then show "x = y" by (cases x; cases y) simp_all
  qed
  moreover have b: "addin_action_byte (into_addin a) = plugin_action_byte a" by (cases a) simp_all
  ultimately show ?thesis
    using addin_action_of_byte [of "into_addin a"] by (simp only: bij_def b)
qed

section \<open>Confusion of records\<close>

text \<open>C24: No account of the size of a max voter weight record can be loaded as a voter weight
  record: voting power cannot be read from it.\<close>

theorem max_record_is_no_voter_record:
  assumes "length (acc_data (L (key m))) = MaxVoterWeightRecord_get_space"
  shows "\<not> is_ok (load_voter_weight_record L m)"
  using max_not_read_as_voter [OF assms]
  by (simp add: load_voter_weight_record_def load_account_def)

theorem max_record_is_no_voter_record_witness:
  "\<not> is_ok (load_voter_weight_record example_with_max (readonly 7087))"
  by (rule max_record_is_no_voter_record) (simp add: example_max_loads)

text \<open>C22: The bytes of a voter weight record decode as a max voter weight record exactly when
  byte 8 of the voter's key is 0 or 1; the reader does not compare the discriminator.\<close>

theorem voter_record_decodes_as_max_record:
  "is_ok (max_voter_weight_record_deserialize_unchecked (voter_weight_record_serialize v @ rest))
     \<longleftrightarrow> key_bytes (governing_token_owner v) ! 8 \<in> {0, 1}"
proof -
  have "key_bytes k ! 8 = key_tag k" for k
    by (simp add: key_bytes_def key_parts nth_append)
  then show ?thesis by (simp add: voter_read_as_max is_ok_iff)
qed

text \<open>C21: Given a voter weight record whose owner's byte 8 is 0, a successful update of the max
  voter weight record overwrites the first eight bytes of the owner with the new weight.\<close>

theorem update_max_reassigns_voter_record:
  assumes "runtime_ok E"
    and "update_max_voter_weight_record_instruction E c w L = Inr L'"
    and "view E (L (key (um_max_voter_weight_record c))) = ViewVoter v"
    and "key_bytes (governing_token_owner v) ! 8 = 0"
  shows "\<exists>v'. view E (L' (key (um_max_voter_weight_record c))) = ViewVoter v' \<and>
    take 8 (key_bytes (governing_token_owner v')) = le_bytes 8 w \<and>
    drop 8 (key_bytes (governing_token_owner v')) = drop 8 (key_bytes (governing_token_owner v)) \<and>
    v' = v\<lparr>governing_token_owner := governing_token_owner v'\<rparr>"
proof -
  have "key_tag (governing_token_owner v) = 0"
    using assms(4) by (simp add: key_bytes_def key_parts nth_append)
  then have "le_bytes 32 (reassigned_owner w (governing_token_owner v)) =
      le_bytes 8 w @ 0 # key_tail (governing_token_owner v)" "key_tag (governing_token_owner v) = 0"
    by (simp_all add: bytes_reassigned_owner reassigned_bytes_def)
  then show ?thesis
    using update_max_reassigns [OF assms(1,3,2)] key_parts [of "governing_token_owner v"]
    by (auto simp add: key_bytes_def)
qed

theorem update_max_reassigns_voter_record_witness:
  "\<exists>L' v'. update_max_voter_weight_record_instruction reference_runtime (example_update_max 31115) 99
      example_with_voter = Inr L' \<and>
    view reference_runtime (L' 31115) = ViewVoter v' \<and>
    take 8 (key_bytes (governing_token_owner v')) = le_bytes 8 (99 :: u64)"
proof -
  obtain L' where L': "update_max_voter_weight_record_instruction reference_runtime
      (example_update_max 31115) 99 example_with_voter = Inr L'"
    using example_hijack_runs by (auto simp add: is_ok_iff)
  have k: "key (um_max_voter_weight_record (example_update_max 31115)) = 31115"
    by (simp add: example_update_max_def)
  have "key_bytes (governing_token_owner example_record) ! 8 = 0"
    using example_key_tag by (simp add: key_bytes_def key_parts nth_append)
  then show ?thesis
    using update_max_reassigns_voter_record [OF reference_runtime_ok L', unfolded k] L' example_views(2)
    by blast
qed

text \<open>C23: What an update of a voter weight record can be given besides a voter weight record: in a
  well-formed ledger, an account without its discriminator passes only if the registrar is
  for the zero realm and mint, or for a realm and mint that are the governance program and
  the realm of a registrar.\<close>

theorem undiscriminated_update_needs_odd_registrar:
  assumes "runtime_ok E" "ledger_ok E clock L"
    and "process E (Inr clock) (Update_voter_weight_record c) L = Inr L'"
    and "\<not> discriminated E (Update_voter_weight_record c) L"
    and "load_registrar E L (uv_registrar c) = Inr r"
  shows "reg_realm r = 0 \<and> reg_governing_token_mint r = 0 \<or>
    (\<exists>r'. view E (L (key (uv_voter_weight_record c))) = ViewRegistrar r' \<and>
       reg_realm r = governance_program_id r' \<and> reg_governing_token_mint r = reg_realm r')"
proof -
  let ?k = "key (uv_voter_weight_record c)"
  obtain v where p: "update_permitted E clock c L v"
    using assms(3) by (auto simp add: update_voter_weight_record_ok)
  then have "vwr_realm v = reg_realm r" "vwr_governing_token_mint v = reg_governing_token_mint r"
    and "acc_owner (L ?k) = PROGRAM_ID"
      "voter_weight_record_deserialize_unchecked (acc_data (L ?k)) = Inr v"
    using assms(5) by (auto simp add: update_permitted_def load_registrar_def load_account_Inr)
  moreover note ledger_okD(1) [OF assms(2), of ?k]
  ultimately show ?thesis
    using undiscriminated_voter_record [OF assms(1)] assms(4) by fastforce
qed

theorem undiscriminated_update_needs_odd_registrar_witness:
  "reg_realm zero_registrar = 0 \<and> reg_governing_token_mint zero_registrar = 0 \<or>
    (\<exists>r'. view reference_runtime (zero_ledger (key (uv_voter_weight_record zero_update))) =
            ViewRegistrar r' \<and>
       reg_realm zero_registrar = governance_program_id r' \<and>
       reg_governing_token_mint zero_registrar = reg_realm r')"
proof -
  obtain L' where L': "process reference_runtime (Inr example_clock)
      (Update_voter_weight_record zero_update) zero_ledger = Inr L'"
    using zero_update_runs by (auto simp add: is_ok_iff)
  have "load_registrar reference_runtime zero_ledger (uv_registrar zero_update) = Inr zero_registrar"
    using zero_registrar_loads by (simp add: zero_update_def)
  then show ?thesis
    by (rule undiscriminated_update_needs_odd_registrar [OF reference_runtime_ok zero_ledger_ok L'
          zero_update_undiscriminated])
qed

end
