(* ===== verification/Spec2Isabelle.thy ===== *)
theory Spec2Isabelle
  imports Weight_Properties Admin_Properties Format_Properties
begin

text \<open>
  The Entros governance plugin: a verification development for the Solana program of
  programs/entros-voter-weight, a voter-weight addin for spl-governance that gives
  every holder of a valid Entros identity one vote.

  The program. A realm's authority configures a registrar (create_registrar,
  update_registrar, close_registrar): the governance program, realm and mint it
  stands for, a minimum trust score and a maximum age of verification. A voter
  creates a voter weight record, which is born without weight and expired. An update
  reads the bytes of the voter's IdentityState account of the Entros Anchor program
  and, if the voter is eligible under the registrar, grants weight 1 for ten slots;
  the update for an action grants it for the current slot, one action and one target.
  The voter may close the record. A max voter weight record, managed by the realm's
  authority, holds the total for quorums. spl-governance reads the two records; it is
  outside the repository.

  The theories, in the order of their imports.
  Entros_Prelude: Rust's machine types, results, little-endian bytes, checked and
  saturating arithmetic. Entros_Error: error.rs. Solana_Runtime: ledger, account
  metas, clock, the code outside the repository as the record \<open>runtime\<close>, and the
  meaning of the account attributes. Borsh_Codec: the locale \<open>codec\<close> and its
  instances. Plugin_State: state/registrar.rs and governance.rs, the locale
  \<open>account_type\<close>. Identity_Check: verify_voter_identity_and_recency and its
  specification \<open>identity_eligible\<close>. Instruction_Contract: the realm authority
  check, address seeds, and the contracts of instructions as locales.
  Registrar_Instructions, Voter_Weight_Instructions, Max_Weight_Instructions: the
  files of instructions/; per instruction its accounts struct, what derive(Accounts)
  generates (\<open>..._try_accounts\<close>), the handler under its own name, the composition
  with what Anchor does around it (\<open>..._instruction\<close>), the condition under which it
  succeeds (\<open>..._ok\<close>), and the interpretations of the contracts. Account_View: the
  typed reading of accounts and two invariants of it, \<open>ledger_ok\<close> and the weaker
  \<open>ledger_sound\<close>. Record_Confusion: what the readers accept that was not written for
  them. Program_Dispatch: lib.rs, \<open>process\<close>, the effect of creations, updates and
  closings, and which accounts accepted calls have read. Typed_Refinement: the abstract
  machine \<open>spec_apply\<close> on typed accounts and the refinement of instructions.
  Account_Invariant: preservation of \<open>ledger_sound\<close> by calls and transactions.
  Plugin_System: the program on a chain with an arbitrary environment, reachable states,
  who changes what, records without a registrar. Reference_Runtime: an environment that
  satisfies the assumptions and a concrete chain, from which the witnesses are taken.
  Weight_Properties, Admin_Properties, Format_Properties and this theory: the properties
  C1 to C40.

  How the state corresponds. A Pubkey and a fixed byte array are words whose
  little-endian bytes they are; u16, u64 and i64 are words, read with unat and sint
  where Rust compares. Accounts are bytes with an owner; a handler's typed account is
  the value that was read from them, stored back over the front of the buffer on exit,
  older bytes behind a shorter encoding included. Errors are the left side of a sum:
  the program's own, Anchor's constraint errors by name, the codes of outside code,
  and panics. An instruction that fails leaves the ledger as it was, since its result
  then has none.

  The environment. \<open>runtime\<close> holds the address derivation and the realm lookup, of
  which nothing is assumed; the three account discriminators, assumed distinct and
  non-zero; and Anchor's init and close, assumed to do what their documentation says
  of the account, the destination and everybody else (\<open>runtime_ok\<close>, with
  \<open>reference_runtime_ok\<close> as evidence that this can hold). The statements about runs
  assume two things more (\<open>chain_ok\<close>, \<open>reference_chain_ok\<close>): closing an account does not
  make it executable, and no realm stands at an address of a program (\<open>progs\<close>) or at the
  default address. spl-governance derives the addresses of its realms, so no program can be
  deployed there; the plugin takes any executable account as the governance program and
  does not check this itself. The struct fields and the
  Borsh layout of the addin's two records are those that governance.rs and the unit
  tests of the program write out. Anchor's constraints are checked init accounts
  first, then in declaration order, which decides the error an invalid call reports
  and nothing in the properties.

  What the groups of lemmas show. Formats: every account reads back as written, for
  every value and over any buffer, in exactly the space it is created with. Identity
  check: every branch, no panic, the age test on integers. Instructions: exact success
  conditions and effects. Contracts: one account changes per call, other programs'
  accounts never, admin calls need the looked-up authority, nothing is created twice,
  updates move no lamports, closing pays out. System: in reachable states the accounts
  are well formed, weight comes with a near expiry, changes are signed by the owner or the
  authority, an eligible voter does obtain the vote, records whose registrar is closed are
  stranded; on careful runs a key has one record per realm and mint and weight sums to at
  most the number of owners. Refinement: the bytes implement the typed machine.

  Discriminators. The wrappers of governance.rs implement only
  try_deserialize_unchecked, so the four instructions that load a weight record do not
  compare its discriminator. The steps and the reachable states of Plugin_System are those
  of all accepted calls, with no condition on what they are given. What such a call may have
  been given is proved: in reachable states the target is an account of the right kind,
  except that update_max_voter_weight_record may be given a voter weight record
  (calls_find_their_target). It then rewrites part of the owner's key and nothing else
  (\<open>reassigns\<close>, \<open>reassigned_owner\<close>, update_max_reassigns_voter_record). The specification
  \<open>spec_apply\<close> has an equation for it, and the statement on changes of records a case.
  Only one_person_one_vote is confined to runs without such calls (\<open>careful_call\<close>), and it
  says so; careless_run_gives_two_records runs the program into a state in which a key owns
  two records of one realm and mint. Outside of runs, undiscriminated_update_needs_odd_registrar says what
  an update of a voter record can be given when nothing is assumed of realms.

  Bounds. No definition uses fuel; every recursion is structural. The model does not
  bound ledgers, transactions or runs.

  Not modelled: the routing of instruction bytes and the IDL, which Anchor generates;
  rent amounts and the System program's transfers beyond the contract of init; the
  borrow of account data, which no handler holds twice; compute budgets; logging and
  error messages; spl-governance's use of the records; the TypeScript tests, scripts
  and fixtures. Clock::get is an argument that may fail.
\<close>

section \<open>Reachable states\<close>

text \<open>C1: In every reachable state, whatever calls were accepted on the way, the accounts of the
  program are well formed: a registrar or a max voter weight record stands at the address
  derived from its own fields, a voter weight record at the address derived from its realm and
  mint and some key; each has the size it was created with and is in a state the handlers
  produce; any other account of the program is zeroed. The chain is one on which no realm
  stands at a program's or the default address.\<close>

theorem reachable_accounts_well_formed:
  assumes "chain_ok E progs" "reachable E progs s"
  shows "ledger_sound E progs (clock_of s) (ledger_of s)"
  by (rule reachable_ledger_sound [OF assms])

text \<open>The state in which an update of the max voter weight record has been given a voter's record.\<close>

theorem reachable_accounts_well_formed_witness:
  "\<exists>L'. process reference_runtime (Inr example_clock)
      (Update_max_voter_weight_record (example_update_max 31115) 99) example_with_voter = Inr L' \<and>
    ledger_sound reference_runtime reference_programs example_clock L'"
proof -
  obtain L' where p: "process reference_runtime (Inr example_clock)
      (Update_max_voter_weight_record (example_update_max 31115) 99) example_with_voter = Inr L'"
    using example_hijack_runs by (auto simp add: is_ok_iff)
  have "reachable reference_runtime reference_programs (example_system L')"
    by (rule example_system_step [OF example_with_voter_reachable p]) simp
  then show ?thesis using reachable_accounts_well_formed [OF reference_chain_ok] p by fastforce
qed

text \<open>C2: One person, one vote, on careful runs, which are those that give no voter weight record
  to an update of the max voter weight record: in every state reached by such a run a key has
  at most one record per realm and mint, and the weights of all the records of a realm and mint
  sum to at most the number of the keys that own them. The program itself does not ensure that
  runs are careful. The chain is one on which no realm stands at a program's or the default
  address.\<close>

theorem one_person_one_vote:
  assumes "chain_ok E progs" "reachable_by E progs (careful_call E) s" "distinct ks"
  shows "distinct (map governing_token_owner (voter_records E (ledger_of s) realm mint ks)) \<and>
    total_weight (voter_records E (ledger_of s) realm mint ks)
      \<le> card (governing_token_owner ` set (voter_records E (ledger_of s) realm mint ks))"
  using owners_distinct total_weight_le_owners careful_reachable_ok [OF assms(1,2)] assms(3) by blast

theorem one_person_one_vote_witness:
  "voter_records reference_runtime example_granted 11 7 [7073, 31115] =
     [granted_record example_record example_clock] \<and>
   total_weight (voter_records reference_runtime example_granted 11 7 [7073, 31115]) \<le> 1"
proof -
  have "view reference_runtime (example_granted 7073) = ViewRegistrar example_registrar"
    using example_views(1) by (simp add: example_granted_def store_record_frame)
  then have "voter_records reference_runtime example_granted 11 7 [7073, 31115] =
      [granted_record example_record example_clock]"
    using example_views(3)
    by (simp add: voter_records_simps voter_record_at_def granted_record_def example_record_fields)
  then show ?thesis
    using one_person_one_vote [OF reference_chain_ok example_granted_careful,
        of "[7073, 31115]" 11 7]
    by simp
qed

text \<open>C4: Weight is short-lived: in every reachable state, whatever calls were accepted on the way,
  a record with weight expires, at the latest ten slots from now, or in the current slot if it
  is bound to an action, and then it names a real target. The chain is one on which no realm
  stands at a program's or the default address.\<close>

theorem weight_is_short_lived:
  assumes "chain_ok E progs" "reachable E progs s"
    and "view E (ledger_of s k) = ViewVoter v" "voter_weight v \<noteq> 0"
  shows "voter_weight v = 1 \<and>
    (\<exists>e. voter_weight_expiry v = Some e \<and>
      (case weight_action v of
         None \<Rightarrow> weight_action_target v = None \<and> unat e \<le> unat (slot (clock_of s)) + 10
       | Some a \<Rightarrow> e \<le> slot (clock_of s) \<and>
           (\<exists>t. weight_action_target v = Some t \<and> t \<noteq> default_pubkey)))"
proof -
  have "granted_any (clock_of s) v \<or> granted_bound (clock_of s) v"
    using voter_record_state [OF reachable_ledger_sound [OF assms(1,2)] assms(3)] assms(4)
    by (auto simp add: voter_record_ok_def never_granted_def)
  then show ?thesis
    by (auto simp add: granted_any_def granted_bound_def word_le_nat_alt unat_saturating_add_u64
        VOTER_WEIGHT_EXPIRY_SLOT_WINDOW_def split: option.splits)
qed

theorem weight_is_short_lived_witness:
  "\<exists>e. voter_weight_expiry (granted_record example_record example_clock) = Some e \<and>
    unat e \<le> unat (slot (clock_of (example_system example_granted))) + 10"
  using weight_is_short_lived [OF reference_chain_ok example_granted_reachable, of 31115]
  by (simp add: example_views granted_record_def)

text \<open>C33: Registrars of reachable states have a positive age limit and stand at their derived
  address; max voter weight records of reachable states are either as created (weight 0,
  expired) or carry a positive weight that does not expire. This holds whatever calls were
  accepted on the way, on a chain on which no realm stands at a program's or the default
  address.\<close>

theorem reachable_configuration:
  assumes "chain_ok E progs" "reachable E progs s"
  shows "(view E (ledger_of s k) = ViewRegistrar r \<longrightarrow>
       0 < sint (max_verification_age r) \<and>
       k = registrar_pda E (reg_realm r) (reg_governing_token_mint r)) \<and>
    (view E (ledger_of s k) = ViewMax m \<longrightarrow>
       k = max_voter_weight_record_pda E (max_realm m) (max_governing_token_mint m) \<and>
       (max_voter_weight m = 0 \<and> max_voter_weight_expiry m = Some 0 \<or>
        0 < max_voter_weight m \<and> max_voter_weight_expiry m = None))"
  using ledger_soundD(2) [OF reachable_ledger_sound [OF assms], of k]
  by (auto simp add: max_record_ok_def)

theorem reachable_configuration_witness:
  "view reference_runtime (ledger_of (example_system example_with_voter) 7073) =
      ViewRegistrar example_registrar \<and> 0 < sint (max_verification_age example_registrar)"
  using reachable_configuration [OF reference_chain_ok example_with_voter_reachable, of 7073]
  by (simp add: example_views)

section \<open>Steps\<close>

text \<open>C3: In a reachable state a voter weight record appears, changes or disappears in one of two
  ways only. Either its owner has signed the call, and if it comes out with weight the owner is
  eligible at that clock under the registrar of the record's realm and mint. Or the call is an
  update of the max voter weight record that has been given the voter weight record: the
  authority of the realm has signed it, and it changes the record's owner, by the new weight,
  and no other field. The chain is one on which no realm stands at a program's or the default
  address.\<close>

theorem record_changes_are_signed_and_eligible:
  assumes "chain_ok E progs" "reachable E progs s"
    and "process E (Inr (clock_of s)) c (ledger_of s) = Inr L'"
    and "view E (L' k) \<noteq> view E (ledger_of s k)"
    and "view E (L' k) = ViewVoter v \<or> view E (ledger_of s k) = ViewVoter v"
  shows "signed_change E (clock_of s) c (ledger_of s) (view E (L' k)) v \<or>
    reassigning_change E c (ledger_of s) (view E (ledger_of s k)) (view E (L' k))"
  by (rule voter_change [OF chain_okD(1) [OF assms(1)] reachable_ledger_sound [OF assms(1,2)] assms(3-5)])

theorem record_changes_are_signed_and_eligible_witness:
  "signed_change reference_runtime example_clock (Update_voter_weight_record example_update)
     example_with_voter (ViewVoter (granted_record example_record example_clock))
     (granted_record example_record example_clock)"
proof -
  let ?s = "example_system example_with_voter" and ?c = "Update_voter_weight_record example_update"
    and ?v = "granted_record example_record example_clock"
  have p: "process reference_runtime (Inr (clock_of ?s)) ?c (ledger_of ?s) = Inr example_granted"
    by (simp add: example_update_runs)
  have "voter_weight ?v = 1" by (simp add: granted_record_def)
  then have "?v \<noteq> example_record" using example_record_fields(4) by auto
  then have "view reference_runtime (example_granted 31115) \<noteq>
      view reference_runtime (ledger_of ?s 31115)"
    by (simp add: example_views)
  from record_changes_are_signed_and_eligible [OF reference_chain_ok example_with_voter_reachable
      p this, of ?v]
  show ?thesis by (simp add: example_views reassigning_change_def)
qed

text \<open>C10: In a reachable state a registrar appears, changes or disappears only in a call signed
  by the authority of its realm, looked up under its own governance program and mint. The chain
  is one on which no realm stands at a program's or the default address.\<close>

theorem registrar_changes_are_authorised:
  assumes "chain_ok E progs" "reachable E progs s"
    and "process E (Inr (clock_of s)) c (ledger_of s) = Inr L'"
    and "view E (L' k) \<noteq> view E (ledger_of s k)"
    and "view E (L' k) = ViewRegistrar r \<or> view E (ledger_of s k) = ViewRegistrar r"
  shows "\<exists>m. call_authority c = Some m \<and> is_signer m \<and>
    authorised_at E (ledger_of s) k (governance_program_id r) (reg_realm r)
      (reg_governing_token_mint r) (key m)"
  by (rule registrar_change_authorised [OF chain_okD(1) [OF assms(1)]
        reachable_ledger_sound [OF assms(1,2)] assms(3-5)])

theorem registrar_changes_are_authorised_witness:
  "\<exists>m. call_authority (Create_registrar example_create_registrar 100 2592000) = Some m \<and>
    is_signer m \<and> authorised_at reference_runtime example_chain 7073 5 11 7 (key m)"
proof -
  have "view reference_runtime (example_with_registrar 7073) = ViewRegistrar example_registrar"
    by (simp add: view_registrar example_registrar_loads)
  moreover have "view reference_runtime (example_chain 7073) = ViewNone"
    by (rule view_foreign) (simp add: example_chain_def empty_account_def SYSTEM_PROGRAM_ID_def)
  ultimately show ?thesis
    using registrar_changes_are_authorised [OF reference_chain_ok example_chain_reachable,
        where c = "Create_registrar example_create_registrar 100 2592000"
          and L' = example_with_registrar and k = 7073 and r = example_registrar]
    by (simp add: example_create_registrar_runs)
qed

text \<open>C38: What the accepted calls of reachable states find at the account they write: a creation
  finds no record of the program; an update or a closing of a registrar finds a registrar, one
  of a voter weight record a voter weight record; only the update of the max voter weight
  record may find, instead of such a record, a voter weight record. So no registrar and no
  zeroed account is ever taken for a weight record, although the program does not compare
  discriminators. The chain is one on which no realm stands at a program's or the default
  address.\<close>

theorem calls_find_their_target:
  assumes "chain_ok E progs" "reachable E progs s"
    and "process E (Inr (clock_of s)) c (ledger_of s) = Inr L'"
  shows "case c of
      Create_registrar a min_score max_age \<Rightarrow> view E (ledger_of s (call_target c)) = ViewNone
    | Create_voter_weight_record a w \<Rightarrow> view E (ledger_of s (call_target c)) = ViewNone
    | Create_max_voter_weight_record a \<Rightarrow> view E (ledger_of s (call_target c)) = ViewNone
    | Update_max_voter_weight_record a w \<Rightarrow>
        (\<exists>m. view E (ledger_of s (call_target c)) = ViewMax m) \<or>
        (\<exists>v. view E (ledger_of s (call_target c)) = ViewVoter v)
    | Update_registrar a min_score max_age \<Rightarrow>
        \<exists>r. view E (ledger_of s (call_target c)) = ViewRegistrar r
    | Close_registrar a \<Rightarrow> \<exists>r. view E (ledger_of s (call_target c)) = ViewRegistrar r
    | _ \<Rightarrow> \<exists>v. view E (ledger_of s (call_target c)) = ViewVoter v"
  by (rule view_target_before [OF chain_okD(1) [OF assms(1)] reachable_ledger_sound [OF assms(1,2)]
        assms(3)])

theorem calls_find_their_target_witness:
  "\<exists>v. view reference_runtime (example_with_voter 31115) = ViewVoter v"
  using calls_find_their_target [OF reference_chain_ok example_with_voter_reachable,
      where c = "Update_voter_weight_record example_update" and L' = example_granted]
  by (simp add: example_update_runs) (simp add: example_update_fields)

section \<open>Refinement\<close>

text \<open>C6: An instruction accepted in a reachable state has, on the typed reading of the ledger,
  exactly the effect of the abstract specification, at every address; the specification has an
  equation also for the update of the max voter weight record that is given a voter weight
  record. The chain is one on which no realm stands at a program's or the default address.\<close>

theorem program_refines_specification:
  assumes "chain_ok E progs" "reachable E progs s"
    and "process E (Inr (clock_of s)) c (ledger_of s) = Inr L'"
  shows "typed_view E L' = spec_apply E (clock_of s) c (typed_view E (ledger_of s))"
  by (rule process_refines [OF chain_okD(1) [OF assms(1)] reachable_ledger_sound [OF assms(1,2)]
        assms(3)])

theorem program_refines_specification_witness:
  "typed_view reference_runtime example_granted 31115 =
     ViewVoter (granted_record example_record example_clock) \<and>
   typed_view reference_runtime example_granted =
     spec_apply reference_runtime example_clock (Update_voter_weight_record example_update)
       (typed_view reference_runtime example_with_voter)"
proof -
  have "typed_view reference_runtime example_granted 31115 =
      ViewVoter (granted_record example_record example_clock)"
    by (simp add: typed_view_def example_views)
  then show ?thesis
    using program_refines_specification [OF reference_chain_ok example_with_voter_reachable,
        of "Update_voter_weight_record example_update" example_granted]
    by (simp add: example_update_runs del: spec_apply.simps)
qed

text \<open>C7: A transaction that succeeds in a reachable state has the effect of its instructions'
  specifications in order, and leaves the accounts well formed. The chain is one on which no
  realm stands at a program's or the default address.\<close>

theorem transaction_refines_specification:
  assumes "chain_ok E progs" "reachable E progs s"
    and "process_transaction E (clock_of s) cs (ledger_of s) = Inr L'"
  shows "typed_view E L' = spec_transaction E (clock_of s) cs (typed_view E (ledger_of s)) \<and>
    ledger_sound E progs (clock_of s) L'"
  by (rule transaction_simulation [OF assms(1) reachable_ledger_sound [OF assms(1,2)] assms(3)])

text \<open>The voter creates the record and obtains the vote in one transaction.\<close>

theorem transaction_refines_specification_witness:
  "typed_view reference_runtime example_granted =
     spec_transaction reference_runtime example_clock
       [Create_voter_weight_record example_create_voter 31, Update_voter_weight_record example_update]
       (typed_view reference_runtime example_with_registrar) \<and>
   ledger_sound reference_runtime reference_programs example_clock example_granted"
  using transaction_refines_specification [OF reference_chain_ok example_with_registrar_reachable,
      of "[Create_voter_weight_record example_create_voter 31, Update_voter_weight_record example_update]"
        example_granted]
  by (simp add: example_create_voter_runs example_update_runs
      del: spec_apply.simps spec_transaction.simps)

end
